theory Spec2Isabelle
  imports Main "HOL-Library.Sublist" "HOL-Library.Word"
begin

section \<open>Strings\<close>

text \<open>
  A string of the page (an attribute, a text, the address) is modelled as a
  \<^typ>\<open>string\<close>: the list of its code units, those below 256. The helpers below are the
  string methods and the three regular expressions that \<^verbatim>\<open>content.js\<close> uses. The argument
  of \<^verbatim>\<open>encodeURIComponent\<close> is a list of 16-bit code units: any JavaScript string, also one
  that holds a lone surrogate, the input on which the function raises.
\<close>

text \<open>
  Splitting at the characters that satisfy \<open>sep\<close>, never to an empty list; \<open>split_on c\<close> is
  \<^verbatim>\<open>s.split(c)\<close> for a one-character separator.
\<close>

fun split_where :: "(char \<Rightarrow> bool) \<Rightarrow> string \<Rightarrow> string list" where
  "split_where sep [] = [[]]"
| "split_where sep (x # xs) =
     (if sep x then [] # split_where sep xs
      else (case split_where sep xs of
              [] \<Rightarrow> [[x]]
            | seg # segs \<Rightarrow> (x # seg) # segs))"

definition split_on :: "char \<Rightarrow> string \<Rightarrow> string list" where
  "split_on c s = split_where (\<lambda>x. x = c) s"

text \<open>\<^verbatim>\<open>arr[i]\<close>: \<open>None\<close> is \<^verbatim>\<open>undefined\<close>, the value of an index out of range.\<close>

fun index_opt :: "'a list \<Rightarrow> nat \<Rightarrow> 'a option" where
  "index_opt [] i = None"
| "index_opt (x # xs) 0 = Some x"
| "index_opt (x # xs) (Suc i) = index_opt xs i"

text \<open>\<^verbatim>\<open>arr.pop()\<close>, as far as its value goes: the last element, \<^verbatim>\<open>undefined\<close> on an empty array.\<close>

fun pop :: "'a list \<Rightarrow> 'a option" where
  "pop [] = None"
| "pop [x] = Some x"
| "pop (x # y # ys) = pop (y # ys)"

definition startsWith :: "string \<Rightarrow> string \<Rightarrow> bool" where
  "startsWith p s = (take (length p) s = p)"

text \<open>The class \<^verbatim>\<open>\d\<close> and the test \<^verbatim>\<open>/^\d+$/\<close>.\<close>

definition is_digit :: "char \<Rightarrow> bool" where
  "is_digit c = (c \<in> set ''0123456789'')"

definition all_digits :: "string \<Rightarrow> bool" where
  "all_digits s = (s \<noteq> [] \<and> list_all is_digit s)"

text \<open>
  The class \<^verbatim>\<open>\s\<close> on code units below 256: tab, line feed, vertical tab, form feed,
  carriage return, space and the no-break space.
\<close>

definition is_space :: "char \<Rightarrow> bool" where
  "is_space c = (c \<in> set [CHR 0x09, CHR 0x0A, CHR 0x0B, CHR 0x0C, CHR 0x0D, CHR '' '', CHR 0xA0])"

text \<open>\<^verbatim>\<open>s.replace(/\s+/g, "-")\<close>: every maximal run of white space becomes one hyphen.\<close>

function replace_spaces :: "string \<Rightarrow> string" where
  "replace_spaces [] = []"
| "replace_spaces (c # cs) =
     (if is_space c then CHR ''-'' # replace_spaces (dropWhile is_space cs)
      else c # replace_spaces cs)"
  by pat_completeness auto
termination
  by (relation "measure length") (auto simp: length_dropWhile_le less_Suc_eq_le)

text \<open>
  \<^verbatim>\<open>url.match(/letterboxd.com\/film\/([^/]+)/)\<close>. The dot is not escaped in the source: it
  stands for any one character but a line terminator. \<open>film_match_here\<close> matches the
  expression at the start of its argument and gives the group; \<open>film_match\<close> is the search
  from left to right, the first position that matches.
\<close>

definition line_terminator :: "char \<Rightarrow> bool" where
  "line_terminator c = (c = CHR 0x0A \<or> c = CHR 0x0D)"

definition film_match_here :: "string \<Rightarrow> string option" where
  "film_match_here s =
     (if take 10 s = ''letterboxd'' \<and> 10 < length s \<and> \<not> line_terminator (s ! 10)
         \<and> take 9 (drop 11 s) = ''com/film/''
         \<and> takeWhile (\<lambda>c. c \<noteq> CHR ''/'') (drop 20 s) \<noteq> []
      then Some (takeWhile (\<lambda>c. c \<noteq> CHR ''/'') (drop 20 s))
      else None)"

fun film_match :: "string \<Rightarrow> string option" where
  "film_match [] = None"
| "film_match (c # cs) =
     (case film_match_here (c # cs) of
        Some m \<Rightarrow> Some m
      | None \<Rightarrow> film_match cs)"

text \<open>What the engine and the browser raise.\<close>

datatype exn = TypeError | NetworkFailure | SyntaxError | URIError

text \<open>
  \<^verbatim>\<open>encodeURIComponent\<close>. Its argument is a list of 16-bit code units; \<open>units\<close> is a
  string of the page as such a list. The function goes through the code points of its
  argument: a high surrogate (\<^verbatim>\<open>D800\<close> to \<^verbatim>\<open>DBFF\<close>) followed by a low surrogate (\<^verbatim>\<open>DC00\<close> to
  \<^verbatim>\<open>DFFF\<close>) is the code point of the pair, any other code unit is a code point by itself,
  and a surrogate that is not part of such a pair raises a \<^verbatim>\<open>URIError\<close>. Letters, digits
  and \<^verbatim>\<open>- _ . ! ~ * ' ( )\<close> stay; every other code point is written as the percent-encoded
  bytes of its UTF-8 form.
\<close>

type_synonym jsstring = "16 word list"

definition units :: "string \<Rightarrow> jsstring" where
  "units s = map (\<lambda>c. of_nat (of_char c)) s"

definition high_surrogate :: "16 word \<Rightarrow> bool" where
  "high_surrogate u = (0xD800 \<le> unat u \<and> unat u \<le> 0xDBFF)"

definition low_surrogate :: "16 word \<Rightarrow> bool" where
  "low_surrogate u = (0xDC00 \<le> unat u \<and> unat u \<le> 0xDFFF)"

definition unreserved :: "char \<Rightarrow> bool" where
  "unreserved c =
     (c \<in> set (''ABCDEFGHIJKLMNOPQRSTUVWXYZabcdefghijklmnopqrstuvwxyz0123456789-_.!~*()''
               @ [CHR 0x27]))"

definition percent :: "nat \<Rightarrow> string" where
  "percent n = [CHR ''%'', ''0123456789ABCDEF'' ! (n div 16), ''0123456789ABCDEF'' ! (n mod 16)]"

definition encode_point :: "nat \<Rightarrow> string" where
  "encode_point n =
     (if n < 0x80 then (if unreserved (char_of n) then [char_of n] else percent n)
      else if n < 0x800 then percent (0xC0 + n div 0x40) @ percent (0x80 + n mod 0x40)
      else if n < 0x10000 then
        percent (0xE0 + n div 0x1000) @ percent (0x80 + n div 0x40 mod 0x40)
          @ percent (0x80 + n mod 0x40)
      else
        percent (0xF0 + n div 0x40000) @ percent (0x80 + n div 0x1000 mod 0x40)
          @ percent (0x80 + n div 0x40 mod 0x40) @ percent (0x80 + n mod 0x40))"

definition pair_point :: "16 word \<Rightarrow> 16 word \<Rightarrow> nat" where
  "pair_point u v = 0x10000 + (unat u - 0xD800) * 0x400 + (unat v - 0xDC00)"

fun encodeURIComponent :: "jsstring \<Rightarrow> exn + string" where
  "encodeURIComponent [] = Inr []"
| "encodeURIComponent [u] =
     (if high_surrogate u \<or> low_surrogate u then Inl URIError
      else Inr (encode_point (unat u)))"
| "encodeURIComponent (u # v # vs) =
     (if high_surrogate u then
        (if low_surrogate v then
           (case encodeURIComponent vs of
              Inl e \<Rightarrow> Inl e
            | Inr r \<Rightarrow> Inr (encode_point (pair_point u v) @ r))
         else Inl URIError)
      else if low_surrogate u then Inl URIError
      else
        (case encodeURIComponent (v # vs) of
           Inl e \<Rightarrow> Inl e
         | Inr r \<Rightarrow> Inr (encode_point (unat u) @ r)))"

section \<open>The page\<close>

text \<open>
  A node of the page is an element (its lower-case tag name, its attributes in the order
  they were set, its child nodes) or a text node.
\<close>

datatype node = Element string "(string \<times> string) list" "node list" | TextNode string

fun kids :: "node \<Rightarrow> node list" where
  "kids (Element tg al ks) = ks"
| "kids (TextNode t) = []"

fun attribute :: "string \<Rightarrow> node \<Rightarrow> string option" where
  "attribute k (Element tg al ks) = map_of al k"
| "attribute k (TextNode t) = None"

fun has_tag :: "string \<Rightarrow> node \<Rightarrow> bool" where
  "has_tag t (Element tg al ks) = (tg = t)"
| "has_tag t (TextNode s) = False"

text \<open>
  A class selector matches an element whose \<^verbatim>\<open>class\<close> attribute, split at ASCII white
  space, has the class among its tokens (the page is in no-quirks mode: the comparison is
  exact); \<^verbatim>\<open>getElementById\<close> compares the \<^verbatim>\<open>id\<close> attribute.
\<close>

definition ascii_space :: "char \<Rightarrow> bool" where
  "ascii_space c = (c \<in> set [CHR 0x09, CHR 0x0A, CHR 0x0C, CHR 0x0D, CHR '' ''])"

definition has_class :: "string \<Rightarrow> node \<Rightarrow> bool" where
  "has_class c n =
     (case attribute ''class'' n of
        None \<Rightarrow> False
      | Some v \<Rightarrow> c \<in> set (split_where ascii_space v))"

definition has_id :: "string \<Rightarrow> node \<Rightarrow> bool" where
  "has_id i n = (attribute ''id'' n = Some i)"

text \<open>The first element, in document order, that satisfies \<open>P\<close>.\<close>

fun find_first :: "(node \<Rightarrow> bool) \<Rightarrow> node list \<Rightarrow> node option" where
  "find_first P [] = None"
| "find_first P (TextNode t # ns) = find_first P ns"
| "find_first P (Element tg al ks # ns) =
     (if P (Element tg al ks) then Some (Element tg al ks)
      else (case find_first P ks of
              Some n \<Rightarrow> Some n
            | None \<Rightarrow> find_first P ns))"

text \<open>
  The child combinator \<^verbatim>\<open>P > C\<close>: the first element, in document order, that satisfies
  \<open>C\<close> and whose parent satisfies \<open>P\<close>; \<open>up\<close> says whether the parent of the nodes at hand
  does.
\<close>

fun find_child :: "(node \<Rightarrow> bool) \<Rightarrow> (node \<Rightarrow> bool) \<Rightarrow> bool \<Rightarrow> node list \<Rightarrow> node option" where
  "find_child P C up [] = None"
| "find_child P C up (TextNode t # ns) = find_child P C up ns"
| "find_child P C up (Element tg al ks # ns) =
     (if up \<and> C (Element tg al ks) then Some (Element tg al ks)
      else (case find_child P C (P (Element tg al ks)) ks of
              Some n \<Rightarrow> Some n
            | None \<Rightarrow> find_child P C up ns))"

text \<open>
  The page with \<open>f\<close> applied to the first element that satisfies \<open>P\<close>, the element that
  \<open>find_first\<close> returns; \<open>None\<close> when there is none.
\<close>

fun modify_first :: "(node \<Rightarrow> bool) \<Rightarrow> (node \<Rightarrow> node) \<Rightarrow> node list \<Rightarrow> node list option" where
  "modify_first P f [] = None"
| "modify_first P f (TextNode t # ns) =
     (case modify_first P f ns of
        None \<Rightarrow> None
      | Some ns' \<Rightarrow> Some (TextNode t # ns'))"
| "modify_first P f (Element tg al ks # ns) =
     (if P (Element tg al ks) then Some (f (Element tg al ks) # ns)
      else (case modify_first P f ks of
              Some ks' \<Rightarrow> Some (Element tg al ks' # ns)
            | None \<Rightarrow>
                (case modify_first P f ns of
                   None \<Rightarrow> None
                 | Some ns' \<Rightarrow> Some (Element tg al ks # ns'))))"

fun append_child :: "node \<Rightarrow> node \<Rightarrow> node" where
  "append_child c (Element tg al ks) = Element tg al (ks @ [c])"
| "append_child c (TextNode t) = TextNode t"

text \<open>\<^verbatim>\<open>element.setAttribute(k, v)\<close> on the attribute list.\<close>

fun setAttribute :: "string \<Rightarrow> string \<Rightarrow> (string \<times> string) list \<Rightarrow> (string \<times> string) list" where
  "setAttribute k v [] = [(k, v)]"
| "setAttribute k v ((k', v') # al) =
     (if k' = k then (k, v) # al else (k', v') # setAttribute k v al)"

section \<open>Values, the network and the log\<close>

text \<open>
  The values the script handles: \<^verbatim>\<open>undefined\<close> and the values \<^verbatim>\<open>JSON.parse\<close> produces. A
  number is an integer here (an identifier of the movie database is one). An object of the
  browser that the script reads as a value (the \<^verbatim>\<open>.href\<close> of an SVG anchor) is an object with
  its properties.
\<close>

datatype jsval =
    JUndefined
  | JNull
  | JBool bool
  | JNum int
  | JStr string
  | JArr "jsval list"
  | JObj "(string \<times> jsval) list"

text \<open>\<^verbatim>\<open>!!v\<close>\<close>

fun truthy :: "jsval \<Rightarrow> bool" where
  "truthy JUndefined = False"
| "truthy JNull = False"
| "truthy (JBool b) = b"
| "truthy (JNum n) = (n \<noteq> 0)"
| "truthy (JStr s) = (s \<noteq> [])"
| "truthy (JArr xs) = True"
| "truthy (JObj kvs) = True"

text \<open>
  \<^verbatim>\<open>v[k]\<close>, for the keys the script reads (\<^verbatim>\<open>results\<close>, \<^verbatim>\<open>length\<close>, \<^verbatim>\<open>0\<close> and \<^verbatim>\<open>id\<close>): a
  \<^verbatim>\<open>TypeError\<close> on \<^verbatim>\<open>undefined\<close> and \<^verbatim>\<open>null\<close>, \<^verbatim>\<open>undefined\<close> for a key that is not there. Of
  a key written twice in a JSON object the last one counts.
\<close>

fun get_prop :: "jsval \<Rightarrow> string \<Rightarrow> exn + jsval" where
  "get_prop JUndefined k = Inl TypeError"
| "get_prop JNull k = Inl TypeError"
| "get_prop (JBool b) k = Inr JUndefined"
| "get_prop (JNum n) k = Inr JUndefined"
| "get_prop (JStr s) k =
     Inr (if k = ''length'' then JNum (int (length s))
          else if k = ''0'' then (case s of [] \<Rightarrow> JUndefined | c # cs \<Rightarrow> JStr [c])
          else JUndefined)"
| "get_prop (JArr xs) k =
     Inr (if k = ''length'' then JNum (int (length xs))
          else if k = ''0'' then (case xs of [] \<Rightarrow> JUndefined | x # ys \<Rightarrow> x)
          else JUndefined)"
| "get_prop (JObj kvs) k =
     Inr (case map_of (rev kvs) k of None \<Rightarrow> JUndefined | Some v \<Rightarrow> v)"

text \<open>\<^verbatim>\<open>null\<close> or a string, as a value.\<close>

fun js_of :: "string option \<Rightarrow> jsval" where
  "js_of None = JNull"
| "js_of (Some s) = JStr s"

text \<open>What \<^verbatim>\<open>await fetch(url)\<close> followed by \<^verbatim>\<open>await response.json()\<close> comes to.\<close>

datatype fetch_outcome = NetworkError | BadJson | Body jsval

text \<open>
  @typedef ServiceData: the three strings of a service descriptor.
\<close>

record ServiceData =
  name :: string
  url :: string
  icon :: string

text \<open>
  What the script does to the outside, in the order it does it: a query of the page
  (\<^verbatim>\<open>querySelector\<close>, \<^verbatim>\<open>getElementById\<close>, with its selector), a read of
  \<^verbatim>\<open>window.location.href\<close>, the creation of a detached node (its tag, \<^verbatim>\<open>#text\<close> for a text
  node), a change of the page (the method called), a request (its URL), a
  \<^verbatim>\<open>console.error\<close> (its message) and a call of the provider (its three arguments).
\<close>

datatype event =
    Query string
  | ReadLocation
  | Create string
  | Mutate string
  | Fetch string
  | ConsoleError string
  | CallProvider string "string option" jsval

text \<open>
  The state the script runs in. The page is the child nodes of its \<^verbatim>\<open>head\<close> element followed
  by those of its \<^verbatim>\<open>body\<close>; the \<^verbatim>\<open>html\<close>, \<^verbatim>\<open>head\<close> and \<^verbatim>\<open>body\<close> elements themselves are always
  there and carry none of the classes or ids the script looks for. \<open>href_of\<close> is the
  browser's \<^verbatim>\<open>.href\<close> of an element of the page, any value: a string for an HTML anchor,
  \<^verbatim>\<open>undefined\<close> for an element that has no such property, an object for an anchor inside an
  SVG image (its \<^verbatim>\<open>SVGAnimatedString\<close>). \<open>innerText_of\<close> is the browser's \<^verbatim>\<open>.innerText\<close>: a
  string, or \<open>None\<close> for \<^verbatim>\<open>undefined\<close> (an element that has no such property). \<open>location_href\<close>
  is \<^verbatim>\<open>window.location.href\<close>, a serialised address. \<open>fetch_reply\<close> is the network, by the
  URL requested. \<open>coerce_gt_zero\<close> is the engine's \<^verbatim>\<open>v > 0\<close> for a string, an array or an
  object \<open>v\<close>: a conversion to a primitive value and to a floating-point number, which can
  raise; it is left open. \<open>getServices\<close> is \<^verbatim>\<open>globalThis.getServices\<close>, \<open>None\<close> when no provider
  was supplied; the provider returns a list of descriptors or nothing (\<^verbatim>\<open>null\<close>,
  \<^verbatim>\<open>undefined\<close>). \<open>trace\<close> is the log of what the script has done so far. The script runs
  alone: nothing else changes the page while it waits for the network.
\<close>

record world =
  doc_head :: "node list"
  doc_body :: "node list"
  location_href :: string
  href_of :: "node \<Rightarrow> jsval"
  innerText_of :: "node \<Rightarrow> string option"
  fetch_reply :: "string \<Rightarrow> fetch_outcome"
  coerce_gt_zero :: "jsval \<Rightarrow> exn + bool"
  getServices :: "(string \<Rightarrow> string option \<Rightarrow> jsval \<Rightarrow> ServiceData list option) option"
  trace :: "event list"

definition log :: "event \<Rightarrow> world \<Rightarrow> world" where
  "log e w = w\<lparr>trace := trace w @ [e]\<rparr>"

definition doc_nodes :: "world \<Rightarrow> node list" where
  "doc_nodes w = doc_head w @ doc_body w"

text \<open>\<^verbatim>\<open>document.querySelector("." + c)\<close>\<close>

definition querySelector :: "string \<Rightarrow> world \<Rightarrow> node option \<times> world" where
  "querySelector c w =
     (find_first (has_class c) (doc_nodes w), log (Query (CHR ''.'' # c)) w)"

text \<open>\<^verbatim>\<open>document.getElementById(i)\<close>\<close>

definition getElementById :: "string \<Rightarrow> world \<Rightarrow> node option \<times> world" where
  "getElementById i w =
     (find_first (has_id i) (doc_nodes w), log (Query (CHR ''#'' # i)) w)"

text \<open>
  A change of the first element of the page that satisfies \<open>P\<close>: the element a query for
  \<open>P\<close> has just returned.
\<close>

definition update_first :: "(node \<Rightarrow> bool) \<Rightarrow> (node \<Rightarrow> node) \<Rightarrow> world \<Rightarrow> world" where
  "update_first P f w =
     (case modify_first P f (doc_head w) of
        Some h \<Rightarrow> w\<lparr>doc_head := h\<rparr>
      | None \<Rightarrow>
          (case modify_first P f (doc_body w) of
             Some b \<Rightarrow> w\<lparr>doc_body := b\<rparr>
           | None \<Rightarrow> w))"

section \<open>Reading the page\<close>

text \<open>
  \<^verbatim>\<open>document.querySelector(...)?.href\<close>: \<^verbatim>\<open>undefined\<close> when no element was found, the
  \<^verbatim>\<open>.href\<close> of the element otherwise.
\<close>

definition optional_href :: "world \<Rightarrow> node option \<Rightarrow> jsval" where
  "optional_href w el = (case el of None \<Rightarrow> JUndefined | Some e \<Rightarrow> href_of w e)"

text \<open>
  \<^verbatim>\<open>url?.split("/")\<close> for the value \<open>u\<close> of \<^verbatim>\<open>url\<close>: \<^verbatim>\<open>undefined\<close> (\<open>None\<close>) when \<open>u\<close> is
  \<^verbatim>\<open>undefined\<close> or \<^verbatim>\<open>null\<close>, the segments when it is a string. Any other value has no method \<^verbatim>\<open>split\<close>: the call raises a
  \<^verbatim>\<open>TypeError\<close>.
\<close>

definition optional_split :: "jsval \<Rightarrow> exn + string list option" where
  "optional_split u =
     (case u of
        JUndefined \<Rightarrow> Inr None
      | JNull \<Rightarrow> Inr None
      | JStr s \<Rightarrow> Inr (Some (split_on CHR ''/'' s))
      | JBool b \<Rightarrow> Inl TypeError
      | JNum n \<Rightarrow> Inl TypeError
      | JArr xs \<Rightarrow> Inl TypeError
      | JObj kvs \<Rightarrow> Inl TypeError)"

text \<open>
  \<^verbatim>\<open>
  const getImdbID = () => {
    const url = document.querySelector(".micro-button")?.href;
    const id = url?.split("/")[4];
    return id?.startsWith("tt") ? id : null;
  };
  \<close>
  What the function throws (\<open>Inl\<close>) or returns (\<open>Inr\<close>), and the state it leaves.
\<close>

definition getImdbID :: "world \<Rightarrow> (exn + string option) \<times> world" where
  "getImdbID w =
     (let (el, w1) = querySelector ''micro-button'' w;
          url = optional_href w el
      in ((case optional_split url of
             Inl e \<Rightarrow> Inl e
           | Inr segments \<Rightarrow>
               (case Option.bind segments (\<lambda>l. index_opt l 4) of
                  None \<Rightarrow> Inr None
                | Some i \<Rightarrow> Inr (if startsWith ''tt'' i then Some i else None))), w1))"

text \<open>
  \<^verbatim>\<open>
  const getTmdbID = () => {
    const url = document.querySelector(".tmdb-button")?.href;
    const id = url?.split("/").pop();
    return id && /^\d+$/.test(id) ? id : null;
  };
  \<close>
\<close>

definition getTmdbID :: "world \<Rightarrow> (exn + string option) \<times> world" where
  "getTmdbID w =
     (let (el, w1) = querySelector ''tmdb-button'' w;
          url = optional_href w el
      in ((case optional_split url of
             Inl e \<Rightarrow> Inl e
           | Inr segments \<Rightarrow>
               (case Option.bind segments pop of
                  None \<Rightarrow> Inr None
                | Some i \<Rightarrow> Inr (if truthy (JStr i) \<and> all_digits i then Some i else None))), w1))"

text \<open>
  \<^verbatim>\<open>
  const getQuery = () => {
    const details = document.querySelector(".details");
    const title = details?.querySelector("h1")?.innerText;
    const year = details?.querySelector(".releaseyear > a")?.innerText;
    const rawQuery = `${title ?? ""}`;
    return rawQuery.replace(/\s+/g, "-");
  };
  \<close>
  The two queries inside the details container are made only when there is one.
\<close>

definition getQuery :: "world \<Rightarrow> string \<times> world" where
  "getQuery w =
     (let (details, w1) = querySelector ''details'' w;
          (heading, w2) =
            (case details of
               None \<Rightarrow> (None, w1)
             | Some d \<Rightarrow> (find_first (has_tag ''h1'') (kids d), log (Query ''h1'') w1));
          title = Option.bind heading (innerText_of w);
          (link, w3) =
            (case details of
               None \<Rightarrow> (None, w2)
             | Some d \<Rightarrow>
                 (find_child (has_class ''releaseyear'') (has_tag ''a'')
                    (has_class ''releaseyear'' d) (kids d),
                  log (Query ''.releaseyear > a'') w2));
          year = Option.bind link (innerText_of w);
          rawQuery = (case title of None \<Rightarrow> [] | Some t \<Rightarrow> t)
      in (replace_spaces rawQuery, w3))"

text \<open>
  \<^verbatim>\<open>
  const getLetterboxdFilmName = () => {
    const url = window.location.href;
    const match = url.match(/letterboxd.com\/film\/([^/]+)/);
    return match ? match[1] : null;
  };
  \<close>
\<close>

definition getLetterboxdFilmName :: "world \<Rightarrow> string option \<times> world" where
  "getLetterboxdFilmName w = (film_match (location_href w), log ReadLocation w)"

section \<open>The identifier lookup\<close>

text \<open>\<^verbatim>\<open>v > 0\<close>: \<^verbatim>\<open>undefined\<close> converts to \<^verbatim>\<open>NaN\<close>, \<^verbatim>\<open>null\<close> to 0, a boolean to 0 or 1.\<close>

definition js_gt_zero :: "world \<Rightarrow> jsval \<Rightarrow> exn + bool" where
  "js_gt_zero w v =
     (case v of
        JUndefined \<Rightarrow> Inr False
      | JNull \<Rightarrow> Inr False
      | JBool b \<Rightarrow> Inr b
      | JNum n \<Rightarrow> Inr (0 < n)
      | JStr s \<Rightarrow> coerce_gt_zero w v
      | JArr xs \<Rightarrow> coerce_gt_zero w v
      | JObj kvs \<Rightarrow> coerce_gt_zero w v)"

text \<open>
  The \<^verbatim>\<open>try\<close> block of \<^verbatim>\<open>fetchTmdbIdFromLetterboxd\<close>, from the reply of the network on: what
  it throws (\<open>Inl\<close>) or returns (\<open>Inr\<close>), with the state it leaves.
  \<^verbatim>\<open>
      const response = await fetch(apiUrl);
      const data = await response.json();
      if (data.results && data.results.length > 0) {
        return data.results[0].id;
      } else {
        console.error('Movie not found on TMDb');
        return null;
      }
  \<close>
\<close>

definition movie_not_found :: "world \<Rightarrow> (exn \<times> world) + (jsval \<times> world)" where
  "movie_not_found w = Inr (JNull, log (ConsoleError ''Movie not found on TMDb'') w)"

definition tmdb_try :: "fetch_outcome \<Rightarrow> world \<Rightarrow> (exn \<times> world) + (jsval \<times> world)" where
  "tmdb_try reply w =
     (case reply of
        NetworkError \<Rightarrow> Inl (NetworkFailure, w)
      | BadJson \<Rightarrow> Inl (SyntaxError, w)
      | Body data \<Rightarrow>
          (case get_prop data ''results'' of
             Inl e \<Rightarrow> Inl (e, w)
           | Inr results \<Rightarrow>
               if \<not> truthy results then movie_not_found w
               else
                 (case get_prop results ''length'' of
                    Inl e \<Rightarrow> Inl (e, w)
                  | Inr len \<Rightarrow>
                      (case js_gt_zero w len of
                         Inl e \<Rightarrow> Inl (e, w)
                       | Inr False \<Rightarrow> movie_not_found w
                       | Inr True \<Rightarrow>
                           (case get_prop results ''0'' of
                              Inl e \<Rightarrow> Inl (e, w)
                            | Inr first \<Rightarrow>
                                (case get_prop first ''id'' of
                                   Inl e \<Rightarrow> Inl (e, w)
                                 | Inr v \<Rightarrow> Inr (v, w)))))))"

text \<open>
  \<^verbatim>\<open>
  const fetchTmdbIdFromLetterboxd = async (filmName) => {
    const apiKey = 'e5bb3f8f15d40063752ff87b4c360b05';
    const apiUrl = `https://api.themoviedb.org/3/search/movie?api_key=${apiKey}&query=${encodeURIComponent(filmName)}`;
    try { ... } catch (error) {
      console.error('Error fetching TMDb data:', error);
      return null;
    }
  };
  \<close>
  The URL is built before the \<^verbatim>\<open>try\<close> statement: what \<^verbatim>\<open>encodeURIComponent\<close> raises is not
  caught. \<open>tmdb_try_catch\<close> is the \<^verbatim>\<open>try\<close> statement with its \<^verbatim>\<open>catch\<close> block, for the URL built.
  Of the result of the function, \<open>Inl\<close> is a rejected promise and \<open>Inr\<close> the value the promise
  resolves to.
\<close>

definition apiKey :: string where
  "apiKey = ''e5bb3f8f15d40063752ff87b4c360b05''"

definition apiUrl :: "jsstring \<Rightarrow> exn + string" where
  "apiUrl filmName =
     (case encodeURIComponent filmName of
        Inl e \<Rightarrow> Inl e
      | Inr q \<Rightarrow>
          Inr (''https://api.themoviedb.org/3/search/movie?api_key='' @ apiKey @ ''&query='' @ q))"

definition tmdb_try_catch :: "string \<Rightarrow> world \<Rightarrow> jsval \<times> world" where
  "tmdb_try_catch u w =
     (case tmdb_try (fetch_reply w u) (log (Fetch u) w) of
        Inr r \<Rightarrow> r
      | Inl (e, w1) \<Rightarrow> (JNull, log (ConsoleError ''Error fetching TMDb data:'') w1))"

definition fetchTmdbIdFromLetterboxd :: "jsstring \<Rightarrow> world \<Rightarrow> (exn + jsval) \<times> world" where
  "fetchTmdbIdFromLetterboxd filmName w =
     (case apiUrl filmName of
        Inl e \<Rightarrow> (Inl e, w)
      | Inr u \<Rightarrow> (let (v, w1) = tmdb_try_catch u w in (Inr v, w1)))"

section \<open>Building the links\<close>

definition createTextNode :: "string \<Rightarrow> world \<Rightarrow> node \<times> world" where
  "createTextNode t w = (TextNode t, log (Create ''#text'') w)"

text \<open>
  \<^verbatim>\<open>
  const createElement = (tag, attributes = {}, children = []) => {
    const element = document.createElement(tag);
    Object.entries(attributes).forEach(([key, value]) => {
      element.setAttribute(key, value);
    });
    children.forEach((child) => element.append(child));
    return element;
  };
  \<close>
\<close>

definition createElement ::
  "string \<Rightarrow> (string \<times> string) list \<Rightarrow> node list \<Rightarrow> world \<Rightarrow> node \<times> world" where
  "createElement tg attributes children w =
     (Element tg
        (foldl (\<lambda>al (k, v). setAttribute k v al) [] attributes)
        (foldl (\<lambda>ks child. ks @ [child]) [] children),
      log (Create tg) w)"

definition createServiceIcon :: "string \<Rightarrow> world \<Rightarrow> node \<times> world" where
  "createServiceIcon iconURL w =
     createElement ''img'' [(''src'', iconURL), (''width'', ''20''), (''height'', ''20'')] [] w"

text \<open>
  \<^verbatim>\<open>
  const addService = (serviceData) => {
    const services = document.querySelector(".services");
    if (!services) return;
    const { name, url, icon } = serviceData;
    const brand = createElement("span", { class: "brand" }, [createServiceIcon(icon)]);
    const title = createElement("span", { class: "title" }, [document.createTextNode(name)]);
    const serviceLink = createElement("a", { href: url, target: "_blank", class: "label" }, [brand, title]);
    const serviceItem = createElement("p", { class: "service" }, [serviceLink]);
    services.append(serviceItem);
  };
  \<close>
\<close>

definition addService :: "ServiceData \<Rightarrow> world \<Rightarrow> world" where
  "addService serviceData w =
     (let (services, w1) = querySelector ''services'' w in
      case services of
        None \<Rightarrow> w1
      | Some s \<Rightarrow>
          (let (image, w2) = createServiceIcon (icon serviceData) w1;
               (brand, w3) = createElement ''span'' [(''class'', ''brand'')] [image] w2;
               (label, w4) = createTextNode (name serviceData) w3;
               (title, w5) = createElement ''span'' [(''class'', ''title'')] [label] w4;
               (serviceLink, w6) =
                 createElement ''a''
                   [(''href'', url serviceData), (''target'', ''_blank''), (''class'', ''label'')]
                   [brand, title] w5;
               (serviceItem, w7) = createElement ''p'' [(''class'', ''service'')] [serviceLink] w6
           in log (Mutate ''services.append'')
                (update_first (has_class ''services'') (append_child serviceItem) w7)))"

text \<open>
  \<^verbatim>\<open>
  const initPage = () => {
    const style = createElement("style", {}, [
      document.createTextNode(`.services > .service {display: flex !important;}`)
    ]);
    document.head.append(style);
    const servicesSection = createElement("section", { class: "services" });
    const watchSection = document.getElementById("watch");
    if (watchSection) {
      watchSection.replaceWith(servicesSection);
    }
  };
  \<close>
\<close>

definition initPage :: "world \<Rightarrow> world" where
  "initPage w =
     (let (rule, w1) = createTextNode ''.services > .service {display: flex !important;}'' w;
          (style, w2) = createElement ''style'' [] [rule] w1;
          w3 = log (Mutate ''head.append'') (w2\<lparr>doc_head := doc_head w2 @ [style]\<rparr>);
          (servicesSection, w4) = createElement ''section'' [(''class'', ''services'')] [] w3;
          (watchSection, w5) = getElementById ''watch'' w4
      in case watchSection of
           None \<Rightarrow> w5
         | Some s \<Rightarrow>
             log (Mutate ''watch.replaceWith'')
               (update_first (has_id ''watch'') (\<lambda>old. servicesSection) w5))"

section \<open>The load handler\<close>

text \<open>
  \<^verbatim>\<open>
  window.onload = async () => {
    initPage();
    const query = getQuery();
    const imdbId = getImdbID();
    const tmdbId = getTmdbID();
    let fetchedTmdbId = tmdbId;
    if (!fetchedTmdbId) {
      const filmName = getLetterboxdFilmName();
      if (filmName) {
        fetchedTmdbId = await fetchTmdbIdFromLetterboxd(filmName);
      }
    }
    if (!query || (!imdbId && !fetchedTmdbId)) {
      console.error("Failed to retrieve query, IMDb ID, or TMDb ID.");
      return;
    }
    const services = globalThis.getServices?.(query, imdbId, fetchedTmdbId) || [];
    for (const service of services) {
      addService(service);
    }
  };
  \<close>
\<close>

text \<open>
  The fallback: the identifier the handler goes on with, \<open>Inl\<close> if the lookup rejected. The
  film name is a part of the address, a string of the page.
\<close>

definition resolveTmdbId :: "string option \<Rightarrow> world \<Rightarrow> (exn + jsval) \<times> world" where
  "resolveTmdbId tmdbId w =
     (if \<not> truthy (js_of tmdbId) then
        (let (filmName, w1) = getLetterboxdFilmName w in
         case filmName of
           None \<Rightarrow> (Inr (js_of tmdbId), w1)
         | Some f \<Rightarrow>
             if truthy (JStr f) then fetchTmdbIdFromLetterboxd (units f) w1
             else (Inr (js_of tmdbId), w1))
      else (Inr (js_of tmdbId), w))"

text \<open>\<^verbatim>\<open>globalThis.getServices?.(query, imdbId, fetchedTmdbId) || []\<close>\<close>

definition callProvider :: "string \<Rightarrow> string option \<Rightarrow> jsval \<Rightarrow> world \<Rightarrow> ServiceData list \<times> world" where
  "callProvider query imdbId fetchedTmdbId w =
     (case getServices w of
        None \<Rightarrow> ([], w)
      | Some provider \<Rightarrow>
          ((case provider query imdbId fetchedTmdbId of None \<Rightarrow> [] | Some l \<Rightarrow> l),
           log (CallProvider query imdbId fetchedTmdbId) w))"

text \<open>
  The handler: \<open>Inl\<close> when it throws (its promise is rejected), with the state at that
  moment. A call that throws ends the run: nothing after it is evaluated.
\<close>

definition onload :: "world \<Rightarrow> (exn + unit) \<times> world" where
  "onload w =
     (let w1 = initPage w;
          (query, w2) = getQuery w1;
          (imdbResult, w3) = getImdbID w2
      in case imdbResult of
           Inl e \<Rightarrow> (Inl e, w3)
         | Inr imdbId \<Rightarrow>
             (let (tmdbResult, w4) = getTmdbID w3
              in case tmdbResult of
                   Inl e \<Rightarrow> (Inl e, w4)
                 | Inr tmdbId \<Rightarrow>
                     (let (fetched, w5) = resolveTmdbId tmdbId w4
                      in case fetched of
                           Inl e \<Rightarrow> (Inl e, w5)
                         | Inr fetchedTmdbId \<Rightarrow>
                             if \<not> truthy (JStr query)
                                \<or> (\<not> truthy (js_of imdbId) \<and> \<not> truthy fetchedTmdbId)
                             then (Inr (),
                                   log (ConsoleError ''Failed to retrieve query, IMDb ID, or TMDb ID.'') w5)
                             else
                               (let (services, w6) = callProvider query imdbId fetchedTmdbId w5
                                in (Inr (), foldl (\<lambda>v service. addService service v) w6 services)))))"

section \<open>Pages to run the script on\<close>

text \<open>The descriptor of one service, for a query.\<close>

definition justwatch :: "string \<Rightarrow> ServiceData" where
  "justwatch q =
     \<lparr>name = ''JustWatch'',
      url = ''https://www.justwatch.com/us/search?q='' @ q,
      icon = ''https://www.justwatch.com/favicon.ico''\<rparr>"

text \<open>The address of the search for a film name that needs no encoding.\<close>

definition tmdb_search :: "string \<Rightarrow> string" where
  "tmdb_search q =
     ''https://api.themoviedb.org/3/search/movie?api_key=e5bb3f8f15d40063752ff87b4c360b05&query='' @ q"

text \<open>
  A film page: title and year in the details container, the two buttons, the panel with
  the id \<^verbatim>\<open>watch\<close>, and a provider of one service.
\<close>

definition film_heading :: node where
  "film_heading = Element ''h1'' [(''class'', ''headline-1'')] [TextNode ''Heat'']"

definition film_year :: node where
  "film_year = Element ''a'' [(''href'', ''/films/year/1995/'')] [TextNode ''1995'']"

definition film_details :: node where
  "film_details =
     Element ''section'' [(''class'', ''film-header details'')]
       [film_heading, Element ''div'' [(''class'', ''releaseyear'')] [film_year]]"

definition imdb_button :: node where
  "imdb_button =
     Element ''a''
       [(''href'', ''http://www.imdb.com/title/tt0113277/maindetails''),
        (''class'', ''micro-button track-event'')]
       [TextNode ''IMDb'']"

definition tmdb_button :: node where
  "tmdb_button =
     Element ''a''
       [(''href'', ''https://www.themoviedb.org/movie/949''), (''class'', ''tmdb-button'')]
       [TextNode ''TMDb'']"

definition film_page :: world where
  "film_page =
     \<lparr>doc_head = [Element ''title'' [] [TextNode ''Heat (1995)'']],
      doc_body =
        [film_details,
         Element ''section'' [(''id'', ''watch''), (''class'', ''watch-panel'')]
           [TextNode ''Where to watch''],
         Element ''p'' [(''class'', ''text-link'')] [imdb_button, tmdb_button]],
      location_href = ''https://letterboxd.com/film/heat-1995/'',
      href_of =
        (\<lambda>n. if has_class ''tmdb-button'' n then JStr ''https://www.themoviedb.org/movie/949''
              else if has_class ''micro-button'' n
              then JStr ''http://www.imdb.com/title/tt0113277/maindetails''
              else if has_tag ''a'' n then JStr ''https://letterboxd.com/films/year/1995/''
              else JUndefined),
      innerText_of =
        (\<lambda>n. if has_tag ''h1'' n then Some ''Heat''
              else if has_tag ''a'' n then Some ''1995''
              else None),
      fetch_reply = (\<lambda>u. NetworkError),
      coerce_gt_zero = (\<lambda>v. Inr False),
      getServices = Some (\<lambda>q i t. Some [justwatch q]),
      trace = []\<rparr>"

text \<open>
  A page of the site that is not a film page: none of the elements the script looks for,
  no film in the address, no provider.
\<close>

definition blank_page :: world where
  "blank_page =
     \<lparr>doc_head = [],
      doc_body = [Element ''div'' [(''id'', ''content''), (''class'', ''site-body'')] []],
      location_href = ''https://letterboxd.com/films/popular/'',
      href_of = (\<lambda>n. JUndefined),
      innerText_of = (\<lambda>n. None),
      fetch_reply = (\<lambda>u. NetworkError),
      coerce_gt_zero = (\<lambda>v. Inr False),
      getServices = None,
      trace = []\<rparr>"

text \<open>
  A page whose elements are there with values that fail the checks: the first button links
  to a film, not to a title of the other database, the second link ends with a slash, the
  details container has no heading, and the address ends where the name of the film would
  begin.
\<close>

definition odd_details :: node where
  "odd_details = Element ''section'' [(''class'', ''details'')] [Element ''h2'' [] [TextNode ''Heat'']]"

definition odd_film_link :: node where
  "odd_film_link =
     Element ''a'' [(''href'', ''/film/heat-1995/''), (''class'', ''micro-button'')]
       [TextNode ''Film'']"

definition odd_tmdb_link :: node where
  "odd_tmdb_link =
     Element ''a''
       [(''href'', ''https://www.themoviedb.org/movie/949/''),
        (''class'', ''micro-button tmdb-button'')]
       [TextNode ''TMDb'']"

definition odd_page :: world where
  "odd_page =
     \<lparr>doc_head = [],
      doc_body = [odd_details, odd_film_link, odd_tmdb_link],
      location_href = ''https://letterboxd.com/film/'',
      href_of =
        (\<lambda>n. if has_class ''tmdb-button'' n then JStr ''https://www.themoviedb.org/movie/949/''
              else JStr ''https://letterboxd.com/film/heat-1995/''),
      innerText_of = (\<lambda>n. Some ''Heat''),
      fetch_reply = (\<lambda>u. NetworkError),
      coerce_gt_zero = (\<lambda>v. Inr False),
      getServices = None,
      trace = []\<rparr>"

text \<open>
  A page whose elements are there without the properties read: the buttons are
  \<^verbatim>\<open>button\<close> elements, which have no \<^verbatim>\<open>href\<close>, and the heading gives no text. The address is
  one of another site.
\<close>

definition bare_details :: node where
  "bare_details = Element ''section'' [(''class'', ''details'')] [Element ''h1'' [] []]"

definition bare_page :: world where
  "bare_page =
     \<lparr>doc_head = [],
      doc_body =
        [bare_details,
         Element ''button'' [(''class'', ''micro-button'')] [],
         Element ''button'' [(''class'', ''tmdb-button'')] []],
      location_href = ''https://www.imdb.com/film/heat-1995/'',
      href_of = (\<lambda>n. JUndefined),
      innerText_of = (\<lambda>n. None),
      fetch_reply = (\<lambda>u. NetworkError),
      coerce_gt_zero = (\<lambda>v. Inr False),
      getServices = None,
      trace = []\<rparr>"

text \<open>
  A film page whose buttons do not give the second identifier, so that it is looked up;
  the network answers by the film in the request: a list of results, a list whose first
  result is null, an empty list, a body without results, the body \<^verbatim>\<open>null\<close>, a body that is
  not JSON, and no answer at all.
\<close>

definition lookup_page :: world where
  "lookup_page =
     \<lparr>doc_head = [],
      doc_body = [film_details, Element ''section'' [(''id'', ''watch'')] [], imdb_button],
      location_href = ''https://letterboxd.com/film/heat-1995/'',
      href_of =
        (\<lambda>n. if has_class ''micro-button'' n
              then JStr ''http://www.imdb.com/title/tt0113277/maindetails''
              else if has_tag ''a'' n then JStr ''https://letterboxd.com/films/year/1995/''
              else JUndefined),
      innerText_of =
        (\<lambda>n. if has_tag ''h1'' n then Some ''Heat''
              else if has_tag ''a'' n then Some ''1995''
              else None),
      fetch_reply =
        (\<lambda>u. if u = tmdb_search ''heat-1995''
              then Body (JObj [(''page'', JNum 1),
                               (''results'', JArr [JObj [(''id'', JNum 949), (''title'', JStr ''Heat'')],
                                                   JObj [(''id'', JNum 9799)]])])
              else if u = tmdb_search ''null-first'' then Body (JObj [(''results'', JArr [JNull])])
              else if u = tmdb_search ''no-such-film'' then Body (JObj [(''results'', JArr [])])
              else if u = tmdb_search ''bad-key'' then Body (JObj [(''success'', JBool False)])
              else if u = tmdb_search ''null-body'' then Body JNull
              else if u = tmdb_search ''not-json'' then BadJson
              else NetworkError),
      coerce_gt_zero = (\<lambda>v. Inr False),
      getServices = Some (\<lambda>q i t. Some [justwatch q]),
      trace = []\<rparr>"


text \<open>
  The film page with its two buttons drawn inside an SVG image. The \<^verbatim>\<open>.href\<close> of an anchor of
  an SVG image is not a string but an object (an \<^verbatim>\<open>SVGAnimatedString\<close>) that holds the
  address.
\<close>

definition svg_page :: world where
  "svg_page =
     film_page\<lparr>
       doc_body :=
         [film_details,
          Element ''section'' [(''id'', ''watch''), (''class'', ''watch-panel'')]
            [TextNode ''Where to watch''],
          Element ''svg'' [(''class'', ''text-link'')] [imdb_button, tmdb_button]],
       href_of :=
         (\<lambda>n. if has_class ''tmdb-button'' n
               then JObj [(''baseVal'', JStr ''https://www.themoviedb.org/movie/949''),
                          (''animVal'', JStr ''https://www.themoviedb.org/movie/949'')]
               else if has_class ''micro-button'' n
               then JObj [(''baseVal'', JStr ''http://www.imdb.com/title/tt0113277/maindetails''),
                          (''animVal'', JStr ''http://www.imdb.com/title/tt0113277/maindetails'')]
               else if has_tag ''a'' n then JStr ''https://letterboxd.com/films/year/1995/''
               else JUndefined)\<rparr>"

section \<open>Notions for the statements\<close>

text \<open>A predicate on nodes that looks at the tag and the attributes of an element only.\<close>

definition attr_only :: "(node \<Rightarrow> bool) \<Rightarrow> bool" where
  "attr_only P = (\<forall>tg al ks ks'. P (Element tg al ks) = P (Element tg al ks'))"

text \<open>The number of elements with a given tag among some nodes and their descendants.\<close>

fun count_tag :: "string \<Rightarrow> node list \<Rightarrow> nat" where
  "count_tag t [] = 0"
| "count_tag t (TextNode s # ns) = count_tag t ns"
| "count_tag t (Element tg al ks # ns) =
     (if tg = t then 1 else 0) + count_tag t ks + count_tag t ns"

text \<open>The paragraph \<open>addService\<close> builds for a descriptor, and what building it logs.\<close>

definition service_item :: "ServiceData \<Rightarrow> node" where
  "service_item sd =
     Element ''p'' [(''class'', ''service'')]
       [Element ''a'' [(''href'', url sd), (''target'', ''_blank''), (''class'', ''label'')]
          [Element ''span'' [(''class'', ''brand'')]
             [Element ''img'' [(''src'', icon sd), (''width'', ''20''), (''height'', ''20'')] []],
           Element ''span'' [(''class'', ''title'')] [TextNode (name sd)]]]"

definition service_events :: "event list" where
  "service_events =
     [Query ''.services'', Create ''img'', Create ''span'', Create ''#text'', Create ''span'',
      Create ''a'', Create ''p'', Mutate ''services.append'']"

text \<open>What a call that may throw returned, and the log it left.\<close>

definition returned :: "(exn + 'a) \<times> world \<Rightarrow> 'a option" where
  "returned r = (case fst r of Inl e \<Rightarrow> None | Inr v \<Rightarrow> Some v)"

definition logged :: "(exn + 'a) \<times> world \<Rightarrow> event list" where
  "logged r = trace (snd r)"

text \<open>
  A string without a lone surrogate: every high surrogate is followed by a low one, and
  every low surrogate follows a high one.
\<close>

fun well_formed :: "jsstring \<Rightarrow> bool" where
  "well_formed [] = True"
| "well_formed [u] = (\<not> high_surrogate u \<and> \<not> low_surrogate u)"
| "well_formed (u # v # vs) =
     (if high_surrogate u then low_surrogate v \<and> well_formed vs
      else \<not> low_surrogate u \<and> well_formed (v # vs))"

text \<open>A value of \<^verbatim>\<open>.href\<close> that is a string or is not there.\<close>

fun string_or_absent :: "jsval \<Rightarrow> bool" where
  "string_or_absent JUndefined = True"
| "string_or_absent JNull = True"
| "string_or_absent (JStr s) = True"
| "string_or_absent v = False"

text \<open>
  The URL that \<open>fetchTmdbIdFromLetterboxd\<close> builds for a film name that is a string of the
  page (for such a name \<open>apiUrl\<close> returns: see \<open>apiUrl_units\<close> below).
\<close>

definition request_for :: "string \<Rightarrow> string" where
  "request_for f = (case apiUrl (units f) of Inl e \<Rightarrow> [] | Inr u \<Rightarrow> u)"

text \<open>
  What the load handler works with: the query and the identifiers it reads (after
  \<open>initPage\<close>), the film in the address, and the state when the three reads are done.
  \<open>page_ids\<close> is the outcome of the two reads of an identifier, in the order of the handler:
  what the first of them that throws raises, or the two identifiers.
\<close>

definition page_query :: "world \<Rightarrow> string" where
  "page_query w = fst (getQuery (initPage w))"

definition page_imdb :: "world \<Rightarrow> exn + string option" where
  "page_imdb w = fst (getImdbID (initPage w))"

definition page_tmdb :: "world \<Rightarrow> exn + string option" where
  "page_tmdb w = fst (getTmdbID (initPage w))"

definition page_ids :: "world \<Rightarrow> exn + (string option \<times> string option)" where
  "page_ids w =
     (case page_imdb w of
        Inl e \<Rightarrow> Inl e
      | Inr i \<Rightarrow> (case page_tmdb w of Inl e \<Rightarrow> Inl e | Inr t \<Rightarrow> Inr (i, t)))"

definition page_film :: "world \<Rightarrow> string option" where
  "page_film w = fst (getLetterboxdFilmName w)"

definition after_reads :: "world \<Rightarrow> world" where
  "after_reads w = snd (getTmdbID (snd (getImdbID (snd (getQuery (initPage w))))))"

text \<open>Two states that differ in the log at most.\<close>

definition same_but_trace :: "world \<Rightarrow> world \<Rightarrow> bool" where
  "same_but_trace w w' = (w' = w\<lparr>trace := trace w'\<rparr>)"

text \<open>Kinds of events.\<close>

fun is_fetch :: "event \<Rightarrow> bool" where
  "is_fetch (Fetch u) = True"
| "is_fetch e = False"

fun is_call :: "event \<Rightarrow> bool" where
  "is_call (CallProvider q i t) = True"
| "is_call e = False"

fun is_mutation :: "event \<Rightarrow> bool" where
  "is_mutation (Mutate m) = True"
| "is_mutation e = False"

fun is_console :: "event \<Rightarrow> bool" where
  "is_console (ConsoleError m) = True"
| "is_console e = False"

text \<open>The two diagnostics of the lookup.\<close>

definition is_lookup_diagnostic :: "event \<Rightarrow> bool" where
  "is_lookup_diagnostic e =
     (e \<in> set [ConsoleError ''Movie not found on TMDb'', ConsoleError ''Error fetching TMDb data:''])"

text \<open>The queries of \<open>getQuery\<close>, \<open>getImdbID\<close> and \<open>getTmdbID\<close>: the reads of the host page.\<close>

definition is_page_read :: "event \<Rightarrow> bool" where
  "is_page_read e =
     (e \<in> set [Query ''.details'', Query ''h1'', Query ''.releaseyear > a'',
               Query ''.micro-button'', Query ''.tmdb-button''])"

definition failure :: event where
  "failure = ConsoleError ''Failed to retrieve query, IMDb ID, or TMDb ID.''"

text \<open>
  The descriptors the handler renders when it goes on with the IMDb identifier \<open>i\<close> and the
  TMDb identifier \<open>x\<close>, and its calls of the provider: none when no provider was supplied.
\<close>

definition provided :: "world \<Rightarrow> string option \<Rightarrow> jsval \<Rightarrow> ServiceData list" where
  "provided w i x =
     (case getServices w of
        None \<Rightarrow> []
      | Some provider \<Rightarrow>
          (case provider (page_query w) i x of None \<Rightarrow> [] | Some l \<Rightarrow> l))"

definition provider_calls :: "world \<Rightarrow> string option \<Rightarrow> jsval \<Rightarrow> event list" where
  "provider_calls w i x =
     (case getServices w of
        None \<Rightarrow> []
      | Some provider \<Rightarrow> [CallProvider (page_query w) i x])"

text \<open>The log and the page the handler leaves, also when it threw.\<close>

definition trace_of :: "(exn + unit) \<times> world \<Rightarrow> event list" where
  "trace_of r = trace (snd r)"


section \<open>Splitting a string\<close>

lemma split_where_nonempty: "split_where sep s \<noteq> []"
  by (induction s) (auto split: list.splits)

lemma split_where_no_sep: "seg \<in> set (split_where sep s) \<Longrightarrow> c \<in> set seg \<Longrightarrow> \<not> sep c"
  by (induction s arbitrary: seg) (fastforce split: list.splits if_splits)+

lemma split_where_single: "split_where sep s = [seg] \<Longrightarrow> s = seg"
  by (induction s arbitrary: seg) (auto split: list.splits if_splits simp: split_where_nonempty)

lemma split_where_plain: "\<forall>c\<in>set s. \<not> sep c \<Longrightarrow> split_where sep s = [s]"
  by (induction s) auto

lemma index_split_where:
  "index_opt (split_where sep s) n = Some v \<Longrightarrow>
   \<exists>pre post. s = pre @ v @ post \<and> length (filter sep pre) = n
     \<and> (pre = [] \<or> sep (last pre)) \<and> (\<forall>c\<in>set v. \<not> sep c) \<and> (post = [] \<or> sep (hd post))"
proof (induction s arbitrary: n v)
  case Nil
  then show ?case by (cases n) auto
next
  case (Cons x xs)
  show ?case
  proof (cases "sep x")
    case True
    show ?thesis
    proof (cases n)
      case 0
      with True Cons.prems have "v = []" by simp
      with True 0 show ?thesis by (intro exI[of _ "[]"] exI[of _ "x # xs"]) simp
    next
      case (Suc m)
      with True Cons.prems have "index_opt (split_where sep xs) m = Some v" by simp
      from Cons.IH[OF this] obtain pre post where
        h: "xs = pre @ v @ post" "length (filter sep pre) = m" "pre = [] \<or> sep (last pre)"
           "\<forall>c\<in>set v. \<not> sep c" "post = [] \<or> sep (hd post)" by blast
      with True Suc show ?thesis
        by (intro exI[of _ "x # pre"] exI[of _ post]) auto
    qed
  next
    case False
    obtain seg segs where sp: "split_where sep xs = seg # segs"
      using split_where_nonempty[of sep xs] by (cases "split_where sep xs") auto
    show ?thesis
    proof (cases n)
      case 0
      with False sp Cons.prems have v: "v = x # seg" by simp
      from sp have "index_opt (split_where sep xs) 0 = Some seg" by simp
      from Cons.IH[OF this] obtain pre post where
        h: "xs = pre @ seg @ post" "length (filter sep pre) = 0" "pre = [] \<or> sep (last pre)"
           "\<forall>c\<in>set seg. \<not> sep c" "post = [] \<or> sep (hd post)" by blast
      have "pre = []"
      proof (rule ccontr)
        assume ne: "pre \<noteq> []"
        with h(3) have "sep (last pre)" by simp
        moreover from ne have "last pre \<in> set pre" by simp
        ultimately have "filter sep pre \<noteq> []" by (auto simp: filter_empty_conv)
        with h(2) show False by simp
      qed
      with h v False 0 show ?thesis
        by (intro exI[of _ "[]"] exI[of _ post]) auto
    next
      case (Suc m)
      with False sp Cons.prems have "index_opt (split_where sep xs) (Suc m) = Some v" by simp
      from Cons.IH[OF this] obtain pre post where
        h: "xs = pre @ v @ post" "length (filter sep pre) = Suc m" "pre = [] \<or> sep (last pre)"
           "\<forall>c\<in>set v. \<not> sep c" "post = [] \<or> sep (hd post)" by blast
      from h(2) have "pre \<noteq> []" by auto
      with h False Suc show ?thesis
        by (intro exI[of _ "x # pre"] exI[of _ post]) auto
    qed
  qed
qed

lemma pop_split_where:
  "pop (split_where sep s) = Some v \<Longrightarrow>
   \<exists>pre. s = pre @ v \<and> (pre = [] \<or> sep (last pre)) \<and> (\<forall>c\<in>set v. \<not> sep c)"
proof (induction s arbitrary: v)
  case Nil
  then show ?case by simp
next
  case (Cons x xs)
  obtain seg segs where sp: "split_where sep xs = seg # segs"
    using split_where_nonempty[of sep xs] by (cases "split_where sep xs") auto
  show ?case
  proof (cases "sep x")
    case True
    with sp Cons.prems have "pop (split_where sep xs) = Some v" by simp
    from Cons.IH[OF this] obtain pre where
      h: "xs = pre @ v" "pre = [] \<or> sep (last pre)" "\<forall>c\<in>set v. \<not> sep c" by blast
    with True show ?thesis by (intro exI[of _ "x # pre"]) auto
  next
    case False
    show ?thesis
    proof (cases segs)
      case Nil
      with sp False Cons.prems have v: "v = x # seg" by simp
      from sp Nil have "xs = seg" by (simp add: split_where_single)
      moreover from sp have "\<forall>c\<in>set seg. \<not> sep c"
        using split_where_no_sep[of seg sep xs] by auto
      ultimately show ?thesis using v False by (intro exI[of _ "[]"]) auto
    next
      case (Cons y ys)
      with sp False Cons.prems have "pop (split_where sep xs) = Some v" by simp
      from Cons.IH[OF this] obtain pre where
        h: "xs = pre @ v" "pre = [] \<or> sep (last pre)" "\<forall>c\<in>set v. \<not> sep c" by blast
      have "pre \<noteq> []"
      proof
        assume "pre = []"
        with h have "split_where sep xs = [xs]" by (simp add: split_where_plain)
        with sp Cons show False by simp
      qed
      with h False show ?thesis by (intro exI[of _ "x # pre"]) auto
    qed
  qed
qed

section \<open>Encoding a film name\<close>

lemma unat_unit [simp]: "unat (of_nat (of_char c) :: 16 word) = of_char c"
proof -
  have "(of_char c :: nat) < 65536" using nat_of_char_less_256[of c] by linarith
  then show ?thesis by (simp add: unat_of_nat)
qed

lemma units_plain [simp]:
  "\<not> high_surrogate (of_nat (of_char c))" "\<not> low_surrogate (of_nat (of_char c))"
  using nat_of_char_less_256[of c] unfolding high_surrogate_def low_surrogate_def unat_unit
  by linarith+

lemma units_simps: "units [] = []" "units (c # cs) = of_nat (of_char c) # units cs"
  by (simp_all add: units_def)

lemma encode_units:
  "encodeURIComponent (units s) = Inr (concat (map (\<lambda>c. encode_point (of_char c)) s))"
  by (induction s rule: induct_list012) (simp_all add: units_simps)

lemma well_formed_units: "well_formed (units s)"
  by (induction s rule: induct_list012) (simp_all add: units_simps)

lemma well_formed_encode: "well_formed f \<Longrightarrow> \<exists>q. encodeURIComponent f = Inr q"
proof (induction f rule: encodeURIComponent.induct)
  case (3 u v vs)
  show ?case
  proof (cases "high_surrogate u")
    case True
    with 3 show ?thesis by (auto split: sum.splits)
  next
    case False
    with 3 show ?thesis by (auto split: sum.splits)
  qed
qed simp_all

lemma ill_formed_encode: "\<not> well_formed f \<Longrightarrow> encodeURIComponent f = Inl URIError"
proof (induction f rule: encodeURIComponent.induct)
  case (3 u v vs)
  show ?case
  proof (cases "high_surrogate u")
    case True
    with 3 show ?thesis by (auto split: sum.splits)
  next
    case False
    with 3 show ?thesis by (cases "low_surrogate u") (auto split: sum.splits)
  qed
qed simp_all

lemma apiUrl_well_formed: "well_formed f \<Longrightarrow> \<exists>u. apiUrl f = Inr u"
  using well_formed_encode[of f] by (auto simp: apiUrl_def)

lemma apiUrl_ill_formed: "\<not> well_formed f \<Longrightarrow> apiUrl f = Inl URIError"
  by (simp add: apiUrl_def ill_formed_encode)

lemma request_for_units:
  "request_for f =
     ''https://api.themoviedb.org/3/search/movie?api_key='' @ apiKey @ ''&query=''
       @ concat (map (\<lambda>c. encode_point (of_char c)) f)"
  by (simp add: request_for_def apiUrl_def encode_units)

lemma apiUrl_units: "apiUrl (units f) = Inr (request_for f)"
  by (simp add: request_for_def apiUrl_def encode_units)

lemma request_for_examples:
  "request_for ''heat-1995'' = tmdb_search ''heat-1995''"
  "request_for ''null-first'' = tmdb_search ''null-first''"
  "request_for ''no-such-film'' = tmdb_search ''no-such-film''"
  "request_for ''bad-key'' = tmdb_search ''bad-key''"
  "request_for ''null-body'' = tmdb_search ''null-body''"
  "request_for ''not-json'' = tmdb_search ''not-json''"
  "request_for ''offline'' = tmdb_search ''offline''"
  unfolding request_for_units by code_simp+

lemma request_for_encoded:
  "request_for ''heat 1995/a&b'' = tmdb_search ''heat%201995%2Fa%26b''"
  unfolding request_for_units by code_simp

lemma lone_surrogate: "\<not> well_formed [0xD800]" "\<not> well_formed (units ''heat'' @ [0xDC00])"
  by (simp_all add: units_simps high_surrogate_def low_surrogate_def)

lemma surrogate_pair: "well_formed [0xD83D, 0xDE00]"
  "encodeURIComponent [0xD83D, 0xDE00] = Inr ''%F0%9F%98%80''"
  by (simp_all add: high_surrogate_def low_surrogate_def pair_point_def encode_point_def
        percent_def)

section \<open>The state and the queries\<close>

lemma log_simps [simp]:
  "trace (log e w) = trace w @ [e]" "doc_head (log e w) = doc_head w" "doc_body (log e w) = doc_body w"
  "location_href (log e w) = location_href w" "href_of (log e w) = href_of w"
  "innerText_of (log e w) = innerText_of w" "fetch_reply (log e w) = fetch_reply w"
  "coerce_gt_zero (log e w) = coerce_gt_zero w" "getServices (log e w) = getServices w"
  by (simp_all add: log_def)

lemma doc_nodes_log [simp]: "doc_nodes (log e w) = doc_nodes w"
  by (simp add: doc_nodes_def)

lemma querySelector_simps [simp]:
  "fst (querySelector c w) = find_first (has_class c) (doc_nodes w)"
  "snd (querySelector c w) = log (Query (CHR ''.'' # c)) w"
  by (simp_all add: querySelector_def)

lemma getImdbID_fst:
  "fst (getImdbID w) =
     (case optional_split (optional_href w (find_first (has_class ''micro-button'') (doc_nodes w))) of
        Inl e \<Rightarrow> Inl e
      | Inr segments \<Rightarrow>
          (case Option.bind segments (\<lambda>l. index_opt l 4) of
             None \<Rightarrow> Inr None
           | Some i \<Rightarrow> Inr (if startsWith ''tt'' i then Some i else None)))"
  by (simp add: getImdbID_def split_def Let_def)

lemma getTmdbID_fst:
  "fst (getTmdbID w) =
     (case optional_split (optional_href w (find_first (has_class ''tmdb-button'') (doc_nodes w))) of
        Inl e \<Rightarrow> Inl e
      | Inr segments \<Rightarrow>
          (case Option.bind segments pop of
             None \<Rightarrow> Inr None
           | Some i \<Rightarrow> Inr (if truthy (JStr i) \<and> all_digits i then Some i else None)))"
  by (simp add: getTmdbID_def split_def Let_def)

lemma optional_split_cases:
  "optional_split u = Inr None \<longleftrightarrow> u = JUndefined \<or> u = JNull"
  "optional_split u = Inr (Some l) \<longleftrightarrow> (\<exists>s. u = JStr s \<and> l = split_on CHR ''/'' s)"
  "optional_split u = Inl e \<longleftrightarrow> \<not> string_or_absent u \<and> e = TypeError"
  by (cases u; auto simp: optional_split_def)+

lemma optional_href_simps [simp]:
  "optional_href w None = JUndefined" "optional_href w (Some el) = href_of w el"
  by (simp_all add: optional_href_def)

section \<open>The identifiers read from the page\<close>

lemma startsWith_tt: "startsWith ''tt'' v \<Longrightarrow> v = ''tt'' @ drop 2 v"
  unfolding startsWith_def
  by (metis append_take_drop_id length_Cons list.size(3) numeral_2_eq_2)

lemma getImdbID_Some:
  assumes "fst (getImdbID w) = Inr (Some v)"
  shows "\<exists>el u. find_first (has_class ''micro-button'') (doc_nodes w) = Some el \<and> href_of w el = JStr u
    \<and> index_opt (split_on CHR ''/'' u) 4 = Some v \<and> startsWith ''tt'' v"
  using assms unfolding getImdbID_fst optional_split_def optional_href_def
  by (auto simp: Option.bind_eq_Some_conv split: option.splits if_splits jsval.splits sum.splits)

lemma film_page_imdb: "fst (getImdbID film_page) = Inr (Some ''tt0113277'')"
  by code_simp

text \<open>
  C8. Whenever \<open>getImdbID\<close> returns a value \<open>v\<close> that is not null, the page has an element
  of class \<^verbatim>\<open>micro-button\<close> with an \<^verbatim>\<open>href\<close> in which \<open>v\<close> is the fifth segment between slashes:
  exactly four slashes come before it, the last of them right before it, \<open>v\<close> holds no
  slash and ends at a slash or at the end. And \<open>v\<close> starts with \<^verbatim>\<open>tt\<close>.
\<close>

theorem getImdbID_fifth_segment:
  assumes "fst (getImdbID w) = Inr (Some v)"
  shows "\<exists>el u pre post rest.
           find_first (has_class ''micro-button'') (doc_nodes w) = Some el
         \<and> href_of w el = JStr u
         \<and> u = pre @ v @ post
         \<and> length (filter (\<lambda>c. c = CHR ''/'') pre) = 4 \<and> last pre = CHR ''/''
         \<and> CHR ''/'' \<notin> set v \<and> (post = [] \<or> hd post = CHR ''/'')
         \<and> v = ''tt'' @ rest"
proof -
  from getImdbID_Some[OF assms] obtain el u where
    el: "find_first (has_class ''micro-button'') (doc_nodes w) = Some el"
    and u: "href_of w el = JStr u"
    and ix: "index_opt (split_where (\<lambda>c. c = CHR ''/'') u) 4 = Some v"
    and tt: "startsWith ''tt'' v"
    unfolding split_on_def by blast
  from index_split_where[OF ix] obtain pre post where
    h: "u = pre @ v @ post" "length (filter (\<lambda>c. c = CHR ''/'') pre) = 4"
       "pre = [] \<or> last pre = CHR ''/''" "\<forall>c\<in>set v. c \<noteq> CHR ''/''"
       "post = [] \<or> hd post = CHR ''/''" by blast
  from h(2) have "pre \<noteq> []" by auto
  with h(3) have lp: "last pre = CHR ''/''" by simp
  from h(4) have ns: "CHR ''/'' \<notin> set v" by blast
  have "find_first (has_class ''micro-button'') (doc_nodes w) = Some el
         \<and> href_of w el = JStr u
         \<and> u = pre @ v @ post
         \<and> length (filter (\<lambda>c. c = CHR ''/'') pre) = 4 \<and> last pre = CHR ''/''
         \<and> CHR ''/'' \<notin> set v \<and> (post = [] \<or> hd post = CHR ''/'')
         \<and> v = ''tt'' @ drop 2 v"
    using el u h(1) h(2) lp ns h(5) startsWith_tt[OF tt] by simp
  then show ?thesis by (intro exI)
qed

text \<open>On the film page the fifth segment of the IMDb link is \<^verbatim>\<open>tt0113277\<close>.\<close>

theorem getImdbID_fifth_segment_witness:
  "fst (getImdbID film_page) = Inr (Some ''tt0113277'') \<and>
   (\<exists>el u pre post rest.
           find_first (has_class ''micro-button'') (doc_nodes film_page) = Some el
         \<and> href_of film_page el = JStr u
         \<and> u = pre @ ''tt0113277'' @ post
         \<and> length (filter (\<lambda>c. c = CHR ''/'') pre) = 4 \<and> last pre = CHR ''/''
         \<and> CHR ''/'' \<notin> set ''tt0113277'' \<and> (post = [] \<or> hd post = CHR ''/'')
         \<and> ''tt0113277'' = ''tt'' @ rest)"
  using film_page_imdb getImdbID_fifth_segment[OF film_page_imdb] by (rule conjI)

lemma getTmdbID_Some:
  assumes "fst (getTmdbID w) = Inr (Some v)"
  shows "\<exists>el u. find_first (has_class ''tmdb-button'') (doc_nodes w) = Some el \<and> href_of w el = JStr u
    \<and> pop (split_on CHR ''/'' u) = Some v \<and> all_digits v"
  using assms unfolding getTmdbID_fst optional_split_def optional_href_def
  by (auto simp: Option.bind_eq_Some_conv split: option.splits if_splits jsval.splits sum.splits)

lemma film_page_tmdb: "fst (getTmdbID film_page) = Inr (Some ''949'')"
  by code_simp

text \<open>
  C9. Whenever \<open>getTmdbID\<close> returns a value \<open>v\<close> that is not null, the page has an element
  of class \<^verbatim>\<open>tmdb-button\<close> with an \<^verbatim>\<open>href\<close> of which \<open>v\<close> is the last segment between slashes:
  the \<^verbatim>\<open>href\<close> ends with \<open>v\<close>, \<open>v\<close> holds no slash and what comes before it is empty or ends
  with a slash. And \<open>v\<close> is not empty and consists of decimal digits only.
\<close>

theorem getTmdbID_last_segment:
  assumes "fst (getTmdbID w) = Inr (Some v)"
  shows "\<exists>el u pre.
           find_first (has_class ''tmdb-button'') (doc_nodes w) = Some el
         \<and> href_of w el = JStr u
         \<and> u = pre @ v \<and> (pre = [] \<or> last pre = CHR ''/'') \<and> CHR ''/'' \<notin> set v
         \<and> v \<noteq> [] \<and> set v \<subseteq> set ''0123456789''"
proof -
  from getTmdbID_Some[OF assms] obtain el u where
    el: "find_first (has_class ''tmdb-button'') (doc_nodes w) = Some el"
    and u: "href_of w el = JStr u"
    and ix: "pop (split_where (\<lambda>c. c = CHR ''/'') u) = Some v"
    and dg: "all_digits v"
    unfolding split_on_def by blast
  from pop_split_where[OF ix] obtain pre where
    h: "u = pre @ v" "pre = [] \<or> last pre = CHR ''/''" "\<forall>c\<in>set v. c \<noteq> CHR ''/''" by blast
  from h(3) have ns: "CHR ''/'' \<notin> set v" by blast
  from dg have ne: "v \<noteq> []" by (simp add: all_digits_def)
  from dg have "\<forall>c\<in>set v. is_digit c" by (simp add: all_digits_def list_all_iff)
  then have ds: "set v \<subseteq> set ''0123456789''" unfolding is_digit_def by blast
  have "find_first (has_class ''tmdb-button'') (doc_nodes w) = Some el
         \<and> href_of w el = JStr u
         \<and> u = pre @ v \<and> (pre = [] \<or> last pre = CHR ''/'') \<and> CHR ''/'' \<notin> set v
         \<and> v \<noteq> [] \<and> set v \<subseteq> set ''0123456789''"
    using el u h(1) h(2) ns ne ds by simp
  then show ?thesis by (intro exI)
qed

text \<open>On the film page the last segment of the TMDb link is \<^verbatim>\<open>949\<close>.\<close>

theorem getTmdbID_last_segment_witness:
  "fst (getTmdbID film_page) = Inr (Some ''949'') \<and>
   (\<exists>el u pre.
           find_first (has_class ''tmdb-button'') (doc_nodes film_page) = Some el
         \<and> href_of film_page el = JStr u
         \<and> u = pre @ ''949'' \<and> (pre = [] \<or> last pre = CHR ''/'') \<and> CHR ''/'' \<notin> set ''949''
         \<and> ''949'' \<noteq> [] \<and> set ''949'' \<subseteq> set ''0123456789'')"
  using film_page_tmdb getTmdbID_last_segment[OF film_page_tmdb] by (rule conjI)

section \<open>What the reading functions return when there is nothing to read\<close>

lemma film_match_here_sublist:
  assumes "film_match_here s = Some m"
  shows "sublist ''com/film/'' s \<and> m \<noteq> []"
proof -
  from assms have t: "take 9 (drop 11 s) = ''com/film/''" and m: "m \<noteq> []"
    by (auto simp: film_match_here_def split: if_splits)
  have "s = take 11 s @ drop 11 s" by (rule append_take_drop_id[symmetric])
  also have "drop 11 s = take 9 (drop 11 s) @ drop 9 (drop 11 s)"
    by (rule append_take_drop_id[symmetric])
  finally have "s = take 11 s @ ''com/film/'' @ drop 9 (drop 11 s)" using t by simp
  then have "sublist ''com/film/'' s" by (metis sublist_appendI)
  with m show ?thesis by simp
qed

lemma film_match_sublist: "film_match s = Some m \<Longrightarrow> sublist ''com/film/'' s \<and> m \<noteq> []"
proof (induction s)
  case Nil
  then show ?case by simp
next
  case (Cons c cs)
  show ?case
  proof (cases "film_match_here (c # cs)")
    case None
    with Cons.prems have "film_match cs = Some m" by simp
    from Cons.IH[OF this] show ?thesis by (simp add: sublist_Cons_right)
  next
    case (Some m')
    with Cons.prems have "m' = m" by simp
    with Some film_match_here_sublist show ?thesis by blast
  qed
qed

lemma getQuery_fst:
  "fst (getQuery w) =
     replace_spaces
       (case Option.bind
               (case find_first (has_class ''details'') (doc_nodes w) of
                  None \<Rightarrow> None
                | Some d \<Rightarrow> find_first (has_tag ''h1'') (kids d))
               (innerText_of w) of
          None \<Rightarrow> []
        | Some t \<Rightarrow> t)"
  by (simp add: getQuery_def split_def Let_def split: option.splits)

lemma getLetterboxdFilmName_fst: "fst (getLetterboxdFilmName w) = film_match (location_href w)"
  by (simp add: getLetterboxdFilmName_def)

lemma reads_keep_page:
  "doc_nodes (snd (getImdbID w)) = doc_nodes w"
  "doc_nodes (snd (getTmdbID w)) = doc_nodes w"
  "doc_nodes (snd (getLetterboxdFilmName w)) = doc_nodes w"
  "doc_nodes (snd (getQuery w)) = doc_nodes w"
  by (simp_all add: getImdbID_def getTmdbID_def getQuery_def getLetterboxdFilmName_def
        split_def Let_def split: option.splits)

text \<open>The regular expression of \<open>getLetterboxdFilmName\<close>, as a property of the address.\<close>

lemma film_match_here_Some:
  assumes "film_match_here s = Some m"
  shows "\<exists>c x b. s = ''letterboxd'' @ c # ''com/film/'' @ x # b
           \<and> \<not> line_terminator c \<and> x \<noteq> CHR ''/''"
proof -
  from assms have t10: "take 10 s = ''letterboxd''" and len: "10 < length s"
    and nl: "\<not> line_terminator (s ! 10)" and t9: "take 9 (drop 11 s) = ''com/film/''"
    and tw: "takeWhile (\<lambda>c. c \<noteq> CHR ''/'') (drop 20 s) \<noteq> []"
    by (auto simp: film_match_here_def split: if_splits)
  from tw obtain x b where d20: "drop 20 s = x # b" and x: "x \<noteq> CHR ''/''"
    by (cases "drop 20 s") (auto split: if_splits)
  have "drop 11 s = take 9 (drop 11 s) @ drop 9 (drop 11 s)"
    by (rule append_take_drop_id[symmetric])
  with t9 d20 have d11: "drop 11 s = ''com/film/'' @ x # b" by simp
  from len have "drop 10 s = s ! 10 # drop (Suc 10) s" by (rule Cons_nth_drop_Suc[symmetric])
  with d11 have d10: "drop 10 s = s ! 10 # ''com/film/'' @ x # b" by simp
  have "s = take 10 s @ drop 10 s" by (rule append_take_drop_id[symmetric])
  with t10 d10 have "s = ''letterboxd'' @ s ! 10 # ''com/film/'' @ x # b" by simp
  with nl x show ?thesis by blast
qed

lemma film_match_here_found:
  assumes "\<not> line_terminator c" "x \<noteq> CHR ''/''"
  shows "film_match_here (''letterboxd'' @ c # ''com/film/'' @ x # b) \<noteq> None"
  using assms by (simp add: film_match_here_def)

lemma film_match_None_suffix:
  "film_match s = None \<longleftrightarrow> (\<forall>a t. s = a @ t \<longrightarrow> film_match_here t = None)"
proof (induction s)
  case Nil
  then show ?case by (simp add: film_match_here_def)
next
  case (Cons c cs)
  have "film_match (c # cs) = None \<longleftrightarrow> film_match_here (c # cs) = None \<and> film_match cs = None"
    by (simp split: option.splits)
  also have "\<dots> \<longleftrightarrow> (\<forall>a t. c # cs = a @ t \<longrightarrow> film_match_here t = None)"
    unfolding Cons.IH by (auto simp: Cons_eq_append_conv)
  finally show ?case .
qed

lemma film_match_None:
  "film_match s = None \<longleftrightarrow>
     \<not> (\<exists>a c x b. s = a @ ''letterboxd'' @ c # ''com/film/'' @ x # b
            \<and> \<not> line_terminator c \<and> x \<noteq> CHR ''/'')"
proof
  assume n: "film_match s = None"
  show "\<not> (\<exists>a c x b. s = a @ ''letterboxd'' @ c # ''com/film/'' @ x # b
            \<and> \<not> line_terminator c \<and> x \<noteq> CHR ''/'')"
  proof
    assume "\<exists>a c x b. s = a @ ''letterboxd'' @ c # ''com/film/'' @ x # b
            \<and> \<not> line_terminator c \<and> x \<noteq> CHR ''/''"
    then obtain a c x b where s: "s = a @ (''letterboxd'' @ c # ''com/film/'' @ x # b)"
      and c: "\<not> line_terminator c" and x: "x \<noteq> CHR ''/''" by auto
    from n s have "film_match_here (''letterboxd'' @ c # ''com/film/'' @ x # b) = None"
      unfolding film_match_None_suffix by blast
    with film_match_here_found[OF c x] show False by blast
  qed
next
  assume r: "\<not> (\<exists>a c x b. s = a @ ''letterboxd'' @ c # ''com/film/'' @ x # b
            \<and> \<not> line_terminator c \<and> x \<noteq> CHR ''/'')"
  show "film_match s = None"
    unfolding film_match_None_suffix
  proof (intro allI impI)
    fix a t
    assume s: "s = a @ t"
    show "film_match_here t = None"
    proof (cases "film_match_here t")
      case None
      then show ?thesis .
    next
      case (Some m)
      from film_match_here_Some[OF this] s r show ?thesis by blast
    qed
  qed
qed

text \<open>
  C6, as the code has it. \<open>getImdbID\<close> and \<open>getTmdbID\<close> return exactly when the \<^verbatim>\<open>.href\<close> of
  the element their selector finds, if there is one, is a string or is not there
  (\<^verbatim>\<open>undefined\<close>, \<^verbatim>\<open>null\<close>); on any other \<^verbatim>\<open>.href\<close> they raise a \<^verbatim>\<open>TypeError\<close>.
  \<open>getImdbID\<close> returns null when no element has the class \<^verbatim>\<open>micro-button\<close>, when the
  element has no \<^verbatim>\<open>href\<close> and when the fifth segment of the \<^verbatim>\<open>href\<close> is missing or does not
  start with \<^verbatim>\<open>tt\<close>; \<open>getTmdbID\<close> returns null when no element has the class \<^verbatim>\<open>tmdb-button\<close>,
  when the element has no \<^verbatim>\<open>href\<close> and when the last segment of the \<^verbatim>\<open>href\<close> is empty or not
  all digits. \<open>getLetterboxdFilmName\<close> and \<open>getQuery\<close> have no call that can raise: they are
  functions with a plain result. \<open>getLetterboxdFilmName\<close> returns null exactly when the
  address fails its check, that is, when it has no place where \<^verbatim>\<open>letterboxd\<close>, one character
  that is not a line terminator, \<^verbatim>\<open>com/film/\<close> and one character that is not a slash follow
  each other; \<open>getQuery\<close> returns the empty string when there is no details container, no
  heading in it, or no text of the heading. None of the four changes the page.
\<close>

theorem extraction_total:
  "((\<exists>r. fst (getImdbID w) = Inr r) \<longleftrightarrow>
      (case find_first (has_class ''micro-button'') (doc_nodes w) of
         None \<Rightarrow> True
       | Some e \<Rightarrow> string_or_absent (href_of w e)))
 \<and> (find_first (has_class ''micro-button'') (doc_nodes w) = Some el \<and> \<not> string_or_absent (href_of w el)
      \<longrightarrow> fst (getImdbID w) = Inl TypeError)
 \<and> (find_first (has_class ''micro-button'') (doc_nodes w) = None \<longrightarrow> fst (getImdbID w) = Inr None)
 \<and> (find_first (has_class ''micro-button'') (doc_nodes w) = Some el
      \<and> (href_of w el = JUndefined \<or> href_of w el = JNull)
      \<longrightarrow> fst (getImdbID w) = Inr None)
 \<and> (find_first (has_class ''micro-button'') (doc_nodes w) = Some el \<and> href_of w el = JStr u
      \<and> (case index_opt (split_on CHR ''/'' u) 4 of None \<Rightarrow> True | Some i \<Rightarrow> \<not> startsWith ''tt'' i)
      \<longrightarrow> fst (getImdbID w) = Inr None)
 \<and> ((\<exists>r. fst (getTmdbID w) = Inr r) \<longleftrightarrow>
      (case find_first (has_class ''tmdb-button'') (doc_nodes w) of
         None \<Rightarrow> True
       | Some e \<Rightarrow> string_or_absent (href_of w e)))
 \<and> (find_first (has_class ''tmdb-button'') (doc_nodes w) = Some el' \<and> \<not> string_or_absent (href_of w el')
      \<longrightarrow> fst (getTmdbID w) = Inl TypeError)
 \<and> (find_first (has_class ''tmdb-button'') (doc_nodes w) = None \<longrightarrow> fst (getTmdbID w) = Inr None)
 \<and> (find_first (has_class ''tmdb-button'') (doc_nodes w) = Some el'
      \<and> (href_of w el' = JUndefined \<or> href_of w el' = JNull)
      \<longrightarrow> fst (getTmdbID w) = Inr None)
 \<and> (find_first (has_class ''tmdb-button'') (doc_nodes w) = Some el' \<and> href_of w el' = JStr u'
      \<and> (case pop (split_on CHR ''/'' u') of None \<Rightarrow> True | Some i \<Rightarrow> i = [] \<or> \<not> all_digits i)
      \<longrightarrow> fst (getTmdbID w) = Inr None)
 \<and> (fst (getLetterboxdFilmName w) = None \<longleftrightarrow>
      \<not> (\<exists>a c x b. location_href w = a @ ''letterboxd'' @ c # ''com/film/'' @ x # b
             \<and> \<not> line_terminator c \<and> x \<noteq> CHR ''/''))
 \<and> (find_first (has_class ''details'') (doc_nodes w) = None \<longrightarrow> fst (getQuery w) = [])
 \<and> (find_first (has_class ''details'') (doc_nodes w) = Some d
      \<and> find_first (has_tag ''h1'') (kids d) = None \<longrightarrow> fst (getQuery w) = [])
 \<and> (find_first (has_class ''details'') (doc_nodes w) = Some d
      \<and> find_first (has_tag ''h1'') (kids d) = Some h \<and> innerText_of w h = None
      \<longrightarrow> fst (getQuery w) = [])
 \<and> doc_nodes (snd (getImdbID w)) = doc_nodes w
 \<and> doc_nodes (snd (getTmdbID w)) = doc_nodes w
 \<and> doc_nodes (snd (getLetterboxdFilmName w)) = doc_nodes w
 \<and> doc_nodes (snd (getQuery w)) = doc_nodes w"
proof -
  have i1: "(\<exists>r. fst (getImdbID w) = Inr r) \<longleftrightarrow>
      (case find_first (has_class ''micro-button'') (doc_nodes w) of
         None \<Rightarrow> True
       | Some e \<Rightarrow> string_or_absent (href_of w e))"
    by (cases "find_first (has_class ''micro-button'') (doc_nodes w)")
       (auto simp: getImdbID_fst optional_split_def split: jsval.splits option.splits)
  have i2: "find_first (has_class ''micro-button'') (doc_nodes w) = Some el \<and> \<not> string_or_absent (href_of w el)
      \<longrightarrow> fst (getImdbID w) = Inl TypeError"
    by (cases "href_of w el") (auto simp: getImdbID_fst optional_split_def)
  have i3: "find_first (has_class ''micro-button'') (doc_nodes w) = None \<longrightarrow> fst (getImdbID w) = Inr None"
    by (simp add: getImdbID_fst optional_split_def)
  have i4: "find_first (has_class ''micro-button'') (doc_nodes w) = Some el
      \<and> (href_of w el = JUndefined \<or> href_of w el = JNull)
      \<longrightarrow> fst (getImdbID w) = Inr None"
    by (auto simp: getImdbID_fst optional_split_def)
  have i5: "find_first (has_class ''micro-button'') (doc_nodes w) = Some el \<and> href_of w el = JStr u
      \<and> (case index_opt (split_on CHR ''/'' u) 4 of None \<Rightarrow> True | Some i \<Rightarrow> \<not> startsWith ''tt'' i)
      \<longrightarrow> fst (getImdbID w) = Inr None"
    by (auto simp: getImdbID_fst optional_split_def split: option.splits)
  have t1: "(\<exists>r. fst (getTmdbID w) = Inr r) \<longleftrightarrow>
      (case find_first (has_class ''tmdb-button'') (doc_nodes w) of
         None \<Rightarrow> True
       | Some e \<Rightarrow> string_or_absent (href_of w e))"
    by (cases "find_first (has_class ''tmdb-button'') (doc_nodes w)")
       (auto simp: getTmdbID_fst optional_split_def split: jsval.splits option.splits)
  have t2: "find_first (has_class ''tmdb-button'') (doc_nodes w) = Some el' \<and> \<not> string_or_absent (href_of w el')
      \<longrightarrow> fst (getTmdbID w) = Inl TypeError"
    by (cases "href_of w el'") (auto simp: getTmdbID_fst optional_split_def)
  have t3: "find_first (has_class ''tmdb-button'') (doc_nodes w) = None \<longrightarrow> fst (getTmdbID w) = Inr None"
    by (simp add: getTmdbID_fst optional_split_def)
  have t4: "find_first (has_class ''tmdb-button'') (doc_nodes w) = Some el'
      \<and> (href_of w el' = JUndefined \<or> href_of w el' = JNull)
      \<longrightarrow> fst (getTmdbID w) = Inr None"
    by (auto simp: getTmdbID_fst optional_split_def)
  have t5: "find_first (has_class ''tmdb-button'') (doc_nodes w) = Some el' \<and> href_of w el' = JStr u'
      \<and> (case pop (split_on CHR ''/'' u') of None \<Rightarrow> True | Some i \<Rightarrow> i = [] \<or> \<not> all_digits i)
      \<longrightarrow> fst (getTmdbID w) = Inr None"
    by (auto simp: getTmdbID_fst optional_split_def split: option.splits)
  have f1: "fst (getLetterboxdFilmName w) = None \<longleftrightarrow>
      \<not> (\<exists>a c x b. location_href w = a @ ''letterboxd'' @ c # ''com/film/'' @ x # b
             \<and> \<not> line_terminator c \<and> x \<noteq> CHR ''/'')"
    unfolding getLetterboxdFilmName_fst by (rule film_match_None)
  have q1: "find_first (has_class ''details'') (doc_nodes w) = None \<longrightarrow> fst (getQuery w) = []"
    by (simp add: getQuery_fst)
  have q2: "find_first (has_class ''details'') (doc_nodes w) = Some d
      \<and> find_first (has_tag ''h1'') (kids d) = None \<longrightarrow> fst (getQuery w) = []"
    by (simp add: getQuery_fst)
  have q3: "find_first (has_class ''details'') (doc_nodes w) = Some d
      \<and> find_first (has_tag ''h1'') (kids d) = Some h \<and> innerText_of w h = None
      \<longrightarrow> fst (getQuery w) = []"
    by (simp add: getQuery_fst)
  from i1 i2 i3 i4 i5 t1 t2 t3 t4 t5 f1 q1 q2 q3 reads_keep_page show ?thesis by (intro conjI)
qed

text \<open>
  The hypotheses hold one after the other on a page with none of the elements, on a page
  whose links and address fail the checks, on a page whose elements lack the properties and
  whose address is one of another site, on the film page, where both reads return, and on the
  page whose buttons are SVG anchors, where both reads raise.
\<close>

theorem extraction_total_witness:
  "find_first (has_class ''micro-button'') (doc_nodes blank_page) = None
 \<and> find_first (has_class ''tmdb-button'') (doc_nodes blank_page) = None
 \<and> find_first (has_class ''details'') (doc_nodes blank_page) = None
 \<and> location_href blank_page = ''https://letterboxd.com/films/popular/''
 \<and> fst (getImdbID blank_page) = Inr None
 \<and> fst (getTmdbID blank_page) = Inr None
 \<and> fst (getQuery blank_page) = []
 \<and> (\<not> (\<exists>a c x b. location_href blank_page = a @ ''letterboxd'' @ c # ''com/film/'' @ x # b
        \<and> \<not> line_terminator c \<and> x \<noteq> CHR ''/''))
 \<and> find_first (has_class ''micro-button'') (doc_nodes odd_page) = Some odd_film_link
 \<and> href_of odd_page odd_film_link = JStr ''https://letterboxd.com/film/heat-1995/''
 \<and> index_opt (split_on CHR ''/'' ''https://letterboxd.com/film/heat-1995/'') 4 = Some ''heat-1995''
 \<and> find_first (has_class ''tmdb-button'') (doc_nodes odd_page) = Some odd_tmdb_link
 \<and> href_of odd_page odd_tmdb_link = JStr ''https://www.themoviedb.org/movie/949/''
 \<and> pop (split_on CHR ''/'' ''https://www.themoviedb.org/movie/949/'') = Some []
 \<and> find_first (has_class ''details'') (doc_nodes odd_page) = Some odd_details
 \<and> find_first (has_tag ''h1'') (kids odd_details) = None
 \<and> location_href odd_page = ''https://letterboxd.com/film/''
 \<and> fst (getImdbID odd_page) = Inr None
 \<and> fst (getTmdbID odd_page) = Inr None
 \<and> fst (getQuery odd_page) = []
 \<and> (\<not> (\<exists>a c x b. location_href odd_page = a @ ''letterboxd'' @ c # ''com/film/'' @ x # b
        \<and> \<not> line_terminator c \<and> x \<noteq> CHR ''/''))
 \<and> find_first (has_class ''micro-button'') (doc_nodes bare_page) = Some (Element ''button'' [(''class'', ''micro-button'')] [])
 \<and> href_of bare_page (Element ''button'' [(''class'', ''micro-button'')] []) = JUndefined
 \<and> find_first (has_class ''tmdb-button'') (doc_nodes bare_page) = Some (Element ''button'' [(''class'', ''tmdb-button'')] [])
 \<and> href_of bare_page (Element ''button'' [(''class'', ''tmdb-button'')] []) = JUndefined
 \<and> find_first (has_class ''details'') (doc_nodes bare_page) = Some bare_details
 \<and> find_first (has_tag ''h1'') (kids bare_details) = Some (Element ''h1'' [] [])
 \<and> innerText_of bare_page (Element ''h1'' [] []) = None
 \<and> location_href bare_page = ''https://www.imdb.com/film/heat-1995/''
 \<and> fst (getImdbID bare_page) = Inr None
 \<and> fst (getTmdbID bare_page) = Inr None
 \<and> fst (getQuery bare_page) = []
 \<and> (\<not> (\<exists>a c x b. location_href bare_page = a @ ''letterboxd'' @ c # ''com/film/'' @ x # b
        \<and> \<not> line_terminator c \<and> x \<noteq> CHR ''/''))
 \<and> (case find_first (has_class ''micro-button'') (doc_nodes film_page) of
                 None \<Rightarrow> True | Some e \<Rightarrow> string_or_absent (href_of film_page e))
 \<and> (case find_first (has_class ''tmdb-button'') (doc_nodes film_page) of
                 None \<Rightarrow> True | Some e \<Rightarrow> string_or_absent (href_of film_page e))
 \<and> (\<exists>r. fst (getImdbID film_page) = Inr r)
 \<and> (\<exists>r. fst (getTmdbID film_page) = Inr r)
 \<and> find_first (has_class ''micro-button'') (doc_nodes svg_page) = Some imdb_button
 \<and> \<not> string_or_absent (href_of svg_page imdb_button)
 \<and> find_first (has_class ''tmdb-button'') (doc_nodes svg_page) = Some tmdb_button
 \<and> \<not> string_or_absent (href_of svg_page tmdb_button)
 \<and> fst (getImdbID svg_page) = Inl TypeError
 \<and> fst (getTmdbID svg_page) = Inl TypeError"
proof -
  have b1: "find_first (has_class ''micro-button'') (doc_nodes blank_page) = None"
    by code_simp
  have b2: "find_first (has_class ''tmdb-button'') (doc_nodes blank_page) = None"
    by code_simp
  have b3: "find_first (has_class ''details'') (doc_nodes blank_page) = None"
    by code_simp
  have b4: "location_href blank_page = ''https://letterboxd.com/films/popular/''"
    by code_simp
  have b5: "fst (getLetterboxdFilmName blank_page) = None"
    by code_simp
  have r1: "fst (getImdbID blank_page) = Inr None"
    using extraction_total[where w = blank_page,
        THEN conjunct2, THEN conjunct2, THEN conjunct1]
      b1
    by (rule mp)
  have r2: "fst (getTmdbID blank_page) = Inr None"
    using extraction_total[where w = blank_page,
        THEN conjunct2, THEN conjunct2, THEN conjunct2, THEN conjunct2, THEN conjunct2,
        THEN conjunct2, THEN conjunct2, THEN conjunct1]
      b2
    by (rule mp)
  have r3: "fst (getQuery blank_page) = []"
    using extraction_total[where w = blank_page,
        THEN conjunct2, THEN conjunct2, THEN conjunct2, THEN conjunct2, THEN conjunct2,
        THEN conjunct2, THEN conjunct2, THEN conjunct2, THEN conjunct2, THEN conjunct2,
        THEN conjunct2, THEN conjunct1]
      b3
    by (rule mp)
  have r4: "\<not> (\<exists>a c x b. location_href blank_page = a @ ''letterboxd'' @ c # ''com/film/'' @ x # b
             \<and> \<not> line_terminator c \<and> x \<noteq> CHR ''/'')"
    using extraction_total[where w = blank_page,
        THEN conjunct2, THEN conjunct2, THEN conjunct2, THEN conjunct2, THEN conjunct2,
        THEN conjunct2, THEN conjunct2, THEN conjunct2, THEN conjunct2, THEN conjunct2,
        THEN conjunct1, THEN iffD1]
      b5
    by this
  have o1: "find_first (has_class ''micro-button'') (doc_nodes odd_page) = Some odd_film_link"
    by code_simp
  have o2: "href_of odd_page odd_film_link = JStr ''https://letterboxd.com/film/heat-1995/''"
    by code_simp
  have o3: "index_opt (split_on CHR ''/'' ''https://letterboxd.com/film/heat-1995/'') 4 = Some ''heat-1995''"
    by code_simp
  have o3a: "case index_opt (split_on CHR ''/'' ''https://letterboxd.com/film/heat-1995/'') 4 of
               None \<Rightarrow> True | Some i \<Rightarrow> \<not> startsWith ''tt'' i"
    by code_simp
  have o4: "find_first (has_class ''tmdb-button'') (doc_nodes odd_page) = Some odd_tmdb_link"
    by code_simp
  have o5: "href_of odd_page odd_tmdb_link = JStr ''https://www.themoviedb.org/movie/949/''"
    by code_simp
  have o6: "pop (split_on CHR ''/'' ''https://www.themoviedb.org/movie/949/'') = Some []"
    by code_simp
  have o6a: "case pop (split_on CHR ''/'' ''https://www.themoviedb.org/movie/949/'') of
               None \<Rightarrow> True | Some i \<Rightarrow> i = [] \<or> \<not> all_digits i"
    by code_simp
  have o7: "find_first (has_class ''details'') (doc_nodes odd_page) = Some odd_details"
    by code_simp
  have o8: "find_first (has_tag ''h1'') (kids odd_details) = None"
    by code_simp
  have o9: "location_href odd_page = ''https://letterboxd.com/film/''"
    by code_simp
  have o10: "fst (getLetterboxdFilmName odd_page) = None"
    by code_simp
  have s1: "fst (getImdbID odd_page) = Inr None"
    using extraction_total[where w = odd_page,
        THEN conjunct2, THEN conjunct2, THEN conjunct2, THEN conjunct2, THEN conjunct1]
      conjI[OF o1 conjI[OF o2 o3a]]
    by (rule mp)
  have s2: "fst (getTmdbID odd_page) = Inr None"
    using extraction_total[where w = odd_page,
        THEN conjunct2, THEN conjunct2, THEN conjunct2, THEN conjunct2, THEN conjunct2,
        THEN conjunct2, THEN conjunct2, THEN conjunct2, THEN conjunct2, THEN conjunct1]
      conjI[OF o4 conjI[OF o5 o6a]]
    by (rule mp)
  have s3: "fst (getQuery odd_page) = []"
    using extraction_total[where w = odd_page,
        THEN conjunct2, THEN conjunct2, THEN conjunct2, THEN conjunct2, THEN conjunct2,
        THEN conjunct2, THEN conjunct2, THEN conjunct2, THEN conjunct2, THEN conjunct2,
        THEN conjunct2, THEN conjunct2, THEN conjunct1]
      conjI[OF o7 o8]
    by (rule mp)
  have s4: "\<not> (\<exists>a c x b. location_href odd_page = a @ ''letterboxd'' @ c # ''com/film/'' @ x # b
             \<and> \<not> line_terminator c \<and> x \<noteq> CHR ''/'')"
    using extraction_total[where w = odd_page,
        THEN conjunct2, THEN conjunct2, THEN conjunct2, THEN conjunct2, THEN conjunct2,
        THEN conjunct2, THEN conjunct2, THEN conjunct2, THEN conjunct2, THEN conjunct2,
        THEN conjunct1, THEN iffD1]
      o10
    by this
  have p1: "find_first (has_class ''micro-button'') (doc_nodes bare_page) = Some (Element ''button'' [(''class'', ''micro-button'')] [])"
    by code_simp
  have p2: "href_of bare_page (Element ''button'' [(''class'', ''micro-button'')] []) = JUndefined"
    by code_simp
  have p3: "find_first (has_class ''tmdb-button'') (doc_nodes bare_page) = Some (Element ''button'' [(''class'', ''tmdb-button'')] [])"
    by code_simp
  have p4: "href_of bare_page (Element ''button'' [(''class'', ''tmdb-button'')] []) = JUndefined"
    by code_simp
  have p5: "find_first (has_class ''details'') (doc_nodes bare_page) = Some bare_details"
    by code_simp
  have p6: "find_first (has_tag ''h1'') (kids bare_details) = Some (Element ''h1'' [] [])"
    by code_simp
  have p7: "innerText_of bare_page (Element ''h1'' [] []) = None"
    by code_simp
  have p8: "location_href bare_page = ''https://www.imdb.com/film/heat-1995/''"
    by code_simp
  have p9: "fst (getLetterboxdFilmName bare_page) = None"
    by code_simp
  have t1: "fst (getImdbID bare_page) = Inr None"
    using extraction_total[where w = bare_page,
        THEN conjunct2, THEN conjunct2, THEN conjunct2, THEN conjunct1]
      conjI[OF p1 disjI1[OF p2]]
    by (rule mp)
  have t2: "fst (getTmdbID bare_page) = Inr None"
    using extraction_total[where w = bare_page,
        THEN conjunct2, THEN conjunct2, THEN conjunct2, THEN conjunct2, THEN conjunct2,
        THEN conjunct2, THEN conjunct2, THEN conjunct2, THEN conjunct1]
      conjI[OF p3 disjI1[OF p4]]
    by (rule mp)
  have t3: "fst (getQuery bare_page) = []"
    using extraction_total[where w = bare_page,
        THEN conjunct2, THEN conjunct2, THEN conjunct2, THEN conjunct2, THEN conjunct2,
        THEN conjunct2, THEN conjunct2, THEN conjunct2, THEN conjunct2, THEN conjunct2,
        THEN conjunct2, THEN conjunct2, THEN conjunct2, THEN conjunct1]
      conjI[OF p5 conjI[OF p6 p7]]
    by (rule mp)
  have t4: "\<not> (\<exists>a c x b. location_href bare_page = a @ ''letterboxd'' @ c # ''com/film/'' @ x # b
             \<and> \<not> line_terminator c \<and> x \<noteq> CHR ''/'')"
    using extraction_total[where w = bare_page,
        THEN conjunct2, THEN conjunct2, THEN conjunct2, THEN conjunct2, THEN conjunct2,
        THEN conjunct2, THEN conjunct2, THEN conjunct2, THEN conjunct2, THEN conjunct2,
        THEN conjunct1, THEN iffD1]
      p9
    by this
  have f1: "case find_first (has_class ''micro-button'') (doc_nodes film_page) of
               None \<Rightarrow> True | Some e \<Rightarrow> string_or_absent (href_of film_page e)"
    by code_simp
  have f2: "case find_first (has_class ''tmdb-button'') (doc_nodes film_page) of
               None \<Rightarrow> True | Some e \<Rightarrow> string_or_absent (href_of film_page e)"
    by code_simp
  have u1: "\<exists>r. fst (getImdbID film_page) = Inr r"
    using extraction_total[where w = film_page,
        THEN conjunct1, THEN iffD2]
      f1
    by this
  have u2: "\<exists>r. fst (getTmdbID film_page) = Inr r"
    using extraction_total[where w = film_page,
        THEN conjunct2, THEN conjunct2, THEN conjunct2, THEN conjunct2, THEN conjunct2,
        THEN conjunct1, THEN iffD2]
      f2
    by this
  have g1: "find_first (has_class ''micro-button'') (doc_nodes svg_page) = Some imdb_button"
    by code_simp
  have g2: "\<not> string_or_absent (href_of svg_page imdb_button)"
    by code_simp
  have g3: "find_first (has_class ''tmdb-button'') (doc_nodes svg_page) = Some tmdb_button"
    by code_simp
  have g4: "\<not> string_or_absent (href_of svg_page tmdb_button)"
    by code_simp
  have v1: "fst (getImdbID svg_page) = Inl TypeError"
    using extraction_total[where w = svg_page,
        THEN conjunct2, THEN conjunct1]
      conjI[OF g1 g2]
    by (rule mp)
  have v2: "fst (getTmdbID svg_page) = Inl TypeError"
    using extraction_total[where w = svg_page,
        THEN conjunct2, THEN conjunct2, THEN conjunct2, THEN conjunct2, THEN conjunct2,
        THEN conjunct2, THEN conjunct1]
      conjI[OF g3 g4]
    by (rule mp)
  from b1 b2 b3 b4 r1 r2 r3 r4 o1 o2 o3 o4 o5 o6 o7 o8 o9 s1 s2 s3 s4 p1 p2 p3 p4 p5 p6
    p7 p8 t1 t2 t3 t4 f1 f2 u1 u2 g1 g2 g3 g4 v1 v2
  show ?thesis by (intro conjI)
qed

text \<open>
  C6 as stated fails: on the page whose two buttons are anchors of an SVG image the
  \<^verbatim>\<open>.href\<close> of the element found is an object, which has no method \<^verbatim>\<open>split\<close>, and both
  \<open>getImdbID\<close> and \<open>getTmdbID\<close> raise a \<^verbatim>\<open>TypeError\<close>.
\<close>

theorem extraction_throws_counterexample:
  "find_first (has_class ''micro-button'') (doc_nodes svg_page) = Some imdb_button
 \<and> href_of svg_page imdb_button
     = JObj [(''baseVal'', JStr ''http://www.imdb.com/title/tt0113277/maindetails''),
             (''animVal'', JStr ''http://www.imdb.com/title/tt0113277/maindetails'')]
 \<and> fst (getImdbID svg_page) = Inl TypeError
 \<and> find_first (has_class ''tmdb-button'') (doc_nodes svg_page) = Some tmdb_button
 \<and> href_of svg_page tmdb_button
     = JObj [(''baseVal'', JStr ''https://www.themoviedb.org/movie/949''),
             (''animVal'', JStr ''https://www.themoviedb.org/movie/949'')]
 \<and> fst (getTmdbID svg_page) = Inl TypeError"
  by code_simp

section \<open>The query\<close>

text \<open>
  C4. On the film page the details container holds the title \<^verbatim>\<open>Heat\<close> and the release year
  \<^verbatim>\<open>1995\<close>, and the script reads both; the query \<open>getQuery\<close> returns is the title alone and
  does not contain the year.
\<close>

theorem getQuery_omits_year:
  "find_first (has_class ''details'') (doc_nodes film_page) = Some film_details
 \<and> find_first (has_tag ''h1'') (kids film_details) = Some film_heading
 \<and> innerText_of film_page film_heading = Some ''Heat''
 \<and> find_child (has_class ''releaseyear'') (has_tag ''a'')
       (has_class ''releaseyear'' film_details) (kids film_details) = Some film_year
 \<and> innerText_of film_page film_year = Some ''1995''
 \<and> fst (getQuery film_page) = ''Heat''
 \<and> \<not> sublist ''1995'' (fst (getQuery film_page))"
  by code_simp

section \<open>Finding and changing elements\<close>

lemma attr_only_has_class: "attr_only (has_class c)"
  by (simp add: attr_only_def has_class_def)

lemma attr_only_has_id: "attr_only (has_id i)"
  by (simp add: attr_only_def has_id_def)

lemma attr_onlyD: "attr_only P \<Longrightarrow> P (Element tg al ks) \<Longrightarrow> P (Element tg al ks')"
  unfolding attr_only_def by blast

lemma find_first_append:
  "find_first P (xs @ ys) = (case find_first P xs of Some n \<Rightarrow> Some n | None \<Rightarrow> find_first P ys)"
  by (induction P xs rule: find_first.induct) (auto split: option.splits)

lemma find_first_element: "find_first P ns = Some n \<Longrightarrow> \<exists>tg al ks. n = Element tg al ks"
  by (induction P ns rule: find_first.induct) (auto split: option.splits if_splits)

lemma modify_first_None: "find_first P ns = None \<Longrightarrow> modify_first P f ns = None"
  by (induction P ns rule: find_first.induct) (auto split: option.splits if_splits)

lemma modify_first_Some: "find_first P ns = Some n \<Longrightarrow> \<exists>ns'. modify_first P f ns = Some ns'"
  by (induction P ns rule: find_first.induct) (auto split: option.splits if_splits)


lemma count_tag_append: "count_tag t (xs @ ys) = count_tag t xs + count_tag t ys"
  by (induction t xs rule: count_tag.induct) auto

lemma modify_first_append:
  "modify_first P f (xs @ ys) =
     (case modify_first P f xs of
        Some xs' \<Rightarrow> Some (xs' @ ys)
      | None \<Rightarrow> (case modify_first P f ys of None \<Rightarrow> None | Some ys' \<Rightarrow> Some (xs @ ys')))"
  by (induction P f xs rule: modify_first.induct) (auto split: option.splits)

lemma modify_first_same:
  assumes keep: "\<And>tg al ks. \<exists>ks'. f (Element tg al ks) = Element tg al ks'"
  shows "attr_only P \<Longrightarrow> find_first P ns = Some n \<Longrightarrow>
         \<exists>ns'. modify_first P f ns = Some ns' \<and> find_first P ns' = Some (f n)"
proof (induction P ns rule: find_first.induct)
  case (1 P)
  then show ?case by simp
next
  case (2 P t ns)
  then show ?case by auto
next
  case (3 P tg al ks ns)
  note ao = 3(3) and fnd = 3(4)
  show ?case
  proof (cases "P (Element tg al ks)")
    case True
    with fnd have n: "n = Element tg al ks" by simp
    from keep obtain ks' where f: "f (Element tg al ks) = Element tg al ks'" by blast
    from ao True have "P (Element tg al ks')" by (rule attr_onlyD)
    with True n f show ?thesis by simp
  next
    case False
    note nP = this
    show ?thesis
    proof (cases "find_first P ks")
      case None
      with nP fnd have "find_first P ns = Some n" by simp
      from 3(2)[OF nP None ao this] obtain ns' where
        "modify_first P f ns = Some ns'" "find_first P ns' = Some (f n)" by blast
      with nP None show ?thesis by (simp add: modify_first_None)
    next
      case (Some a)
      with nP fnd have "find_first P ks = Some n" by simp
      from 3(1)[OF nP ao this] obtain ks' where
        k: "modify_first P f ks = Some ks'" "find_first P ks' = Some (f n)" by blast
      from nP ao have "\<not> P (Element tg al ks')" using attr_onlyD by blast
      with nP k show ?thesis by simp
    qed
  qed
qed

lemma modify_first_count:
  assumes keep: "\<And>tg al ks. \<exists>ks'. f (Element tg al ks) = Element tg al ks'"
  shows "find_first P ns = Some n \<Longrightarrow> modify_first P f ns = Some ns' \<Longrightarrow>
         count_tag t ns' + count_tag t (kids n) = count_tag t ns + count_tag t (kids (f n))"
proof (induction P ns arbitrary: ns' rule: find_first.induct)
  case (1 P)
  then show ?case by simp
next
  case (2 P s ns)
  then show ?case by (auto split: option.splits)
next
  case (3 P tg al ks ns)
  note fnd = 3(3) and md = 3(4)
  show ?case
  proof (cases "P (Element tg al ks)")
    case True
    with fnd have n: "n = Element tg al ks" by simp
    from keep obtain ks' where f: "f (Element tg al ks) = Element tg al ks'" by blast
    from True md f have "ns' = Element tg al ks' # ns" by simp
    with n f show ?thesis by simp
  next
    case False
    note nP = this
    show ?thesis
    proof (cases "find_first P ks")
      case None
      with nP fnd have fn: "find_first P ns = Some n" by simp
      from modify_first_Some[OF fn] obtain ms where ms: "modify_first P f ns = Some ms" by blast
      with nP None md have "ns' = Element tg al ks # ms" by (simp add: modify_first_None)
      with 3(2)[OF nP None fn ms] show ?thesis by simp
    next
      case (Some a)
      with nP fnd have fk: "find_first P ks = Some n" by simp
      from modify_first_Some[OF fk] obtain ms where ms: "modify_first P f ks = Some ms" by blast
      with nP md have "ns' = Element tg al ms # ns" by simp
      with 3(1)[OF nP fk ms] show ?thesis by simp
    qed
  qed
qed


lemma update_first_fields [simp]:
  "trace (update_first P f w) = trace w"
  "location_href (update_first P f w) = location_href w"
  "href_of (update_first P f w) = href_of w"
  "innerText_of (update_first P f w) = innerText_of w"
  "fetch_reply (update_first P f w) = fetch_reply w"
  "coerce_gt_zero (update_first P f w) = coerce_gt_zero w"
  "getServices (update_first P f w) = getServices w"
  by (simp_all add: update_first_def split: option.splits)

lemma update_first_none:
  "find_first P (doc_nodes w) = None \<Longrightarrow> update_first P f w = w"
  by (auto simp: update_first_def doc_nodes_def find_first_append modify_first_None
           split: option.splits)

lemma update_first_doc_nodes:
  assumes "find_first P (doc_nodes w) = Some n"
  shows "modify_first P f (doc_nodes w) = Some (doc_nodes (update_first P f w))"
proof (cases "find_first P (doc_head w)")
  case None
  with assms have "find_first P (doc_body w) = Some n"
    by (simp add: doc_nodes_def find_first_append)
  from modify_first_Some[OF this] obtain b where "modify_first P f (doc_body w) = Some b" by blast
  with None show ?thesis
    by (simp add: update_first_def doc_nodes_def modify_first_append modify_first_None)
next
  case (Some a)
  from modify_first_Some[OF this] obtain h where "modify_first P f (doc_head w) = Some h" by blast
  then show ?thesis
    by (simp add: update_first_def doc_nodes_def modify_first_append)
qed

lemma createElement_simps [simp]:
  "snd (createElement tg attributes children w) = log (Create tg) w"
  "fst (createElement tg attributes children w) =
     Element tg (foldl (\<lambda>al (k, v). setAttribute k v al) [] attributes)
       (foldl (\<lambda>ks child. ks @ [child]) [] children)"
  by (simp_all add: createElement_def)

lemma createTextNode_simps [simp]:
  "snd (createTextNode t w) = log (Create ''#text'') w"
  "fst (createTextNode t w) = TextNode t"
  by (simp_all add: createTextNode_def)

lemma addService_none:
  assumes "find_first (has_class ''services'') (doc_nodes w) = None"
  shows "addService sd w = log (Query ''.services'') w"
  using assms by (simp add: addService_def split_def)

lemma addService_some:
  assumes "find_first (has_class ''services'') (doc_nodes w) = Some sec"
  shows "addService sd w =
           log (Mutate ''services.append'')
             (update_first (has_class ''services'') (append_child (service_item sd))
               (log (Create ''p'') (log (Create ''a'') (log (Create ''span'') (log (Create ''#text'')
                 (log (Create ''span'') (log (Create ''img'') (log (Query ''.services'') w))))))))"
  using assms
  by (simp add: addService_def split_def Let_def createServiceIcon_def service_item_def)

section \<open>Adding a service\<close>

text \<open>
  C10. When no element of the page has the class \<^verbatim>\<open>services\<close>, \<open>addService\<close> leaves the page
  as it is, for every descriptor: all it does is the one query, no node is created and
  nothing is appended. (It returns a state: there is no error.)
\<close>

theorem addService_without_section:
  assumes "find_first (has_class ''services'') (doc_nodes w) = None"
  shows "doc_head (addService sd w) = doc_head w
       \<and> doc_body (addService sd w) = doc_body w
       \<and> trace (addService sd w) = trace w @ [Query ''.services'']"
  using addService_none[OF assms] by simp

text \<open>
  The page that is not a film page has no element with the id \<^verbatim>\<open>watch\<close>, so \<open>initPage\<close> puts
  no services section there, and \<open>addService\<close> adds nothing.
\<close>

theorem addService_without_section_witness:
  "find_first (has_id ''watch'') (doc_nodes blank_page) = None
 \<and> find_first (has_class ''services'') (doc_nodes (initPage blank_page)) = None
 \<and> doc_head (addService (justwatch ''Heat'') (initPage blank_page)) = doc_head (initPage blank_page)
 \<and> doc_body (addService (justwatch ''Heat'') (initPage blank_page)) = doc_body (initPage blank_page)
 \<and> trace (addService (justwatch ''Heat'') (initPage blank_page))
       = trace (initPage blank_page) @ [Query ''.services'']"
proof -
  have a: "find_first (has_id ''watch'') (doc_nodes blank_page) = None" by code_simp
  have b: "find_first (has_class ''services'') (doc_nodes (initPage blank_page)) = None"
    by code_simp
  from a b addService_without_section[OF b, of "justwatch ''Heat''"] show ?thesis by simp
qed

lemma film_page_section:
  "find_first (has_class ''services'') (doc_nodes (initPage film_page))
     = Some (Element ''section'' [(''class'', ''services'')] [])"
  by code_simp

text \<open>
  C5. When the page has an element of class \<^verbatim>\<open>services\<close>, the first such element is after
  \<open>addService\<close> the same element with one more child at the end: a paragraph of class
  \<^verbatim>\<open>service\<close> holding one anchor whose \<^verbatim>\<open>href\<close> is the descriptor's url and whose \<^verbatim>\<open>target\<close>
  is \<^verbatim>\<open>_blank\<close>, which holds an image whose \<^verbatim>\<open>src\<close> is the descriptor's icon and the
  descriptor's name as text. The page has one paragraph, one anchor and one image more
  than before.
\<close>

theorem addService_appends_link:
  assumes "find_first (has_class ''services'') (doc_nodes w) = Some sec"
  shows "(\<exists>tg al ks. sec = Element tg al ks
          \<and> find_first (has_class ''services'') (doc_nodes (addService sd w))
              = Some (Element tg al (ks @
                  [Element ''p'' [(''class'', ''service'')]
                     [Element ''a''
                        [(''href'', url sd), (''target'', ''_blank''), (''class'', ''label'')]
                        [Element ''span'' [(''class'', ''brand'')]
                           [Element ''img''
                              [(''src'', icon sd), (''width'', ''20''), (''height'', ''20'')] []],
                         Element ''span'' [(''class'', ''title'')] [TextNode (name sd)]]]])))
       \<and> count_tag ''p'' (doc_nodes (addService sd w)) = count_tag ''p'' (doc_nodes w) + 1
       \<and> count_tag ''a'' (doc_nodes (addService sd w)) = count_tag ''a'' (doc_nodes w) + 1
       \<and> count_tag ''img'' (doc_nodes (addService sd w)) = count_tag ''img'' (doc_nodes w) + 1"
proof -
  let ?P = "has_class ''services''"
  let ?f = "append_child (service_item sd)"
  from find_first_element[OF assms] obtain tg al ks where sec: "sec = Element tg al ks" by blast
  have keep: "\<And>tg al ks. \<exists>ks'. ?f (Element tg al ks) = Element tg al ks'" by simp
  have dn: "doc_nodes (addService sd w) = doc_nodes (update_first ?P ?f w)"
    by (simp add: addService_some[OF assms] doc_nodes_def update_first_def split: option.splits)
  have md: "modify_first ?P ?f (doc_nodes w) = Some (doc_nodes (addService sd w))"
    using update_first_doc_nodes[OF assms, of ?f] dn by simp
  from modify_first_same[OF keep attr_only_has_class assms] md
  have fnd: "find_first ?P (doc_nodes (addService sd w)) = Some (?f sec)" by simp
  have cnt: "count_tag t (doc_nodes (addService sd w))
               = count_tag t (doc_nodes w) + count_tag t [service_item sd]" for t
    using modify_first_count[OF keep assms md, of t] sec by (simp add: count_tag_append)
  from fnd sec have 1: "\<exists>tg al ks. sec = Element tg al ks
          \<and> find_first ?P (doc_nodes (addService sd w))
              = Some (Element tg al (ks @ [service_item sd]))" by simp
  have 2: "count_tag ''p'' (doc_nodes (addService sd w)) = count_tag ''p'' (doc_nodes w) + 1"
    by (simp add: cnt service_item_def)
  have 3: "count_tag ''a'' (doc_nodes (addService sd w)) = count_tag ''a'' (doc_nodes w) + 1"
    by (simp add: cnt service_item_def)
  have 4: "count_tag ''img'' (doc_nodes (addService sd w)) = count_tag ''img'' (doc_nodes w) + 1"
    by (simp add: cnt service_item_def)
  from 1 2 3 4 show ?thesis unfolding service_item_def by (intro conjI)
qed

text \<open>The film page after \<open>initPage\<close> has the services section, still empty.\<close>

theorem addService_appends_link_witness:
  "find_first (has_class ''services'') (doc_nodes (initPage film_page))
     = Some (Element ''section'' [(''class'', ''services'')] [])
 \<and> ((\<exists>tg al ks. Element ''section'' [(''class'', ''services'')] [] = Element tg al ks
          \<and> find_first (has_class ''services'')
                (doc_nodes (addService (justwatch ''Heat'') (initPage film_page)))
              = Some (Element tg al (ks @
                  [Element ''p'' [(''class'', ''service'')]
                     [Element ''a''
                        [(''href'', url (justwatch ''Heat'')), (''target'', ''_blank''),
                         (''class'', ''label'')]
                        [Element ''span'' [(''class'', ''brand'')]
                           [Element ''img''
                              [(''src'', icon (justwatch ''Heat'')), (''width'', ''20''),
                               (''height'', ''20'')] []],
                         Element ''span'' [(''class'', ''title'')]
                           [TextNode (name (justwatch ''Heat''))]]]])))
       \<and> count_tag ''p'' (doc_nodes (addService (justwatch ''Heat'') (initPage film_page)))
           = count_tag ''p'' (doc_nodes (initPage film_page)) + 1
       \<and> count_tag ''a'' (doc_nodes (addService (justwatch ''Heat'') (initPage film_page)))
           = count_tag ''a'' (doc_nodes (initPage film_page)) + 1
       \<and> count_tag ''img'' (doc_nodes (addService (justwatch ''Heat'') (initPage film_page)))
           = count_tag ''img'' (doc_nodes (initPage film_page)) + 1)"
  using film_page_section addService_appends_link[OF film_page_section, of "justwatch ''Heat''"]
  by (rule conjI)

section \<open>The identifier lookup: what it returns\<close>

lemma fetch_at:
  "apiUrl f = Inr u \<Longrightarrow>
     fetchTmdbIdFromLetterboxd f w = (Inr (fst (tmdb_try_catch u w)), snd (tmdb_try_catch u w))"
  by (simp add: fetchTmdbIdFromLetterboxd_def split_def Let_def)

lemma fetch_units:
  "fetchTmdbIdFromLetterboxd (units f) w
     = (Inr (fst (tmdb_try_catch (request_for f) w)), snd (tmdb_try_catch (request_for f) w))"
  by (rule fetch_at[OF apiUrl_units])

text \<open>
  C2, as the code has it. A film name is well formed when it holds no lone surrogate; for
  exactly those names the URL of the request can be built. For every well-formed film name
  and every answer of the network, \<open>fetchTmdbIdFromLetterboxd\<close> does not throw: its promise
  resolves. (For a name that is not well formed the promise is rejected with the
  \<^verbatim>\<open>URIError\<close> of \<^verbatim>\<open>encodeURIComponent\<close>, and nothing is requested or logged.) With \<open>u\<close> the URL
  built: when the body's \<^verbatim>\<open>results\<close> is an array that is not empty and whose first element is
  not null, the function returns the \<^verbatim>\<open>id\<close> of that element (\<^verbatim>\<open>undefined\<close> if the element has
  none) and logs nothing but the request. It returns null after one console diagnostic when
  the first element of the array is null; when \<^verbatim>\<open>results\<close> is missing, null, a boolean, a
  number, an empty string or an empty array; when the body is null; and when the request or
  the parsing of the body fails.
\<close>

theorem fetchTmdbId_outcomes:
  "(well_formed f \<longleftrightarrow> (\<exists>u. apiUrl f = Inr u))
 \<and> (well_formed f \<longrightarrow> (\<exists>v w'. fetchTmdbIdFromLetterboxd f w = (Inr v, w')))
 \<and> (\<not> well_formed f \<longrightarrow> fetchTmdbIdFromLetterboxd f w = (Inl URIError, w))
 \<and> (apiUrl f = Inr u \<and> fetch_reply w u = Body data
      \<and> get_prop data ''results'' = Inr (JArr (x # xs)) \<and> get_prop x ''id'' = Inr v
      \<longrightarrow> fetchTmdbIdFromLetterboxd f w = (Inr v, log (Fetch u) w))
 \<and> (apiUrl f = Inr u \<and> fetch_reply w u = Body data
      \<and> get_prop data ''results'' = Inr (JArr (x # xs)) \<and> get_prop x ''id'' = Inl e
      \<longrightarrow> fetchTmdbIdFromLetterboxd f w
          = (Inr JNull, log (ConsoleError ''Error fetching TMDb data:'') (log (Fetch u) w)))
 \<and> (apiUrl f = Inr u \<and> fetch_reply w u = Body data \<and> get_prop data ''results'' = Inr r
      \<and> (case r of JStr s \<Rightarrow> s = [] | JArr ys \<Rightarrow> ys = [] | JObj kvs \<Rightarrow> False | _ \<Rightarrow> True)
      \<longrightarrow> fetchTmdbIdFromLetterboxd f w
          = (Inr JNull, log (ConsoleError ''Movie not found on TMDb'') (log (Fetch u) w)))
 \<and> (apiUrl f = Inr u \<and> fetch_reply w u = Body data \<and> get_prop data ''results'' = Inl e
      \<longrightarrow> fetchTmdbIdFromLetterboxd f w
          = (Inr JNull, log (ConsoleError ''Error fetching TMDb data:'') (log (Fetch u) w)))
 \<and> (apiUrl f = Inr u \<and> (fetch_reply w u = BadJson \<or> fetch_reply w u = NetworkError)
      \<longrightarrow> fetchTmdbIdFromLetterboxd f w
          = (Inr JNull, log (ConsoleError ''Error fetching TMDb data:'') (log (Fetch u) w)))"
proof -
  have wf: "well_formed f \<longleftrightarrow> (\<exists>u. apiUrl f = Inr u)"
    using apiUrl_well_formed[of f] apiUrl_ill_formed[of f] by (cases "well_formed f") auto
  have ret: "well_formed f \<longrightarrow> (\<exists>v w'. fetchTmdbIdFromLetterboxd f w = (Inr v, w'))"
    using apiUrl_well_formed[of f] by (auto simp: fetch_at)
  have thr: "\<not> well_formed f \<longrightarrow> fetchTmdbIdFromLetterboxd f w = (Inl URIError, w)"
    by (simp add: fetchTmdbIdFromLetterboxd_def apiUrl_ill_formed)
  have c1: "apiUrl f = Inr u \<and> fetch_reply w u = Body data
      \<and> get_prop data ''results'' = Inr (JArr (x # xs)) \<and> get_prop x ''id'' = Inr v
      \<longrightarrow> fetchTmdbIdFromLetterboxd f w = (Inr v, log (Fetch u) w)"
    by (simp add: fetchTmdbIdFromLetterboxd_def tmdb_try_catch_def tmdb_try_def js_gt_zero_def)
  have c2: "apiUrl f = Inr u \<and> fetch_reply w u = Body data
      \<and> get_prop data ''results'' = Inr (JArr (x # xs)) \<and> get_prop x ''id'' = Inl e
      \<longrightarrow> fetchTmdbIdFromLetterboxd f w
          = (Inr JNull, log (ConsoleError ''Error fetching TMDb data:'') (log (Fetch u) w))"
    by (simp add: fetchTmdbIdFromLetterboxd_def tmdb_try_catch_def tmdb_try_def js_gt_zero_def)
  have c3: "apiUrl f = Inr u \<and> fetch_reply w u = Body data \<and> get_prop data ''results'' = Inr r
      \<and> (case r of JStr s \<Rightarrow> s = [] | JArr ys \<Rightarrow> ys = [] | JObj kvs \<Rightarrow> False | _ \<Rightarrow> True)
      \<longrightarrow> fetchTmdbIdFromLetterboxd f w
          = (Inr JNull, log (ConsoleError ''Movie not found on TMDb'') (log (Fetch u) w))"
    by (cases r)
       (auto simp: fetchTmdbIdFromLetterboxd_def tmdb_try_catch_def tmdb_try_def js_gt_zero_def
          movie_not_found_def)
  have c4: "apiUrl f = Inr u \<and> fetch_reply w u = Body data \<and> get_prop data ''results'' = Inl e
      \<longrightarrow> fetchTmdbIdFromLetterboxd f w
          = (Inr JNull, log (ConsoleError ''Error fetching TMDb data:'') (log (Fetch u) w))"
    by (simp add: fetchTmdbIdFromLetterboxd_def tmdb_try_catch_def tmdb_try_def)
  have c5: "apiUrl f = Inr u \<and> (fetch_reply w u = BadJson \<or> fetch_reply w u = NetworkError)
      \<longrightarrow> fetchTmdbIdFromLetterboxd f w
          = (Inr JNull, log (ConsoleError ''Error fetching TMDb data:'') (log (Fetch u) w))"
    by (auto simp: fetchTmdbIdFromLetterboxd_def tmdb_try_catch_def tmdb_try_def)
  from wf ret thr c1 c2 c3 c4 c5 show ?thesis by (intro conjI)
qed

text \<open>
  The seven answers of the network on the page with the lookup: a list of results; a list
  whose first result is null; an empty list; no list; the body null; a body that is not
  JSON; no answer. And three film names: one of the page, one with a pair of surrogates (an
  emoji), one that is a lone surrogate.
\<close>

theorem fetchTmdbId_outcomes_witness:
  "(apiUrl (units ''heat-1995'') = Inr (tmdb_search ''heat-1995'')
    \<and> fetch_reply lookup_page (tmdb_search ''heat-1995'')
        = Body (JObj [(''page'', JNum 1),
                (''results'', JArr [JObj [(''id'', JNum 949), (''title'', JStr ''Heat'')],
                                    JObj [(''id'', JNum 9799)]])])
    \<and> fetchTmdbIdFromLetterboxd (units ''heat-1995'') lookup_page
        = (Inr (JNum 949), log (Fetch (tmdb_search ''heat-1995'')) lookup_page))
 \<and> (apiUrl (units ''null-first'') = Inr (tmdb_search ''null-first'')
    \<and> fetch_reply lookup_page (tmdb_search ''null-first'')
        = Body (JObj [(''results'', JArr [JNull])])
    \<and> fetchTmdbIdFromLetterboxd (units ''null-first'') lookup_page
        = (Inr JNull, log (ConsoleError ''Error fetching TMDb data:'')
                     (log (Fetch (tmdb_search ''null-first'')) lookup_page)))
 \<and> (apiUrl (units ''no-such-film'') = Inr (tmdb_search ''no-such-film'')
    \<and> fetch_reply lookup_page (tmdb_search ''no-such-film'')
        = Body (JObj [(''results'', JArr [])])
    \<and> fetchTmdbIdFromLetterboxd (units ''no-such-film'') lookup_page
        = (Inr JNull, log (ConsoleError ''Movie not found on TMDb'')
                     (log (Fetch (tmdb_search ''no-such-film'')) lookup_page)))
 \<and> (apiUrl (units ''bad-key'') = Inr (tmdb_search ''bad-key'')
    \<and> fetch_reply lookup_page (tmdb_search ''bad-key'')
        = Body (JObj [(''success'', JBool False)])
    \<and> fetchTmdbIdFromLetterboxd (units ''bad-key'') lookup_page
        = (Inr JNull, log (ConsoleError ''Movie not found on TMDb'')
                     (log (Fetch (tmdb_search ''bad-key'')) lookup_page)))
 \<and> (apiUrl (units ''null-body'') = Inr (tmdb_search ''null-body'')
    \<and> fetch_reply lookup_page (tmdb_search ''null-body'')
        = Body JNull
    \<and> fetchTmdbIdFromLetterboxd (units ''null-body'') lookup_page
        = (Inr JNull, log (ConsoleError ''Error fetching TMDb data:'')
                     (log (Fetch (tmdb_search ''null-body'')) lookup_page)))
 \<and> (apiUrl (units ''not-json'') = Inr (tmdb_search ''not-json'')
    \<and> fetch_reply lookup_page (tmdb_search ''not-json'')
        = BadJson
    \<and> fetchTmdbIdFromLetterboxd (units ''not-json'') lookup_page
        = (Inr JNull, log (ConsoleError ''Error fetching TMDb data:'')
                     (log (Fetch (tmdb_search ''not-json'')) lookup_page)))
 \<and> (apiUrl (units ''offline'') = Inr (tmdb_search ''offline'')
    \<and> fetch_reply lookup_page (tmdb_search ''offline'')
        = NetworkError
    \<and> fetchTmdbIdFromLetterboxd (units ''offline'') lookup_page
        = (Inr JNull, log (ConsoleError ''Error fetching TMDb data:'')
                     (log (Fetch (tmdb_search ''offline'')) lookup_page)))
 \<and> (well_formed (units ''heat-1995'')
    \<and> (\<exists>v w'. fetchTmdbIdFromLetterboxd (units ''heat-1995'') lookup_page = (Inr v, w')))
 \<and> (well_formed [0xD83D, 0xDE00] \<and> (\<exists>u. apiUrl [0xD83D, 0xDE00] = Inr u))
 \<and> (\<not> well_formed [0xD800]
    \<and> fetchTmdbIdFromLetterboxd [0xD800] lookup_page = (Inl URIError, lookup_page))"
proof -
  have a0: "apiUrl (units ''heat-1995'') = Inr (tmdb_search ''heat-1995'')"
    by (simp only: apiUrl_units request_for_examples)
  have a1: "fetch_reply lookup_page (tmdb_search ''heat-1995'')
          = Body (JObj [(''page'', JNum 1),
              (''results'', JArr [JObj [(''id'', JNum 949), (''title'', JStr ''Heat'')],
                                  JObj [(''id'', JNum 9799)]])])"
    by code_simp
  have a2: "get_prop (JObj [(''page'', JNum 1),
              (''results'', JArr [JObj [(''id'', JNum 949), (''title'', JStr ''Heat'')],
                                  JObj [(''id'', JNum 9799)]])]) ''results''
          = Inr (JArr (JObj [(''id'', JNum 949), (''title'', JStr ''Heat'')] # [JObj [(''id'', JNum 9799)]]))"
    by code_simp
  have a3: "get_prop (JObj [(''id'', JNum 949), (''title'', JStr ''Heat'')]) ''id'' = Inr (JNum 949)"
    by code_simp
  have a: "fetchTmdbIdFromLetterboxd (units ''heat-1995'') lookup_page
          = (Inr (JNum 949), log (Fetch (tmdb_search ''heat-1995'')) lookup_page)"
    using fetchTmdbId_outcomes[where f = "units ''heat-1995''" and w = lookup_page,
        THEN conjunct2, THEN conjunct2, THEN conjunct2, THEN conjunct1]
      conjI[OF a0 conjI[OF a1 conjI[OF a2 a3]]]
    by (rule mp)
  have b0: "apiUrl (units ''null-first'') = Inr (tmdb_search ''null-first'')"
    by (simp only: apiUrl_units request_for_examples)
  have b1: "fetch_reply lookup_page (tmdb_search ''null-first'')
          = Body (JObj [(''results'', JArr [JNull])])"
    by code_simp
  have b2: "get_prop (JObj [(''results'', JArr [JNull])]) ''results'' = Inr (JArr (JNull # []))"
    by code_simp
  have b3: "get_prop JNull ''id'' = Inl TypeError"
    by code_simp
  have b: "fetchTmdbIdFromLetterboxd (units ''null-first'') lookup_page
          = (Inr JNull, log (ConsoleError ''Error fetching TMDb data:'')
                   (log (Fetch (tmdb_search ''null-first'')) lookup_page))"
    using fetchTmdbId_outcomes[where f = "units ''null-first''" and w = lookup_page,
        THEN conjunct2, THEN conjunct2, THEN conjunct2, THEN conjunct2, THEN conjunct1]
      conjI[OF b0 conjI[OF b1 conjI[OF b2 b3]]]
    by (rule mp)
  have c0: "apiUrl (units ''no-such-film'') = Inr (tmdb_search ''no-such-film'')"
    by (simp only: apiUrl_units request_for_examples)
  have c1: "fetch_reply lookup_page (tmdb_search ''no-such-film'')
          = Body (JObj [(''results'', JArr [])])"
    by code_simp
  have c2: "get_prop (JObj [(''results'', JArr [])]) ''results'' = Inr (JArr [])"
    by code_simp
  have c3: "case JArr [] of JStr s \<Rightarrow> s = [] | JArr ys \<Rightarrow> ys = [] | JObj kvs \<Rightarrow> False | _ \<Rightarrow> True"
    by simp
  have c: "fetchTmdbIdFromLetterboxd (units ''no-such-film'') lookup_page
          = (Inr JNull, log (ConsoleError ''Movie not found on TMDb'')
                   (log (Fetch (tmdb_search ''no-such-film'')) lookup_page))"
    using fetchTmdbId_outcomes[where f = "units ''no-such-film''" and w = lookup_page,
        THEN conjunct2, THEN conjunct2, THEN conjunct2, THEN conjunct2, THEN conjunct2, THEN conjunct1]
      conjI[OF c0 conjI[OF c1 conjI[OF c2 c3]]]
    by (rule mp)
  have d0: "apiUrl (units ''bad-key'') = Inr (tmdb_search ''bad-key'')"
    by (simp only: apiUrl_units request_for_examples)
  have d1: "fetch_reply lookup_page (tmdb_search ''bad-key'')
          = Body (JObj [(''success'', JBool False)])"
    by code_simp
  have d2: "get_prop (JObj [(''success'', JBool False)]) ''results'' = Inr JUndefined"
    by code_simp
  have d3: "case JUndefined of JStr s \<Rightarrow> s = [] | JArr ys \<Rightarrow> ys = [] | JObj kvs \<Rightarrow> False | _ \<Rightarrow> True"
    by simp
  have d: "fetchTmdbIdFromLetterboxd (units ''bad-key'') lookup_page
          = (Inr JNull, log (ConsoleError ''Movie not found on TMDb'')
                   (log (Fetch (tmdb_search ''bad-key'')) lookup_page))"
    using fetchTmdbId_outcomes[where f = "units ''bad-key''" and w = lookup_page,
        THEN conjunct2, THEN conjunct2, THEN conjunct2, THEN conjunct2, THEN conjunct2, THEN conjunct1]
      conjI[OF d0 conjI[OF d1 conjI[OF d2 d3]]]
    by (rule mp)
  have e0: "apiUrl (units ''null-body'') = Inr (tmdb_search ''null-body'')"
    by (simp only: apiUrl_units request_for_examples)
  have e1: "fetch_reply lookup_page (tmdb_search ''null-body'')
          = Body JNull"
    by code_simp
  have e2: "get_prop JNull ''results'' = Inl TypeError"
    by code_simp
  have e: "fetchTmdbIdFromLetterboxd (units ''null-body'') lookup_page
          = (Inr JNull, log (ConsoleError ''Error fetching TMDb data:'')
                   (log (Fetch (tmdb_search ''null-body'')) lookup_page))"
    using fetchTmdbId_outcomes[where f = "units ''null-body''" and w = lookup_page,
        THEN conjunct2, THEN conjunct2, THEN conjunct2, THEN conjunct2, THEN conjunct2, THEN conjunct2, THEN conjunct1]
      conjI[OF e0 conjI[OF e1 e2]]
    by (rule mp)
  have f0: "apiUrl (units ''not-json'') = Inr (tmdb_search ''not-json'')"
    by (simp only: apiUrl_units request_for_examples)
  have f1: "fetch_reply lookup_page (tmdb_search ''not-json'')
          = BadJson"
    by code_simp
  have f: "fetchTmdbIdFromLetterboxd (units ''not-json'') lookup_page
          = (Inr JNull, log (ConsoleError ''Error fetching TMDb data:'')
                   (log (Fetch (tmdb_search ''not-json'')) lookup_page))"
    using fetchTmdbId_outcomes[where f = "units ''not-json''" and w = lookup_page,
        THEN conjunct2, THEN conjunct2, THEN conjunct2, THEN conjunct2, THEN conjunct2, THEN conjunct2, THEN conjunct2]
      conjI[OF f0 disjI1[OF f1]]
    by (rule mp)
  have g0: "apiUrl (units ''offline'') = Inr (tmdb_search ''offline'')"
    by (simp only: apiUrl_units request_for_examples)
  have g1: "fetch_reply lookup_page (tmdb_search ''offline'')
          = NetworkError"
    by code_simp
  have g: "fetchTmdbIdFromLetterboxd (units ''offline'') lookup_page
          = (Inr JNull, log (ConsoleError ''Error fetching TMDb data:'')
                   (log (Fetch (tmdb_search ''offline'')) lookup_page))"
    using fetchTmdbId_outcomes[where f = "units ''offline''" and w = lookup_page,
        THEN conjunct2, THEN conjunct2, THEN conjunct2, THEN conjunct2, THEN conjunct2, THEN conjunct2, THEN conjunct2]
      conjI[OF g0 disjI2[OF g1]]
    by (rule mp)
  have h1: "well_formed (units ''heat-1995'')" by (rule well_formed_units)
  have h2: "\<exists>v w'. fetchTmdbIdFromLetterboxd (units ''heat-1995'') lookup_page = (Inr v, w')"
    using fetchTmdbId_outcomes[where f = "units ''heat-1995''" and w = lookup_page,
        THEN conjunct2, THEN conjunct1]
      h1
    by (rule mp)
  have h3: "well_formed [0xD83D, 0xDE00]" by (rule surrogate_pair(1))
  have h4: "\<exists>u. apiUrl [0xD83D, 0xDE00] = Inr u"
    using fetchTmdbId_outcomes[where f = "[0xD83D, 0xDE00]", THEN conjunct1, THEN iffD1]
      h3
    by this
  have h5: "\<not> well_formed [0xD800]" by (rule lone_surrogate(1))
  have h6: "fetchTmdbIdFromLetterboxd [0xD800] lookup_page = (Inl URIError, lookup_page)"
    using fetchTmdbId_outcomes[where f = "[0xD800]" and w = lookup_page,
        THEN conjunct2, THEN conjunct2, THEN conjunct1]
      h5
    by (rule mp)
  from a0 a1 a b0 b1 b c0 c1 c d0 d1 d e0 e1 e f0 f1 f g0 g1 g h1 h2 h3 h4 h5 h6
  show ?thesis by (intro conjI)
qed

text \<open>
  C2 as stated fails, twice. The body \<^verbatim>\<open>{"results": [null]}\<close> has a results array that is not
  empty, and there is no identifier field of its first element to return (reading it raises
  a \<^verbatim>\<open>TypeError\<close>, which the \<^verbatim>\<open>catch\<close> block takes): the function returns null after the
  diagnostic of a failed request. And for the film name that is one lone surrogate the
  function throws to its caller: \<^verbatim>\<open>encodeURIComponent\<close> raises before the \<^verbatim>\<open>try\<close> statement
  is entered, nothing is requested and nothing is logged.
\<close>

theorem fetchTmdbId_null_result_counterexample:
  "apiUrl (units ''null-first'') = Inr (tmdb_search ''null-first'')
 \<and> fetch_reply lookup_page (tmdb_search ''null-first'') = Body (JObj [(''results'', JArr [JNull])])
 \<and> get_prop (JObj [(''results'', JArr [JNull])]) ''results'' = Inr (JArr [JNull])
 \<and> get_prop JNull ''id'' = Inl TypeError
 \<and> returned (fetchTmdbIdFromLetterboxd (units ''null-first'') lookup_page) = Some JNull
 \<and> logged (fetchTmdbIdFromLetterboxd (units ''null-first'') lookup_page)
     = [Fetch (tmdb_search ''null-first''), ConsoleError ''Error fetching TMDb data:'']
 \<and> \<not> well_formed [0xD800]
 \<and> fst (fetchTmdbIdFromLetterboxd [0xD800] lookup_page) = Inl URIError
 \<and> returned (fetchTmdbIdFromLetterboxd [0xD800] lookup_page) = None
 \<and> logged (fetchTmdbIdFromLetterboxd [0xD800] lookup_page) = []"
proof -
  have u: "apiUrl (units ''null-first'') = Inr (tmdb_search ''null-first'')"
    by (simp only: apiUrl_units request_for_examples)
  have b1: "fetch_reply lookup_page (tmdb_search ''null-first'')
              = Body (JObj [(''results'', JArr [JNull])])"
    by code_simp
  have b2: "get_prop (JObj [(''results'', JArr [JNull])]) ''results'' = Inr (JArr [JNull])"
    by code_simp
  have b3: "get_prop JNull ''id'' = Inl TypeError" by code_simp
  have t1: "fst (tmdb_try_catch (tmdb_search ''null-first'') lookup_page) = JNull" by code_simp
  have t2: "trace (snd (tmdb_try_catch (tmdb_search ''null-first'') lookup_page))
              = [Fetch (tmdb_search ''null-first''), ConsoleError ''Error fetching TMDb data:'']"
    by code_simp
  have r1: "returned (fetchTmdbIdFromLetterboxd (units ''null-first'') lookup_page) = Some JNull"
    by (simp add: returned_def fetch_at[OF u] t1)
  have r2: "logged (fetchTmdbIdFromLetterboxd (units ''null-first'') lookup_page)
              = [Fetch (tmdb_search ''null-first''), ConsoleError ''Error fetching TMDb data:'']"
    by (simp only: logged_def fetch_at[OF u] snd_conv t2)
  have s0: "\<not> well_formed [0xD800]" by (rule lone_surrogate(1))
  have s1: "fetchTmdbIdFromLetterboxd [0xD800] lookup_page = (Inl URIError, lookup_page)"
    by (simp add: fetchTmdbIdFromLetterboxd_def apiUrl_ill_formed[OF s0])
  have e: "trace lookup_page = []" by code_simp
  have r3: "fst (fetchTmdbIdFromLetterboxd [0xD800] lookup_page) = Inl URIError"
    by (simp only: s1 fst_conv)
  have r4: "returned (fetchTmdbIdFromLetterboxd [0xD800] lookup_page) = None"
    by (simp add: returned_def s1)
  have r5: "logged (fetchTmdbIdFromLetterboxd [0xD800] lookup_page) = []"
    by (simp only: logged_def s1 snd_conv e)
  from u b1 b2 b3 r1 r2 s0 r3 r4 r5 show ?thesis by (intro conjI)
qed

section \<open>The load handler, step by step\<close>

lemma same_but_trace_iff:
  "same_but_trace w w' \<longleftrightarrow>
     doc_head w' = doc_head w \<and> doc_body w' = doc_body w \<and> location_href w' = location_href w
   \<and> href_of w' = href_of w \<and> innerText_of w' = innerText_of w \<and> fetch_reply w' = fetch_reply w
   \<and> coerce_gt_zero w' = coerce_gt_zero w \<and> getServices w' = getServices w"
  by (cases w; cases w') (auto simp: same_but_trace_def)

lemma same_but_trace_refl [simp]: "same_but_trace w w"
  by (simp add: same_but_trace_iff)

lemma same_but_trace_log [simp]: "same_but_trace w (log e w') = same_but_trace w w'"
  by (simp add: same_but_trace_iff)

lemma same_but_trace_trans: "same_but_trace a b \<Longrightarrow> same_but_trace b c \<Longrightarrow> same_but_trace a c"
  by (simp add: same_but_trace_iff)

lemma same_but_trace_nodes: "same_but_trace w w' \<Longrightarrow> doc_nodes w' = doc_nodes w"
  by (simp add: same_but_trace_iff doc_nodes_def)

text \<open>The reading functions: what they log, and that they read the page and nothing else.\<close>

lemma getImdbID_snd [simp]: "snd (getImdbID w) = log (Query ''.micro-button'') w"
  by (simp add: getImdbID_def split_def Let_def)

lemma getTmdbID_snd [simp]: "snd (getTmdbID w) = log (Query ''.tmdb-button'') w"
  by (simp add: getTmdbID_def split_def Let_def)

lemma getLetterboxdFilmName_snd [simp]: "snd (getLetterboxdFilmName w) = log ReadLocation w"
  by (simp add: getLetterboxdFilmName_def)

lemma getQuery_snd:
  "snd (getQuery w) =
     (case find_first (has_class ''details'') (doc_nodes w) of
        None \<Rightarrow> log (Query ''.details'') w
      | Some d \<Rightarrow> log (Query ''.releaseyear > a'') (log (Query ''h1'') (log (Query ''.details'') w)))"
  by (simp add: getQuery_def split_def Let_def split: option.splits)

lemma getQuery_same: "same_but_trace w (snd (getQuery w))"
  by (simp add: getQuery_snd split: option.splits)

lemma getQuery_trace:
  "\<exists>evs. trace (snd (getQuery w)) = trace w @ evs \<and> list_all is_page_read evs"
  by (simp add: getQuery_snd is_page_read_def split: option.splits)

lemma reads_same:
  assumes "same_but_trace w w'"
  shows "fst (getQuery w') = fst (getQuery w)" "fst (getImdbID w') = fst (getImdbID w)"
    "fst (getTmdbID w') = fst (getTmdbID w)"
    "fst (getLetterboxdFilmName w') = fst (getLetterboxdFilmName w)"
proof -
  from assms have "optional_href w' = optional_href w"
    by (auto simp: optional_href_def same_but_trace_iff fun_eq_iff split: option.splits)
  with assms same_but_trace_nodes[OF assms]
  show "fst (getQuery w') = fst (getQuery w)" "fst (getImdbID w') = fst (getImdbID w)"
    "fst (getTmdbID w') = fst (getTmdbID w)"
    "fst (getLetterboxdFilmName w') = fst (getLetterboxdFilmName w)"
    by (simp_all add: getQuery_fst getImdbID_fst getTmdbID_fst getLetterboxdFilmName_fst
          same_but_trace_iff)
qed

lemma after_reads_same: "same_but_trace (initPage w) (after_reads w)"
  using getQuery_same[of "initPage w"] by (simp add: after_reads_def)

lemma after_reads_trace:
  "\<exists>evs. trace (after_reads w) = trace (initPage w) @ evs \<and> list_all is_page_read evs \<and> evs \<noteq> []"
proof -
  from getQuery_trace[of "initPage w"] obtain evs where
    e: "trace (snd (getQuery (initPage w))) = trace (initPage w) @ evs" "list_all is_page_read evs"
    by blast
  have "trace (after_reads w)
          = trace (initPage w) @ (evs @ [Query ''.micro-button'', Query ''.tmdb-button''])"
    by (simp add: after_reads_def e(1))
  moreover have "list_all is_page_read (evs @ [Query ''.micro-button'', Query ''.tmdb-button''])"
    using e(2) by (simp add: is_page_read_def)
  ultimately show ?thesis by blast
qed

text \<open>\<open>initPage\<close>: what it logs and what it leaves alone.\<close>

lemma initPage_fields [simp]:
  "location_href (initPage w) = location_href w" "href_of (initPage w) = href_of w"
  "innerText_of (initPage w) = innerText_of w" "fetch_reply (initPage w) = fetch_reply w"
  "coerce_gt_zero (initPage w) = coerce_gt_zero w" "getServices (initPage w) = getServices w"
  by (simp_all add: initPage_def split_def Let_def getElementById_def split: option.splits)

lemma initPage_trace:
  "\<exists>evs. trace (initPage w) = trace w @ Create ''#text'' # Create ''style'' # Mutate ''head.append'' # evs
     \<and> list_all (\<lambda>e. e \<in> set [Create ''section'', Query ''#watch'', Mutate ''watch.replaceWith'']) evs"
  by (simp add: initPage_def split_def Let_def getElementById_def split: option.splits)

lemma tmdb_try_value:
  assumes "coerce_gt_zero a = coerce_gt_zero b"
  shows "map_sum fst fst (tmdb_try r a) = map_sum fst fst (tmdb_try r b)"
  using assms
  by (auto simp: tmdb_try_def movie_not_found_def js_gt_zero_def
      split: fetch_outcome.splits sum.splits jsval.splits bool.splits)

lemma try_catch_value:
  assumes "coerce_gt_zero a = coerce_gt_zero b" "fetch_reply a = fetch_reply b"
  shows "fst (tmdb_try_catch u a) = fst (tmdb_try_catch u b)"
proof -
  have v: "fst (tmdb_try_catch u c)
             = (case map_sum fst fst (tmdb_try (fetch_reply c u) (log (Fetch u) c)) of
                  Inl e \<Rightarrow> JNull | Inr v \<Rightarrow> v)" for c
    by (auto simp: tmdb_try_catch_def split: sum.splits)
  have "coerce_gt_zero (log (Fetch u) a) = coerce_gt_zero (log (Fetch u) b)"
    using assms(1) by simp
  from tmdb_try_value[OF this, of "fetch_reply b u"] assms(2) show ?thesis
    by (simp add: v)
qed

lemma fetch_returned_same:
  assumes "same_but_trace w w'"
  shows "returned (fetchTmdbIdFromLetterboxd f w') = returned (fetchTmdbIdFromLetterboxd f w)"
proof (cases "apiUrl f")
  case (Inl e)
  then show ?thesis by (simp add: returned_def fetchTmdbIdFromLetterboxd_def)
next
  case (Inr u)
  from assms have "coerce_gt_zero w' = coerce_gt_zero w" "fetch_reply w' = fetch_reply w"
    by (simp_all add: same_but_trace_iff)
  from try_catch_value[OF this] show ?thesis
    by (simp add: returned_def fetch_at[OF Inr])
qed

lemma tmdb_try_state:
  "tmdb_try r w = Inl (e, w1) \<Longrightarrow> w1 = w"
  "tmdb_try r w = Inr (v, w2) \<Longrightarrow> w2 = w \<or> w2 = log (ConsoleError ''Movie not found on TMDb'') w"
  by (auto simp: tmdb_try_def movie_not_found_def
      split: fetch_outcome.splits sum.splits if_splits bool.splits)

lemma try_catch_shape:
  "\<exists>v W d. tmdb_try_catch u w = (v, W) \<and> same_but_trace w W
     \<and> trace W = trace w @ Fetch u # d \<and> list_all is_lookup_diagnostic d"
proof (cases "tmdb_try (fetch_reply w u) (log (Fetch u) w)")
  case (Inl a)
  obtain e w1 where a: "a = (e, w1)" by (cases a)
  with Inl tmdb_try_state(1) have "w1 = log (Fetch u) w" by blast
  with Inl a show ?thesis by (simp add: tmdb_try_catch_def is_lookup_diagnostic_def)
next
  case (Inr b)
  obtain v w2 where b: "b = (v, w2)" by (cases b)
  with Inr tmdb_try_state(2)
  have "w2 = log (Fetch u) w
      \<or> w2 = log (ConsoleError ''Movie not found on TMDb'') (log (Fetch u) w)" by blast
  with Inr b show ?thesis by (auto simp: tmdb_try_catch_def is_lookup_diagnostic_def)
qed

text \<open>The lookup of a film name of the page: it returns, after the one request.\<close>

lemma fetch_shape:
  "\<exists>v W d. fetchTmdbIdFromLetterboxd (units f) w = (Inr v, W) \<and> same_but_trace w W
     \<and> trace W = trace w @ Fetch (request_for f) # d \<and> list_all is_lookup_diagnostic d"
proof -
  from try_catch_shape[of "request_for f" w] obtain v W d where
    h: "tmdb_try_catch (request_for f) w = (v, W)" "same_but_trace w W"
       "trace W = trace w @ Fetch (request_for f) # d" "list_all is_lookup_diagnostic d"
    by blast
  from h(1) have "fetchTmdbIdFromLetterboxd (units f) w = (Inr v, W)"
    by (simp add: fetch_units)
  with h(2) h(3) h(4) show ?thesis by blast
qed

lemma resolve_shape:
  assumes "case t of None \<Rightarrow> True | Some s \<Rightarrow> s \<noteq> []"
  shows "\<exists>x W look. resolveTmdbId t w = (Inr x, W) \<and> same_but_trace w W
     \<and> trace W = trace w @ look
     \<and> (case t of
          Some s \<Rightarrow> x = JStr s \<and> look = []
        | None \<Rightarrow>
            (case film_match (location_href w) of
               None \<Rightarrow> x = JNull \<and> look = [ReadLocation]
             | Some f \<Rightarrow> returned (fetchTmdbIdFromLetterboxd (units f) w) = Some x
                 \<and> (\<exists>d. look = ReadLocation # Fetch (request_for f) # d
                        \<and> list_all is_lookup_diagnostic d)))"
proof (cases t)
  case (Some s)
  with assms show ?thesis by (simp add: resolveTmdbId_def)
next
  case None
  note t = this
  show ?thesis
  proof (cases "film_match (location_href w)")
    case None
    with t show ?thesis
      by (simp add: resolveTmdbId_def split_def getLetterboxdFilmName_fst)
  next
    case (Some f)
    from film_match_sublist[OF this] have ne: "f \<noteq> []" by simp
    from fetch_shape[of f "log ReadLocation w"] obtain v W d where
      h: "fetchTmdbIdFromLetterboxd (units f) (log ReadLocation w) = (Inr v, W)"
         "same_but_trace (log ReadLocation w) W"
         "trace W = trace (log ReadLocation w) @ Fetch (request_for f) # d"
         "list_all is_lookup_diagnostic d"
      by blast
    have "returned (fetchTmdbIdFromLetterboxd (units f) (log ReadLocation w))
            = returned (fetchTmdbIdFromLetterboxd (units f) w)"
      by (rule fetch_returned_same) simp
    with h(1) have r: "returned (fetchTmdbIdFromLetterboxd (units f) w) = Some v"
      by (simp add: returned_def)
    from h(2) have s: "same_but_trace w W" by (simp add: same_but_trace_iff)
    from t Some ne h(1) have "resolveTmdbId t w = (Inr v, W)"
      by (simp add: resolveTmdbId_def split_def getLetterboxdFilmName_fst)
    with t Some r s h(3) h(4) show ?thesis by simp
  qed
qed

lemma page_tmdb_nonempty:
  assumes "page_tmdb w = Inr t"
  shows "case t of None \<Rightarrow> True | Some s \<Rightarrow> s \<noteq> []"
proof (cases t)
  case None
  then show ?thesis by simp
next
  case (Some s)
  with assms have "fst (getTmdbID (initPage w)) = Inr (Some s)" by (simp add: page_tmdb_def)
  from getTmdbID_Some[OF this] have "all_digits s" by blast
  with Some show ?thesis by (simp add: all_digits_def)
qed

lemma page_imdb_truthy:
  assumes "page_imdb w = Inr i"
  shows "truthy (js_of i) = (i \<noteq> None)"
proof (cases i)
  case None
  then show ?thesis by simp
next
  case (Some s)
  with assms have "fst (getImdbID (initPage w)) = Inr (Some s)" by (simp add: page_imdb_def)
  from getImdbID_Some[OF this] have "startsWith ''tt'' s" by blast
  then have "s \<noteq> []" by (auto simp: startsWith_def)
  with Some show ?thesis by simp
qed

text \<open>The handler in terms of what it reads: the two runs that throw, and the run that goes on.\<close>

lemma onload_reads:
  "fst (getImdbID (snd (getQuery (initPage w)))) = page_imdb w"
  "fst (getTmdbID (snd (getImdbID (snd (getQuery (initPage w)))))) = page_tmdb w"
proof -
  let ?W = "initPage w"
  show "fst (getImdbID (snd (getQuery ?W))) = page_imdb w"
    unfolding page_imdb_def by (rule reads_same(2)[OF getQuery_same])
  have "same_but_trace ?W (snd (getImdbID (snd (getQuery ?W))))"
    using getQuery_same[of ?W] by simp
  from reads_same(3)[OF this]
  show "fst (getTmdbID (snd (getImdbID (snd (getQuery ?W))))) = page_tmdb w"
    by (simp add: page_tmdb_def)
qed

lemma onload_imdb_throws:
  assumes "page_imdb w = Inl e"
  shows "onload w = (Inl e, log (Query ''.micro-button'') (snd (getQuery (initPage w))))"
proof -
  from assms have "fst (getImdbID (snd (getQuery (initPage w)))) = Inl e"
    by (simp only: onload_reads)
  then show ?thesis
    unfolding onload_def by (simp add: split_def Let_def)
qed

lemma onload_tmdb_throws:
  assumes "page_imdb w = Inr i" "page_tmdb w = Inl e"
  shows "onload w = (Inl e, after_reads w)"
proof -
  from assms have "fst (getImdbID (snd (getQuery (initPage w)))) = Inr i"
    "fst (getTmdbID (snd (getImdbID (snd (getQuery (initPage w)))))) = Inl e"
    by (simp_all only: onload_reads)
  then show ?thesis
    unfolding onload_def
    by (simp add: split_def Let_def after_reads_def del: getImdbID_snd getTmdbID_snd)
qed

lemma onload_alt:
  assumes "page_imdb w = Inr i" "page_tmdb w = Inr t"
    and "resolveTmdbId t (after_reads w) = (Inr x, w5)"
  shows "onload w =
     (if page_query w = [] \<or> (i = None \<and> \<not> truthy x)
      then (Inr (), log failure w5)
      else (Inr (), foldl (\<lambda>v service. addService service v)
                      (snd (callProvider (page_query w) i x w5))
                      (fst (callProvider (page_query w) i x w5))))"
proof -
  from assms(1,2) have r: "fst (getImdbID (snd (getQuery (initPage w)))) = Inr i"
    "fst (getTmdbID (snd (getImdbID (snd (getQuery (initPage w)))))) = Inr t"
    by (simp_all only: onload_reads)
  from assms(3) have rs:
    "resolveTmdbId t (snd (getTmdbID (snd (getImdbID (snd (getQuery (initPage w))))))) = (Inr x, w5)"
    by (simp only: after_reads_def)
  show ?thesis
    unfolding onload_def
    by (simp add: split_def Let_def r rs page_imdb_truthy[OF assms(1)] failure_def
          page_query_def[symmetric] del: getImdbID_snd getTmdbID_snd)
qed

lemma addService_step:
  assumes "find_first (has_class ''services'') (doc_nodes w) = Some (Element tg al ks)"
  shows "find_first (has_class ''services'') (doc_nodes (addService sd w))
           = Some (Element tg al (ks @ [service_item sd]))"
    and "count_tag t (doc_nodes (addService sd w))
           = count_tag t (doc_nodes w) + count_tag t [service_item sd]"
    and "trace (addService sd w) = trace w @ service_events"
proof -
  let ?P = "has_class ''services''"
  let ?f = "append_child (service_item sd)"
  have keep: "\<And>tg al ks. \<exists>ks'. ?f (Element tg al ks) = Element tg al ks'" by simp
  have dn: "doc_nodes (addService sd w) = doc_nodes (update_first ?P ?f w)"
    by (simp add: addService_some[OF assms] doc_nodes_def update_first_def split: option.splits)
  have md: "modify_first ?P ?f (doc_nodes w) = Some (doc_nodes (addService sd w))"
    using update_first_doc_nodes[OF assms, of ?f] dn by simp
  from modify_first_same[OF keep attr_only_has_class assms] md
  show "find_first ?P (doc_nodes (addService sd w)) = Some (Element tg al (ks @ [service_item sd]))"
    by simp
  show "count_tag t (doc_nodes (addService sd w))
          = count_tag t (doc_nodes w) + count_tag t [service_item sd]"
    using modify_first_count[OF keep assms md, of t] by (simp add: count_tag_append)
  show "trace (addService sd w) = trace w @ service_events"
    by (simp add: addService_some[OF assms] service_events_def)
qed


lemma addService_loop_some:
  "find_first (has_class ''services'') (doc_nodes w) = Some (Element tg al ks) \<Longrightarrow>
     find_first (has_class ''services'') (doc_nodes (foldl (\<lambda>v service. addService service v) w sds))
       = Some (Element tg al (ks @ map service_item sds))
   \<and> count_tag t (doc_nodes (foldl (\<lambda>v service. addService service v) w sds))
       = count_tag t (doc_nodes w) + count_tag t (map service_item sds)
   \<and> trace (foldl (\<lambda>v service. addService service v) w sds)
       = trace w @ concat (map (\<lambda>sd. service_events) sds)"
proof (induction sds arbitrary: w ks)
  case Nil
  then show ?case by simp
next
  case (Cons sd sds)
  note st = addService_step[OF Cons.prems, where sd = sd]
  have c: "count_tag t (service_item sd # map service_item sds)
             = count_tag t [service_item sd] + count_tag t (map service_item sds)"
    using count_tag_append[of t "[service_item sd]" "map service_item sds"] by simp
  from Cons.IH[OF st(1)] st(2)[where t = t] st(3) c
  show ?case by simp
qed

lemma addService_loop_none:
  "find_first (has_class ''services'') (doc_nodes w) = None \<Longrightarrow>
     doc_nodes (foldl (\<lambda>v service. addService service v) w sds) = doc_nodes w
   \<and> trace (foldl (\<lambda>v service. addService service v) w sds)
       = trace w @ map (\<lambda>sd. Query ''.services'') sds"
proof (induction sds arbitrary: w)
  case Nil
  then show ?case by simp
next
  case (Cons sd sds)
  have a: "addService sd w = log (Query ''.services'') w" by (rule addService_none[OF Cons.prems])
  with Cons.prems have "find_first (has_class ''services'') (doc_nodes (addService sd w)) = None"
    by simp
  from Cons.IH[OF this] a show ?case by simp
qed

lemma callProvider_simps:
  "same_but_trace w w5 \<Longrightarrow> fst (callProvider (page_query w) i x w5) = provided w i x"
  "same_but_trace w w5 \<Longrightarrow>
     trace (snd (callProvider (page_query w) i x w5)) = trace w5 @ provider_calls w i x"
  "doc_nodes (snd (callProvider q i x w5)) = doc_nodes w5"
  by (auto simp: callProvider_def provided_def provider_calls_def same_but_trace_iff
      split: option.splits)

text \<open>
  The whole run of the handler when the two reads of an identifier return: it does not
  throw, and its log is the log of \<open>initPage\<close>, then the reads of the page, then the lookup,
  then either the diagnostic or the call of the provider and one round of \<open>addService\<close> for
  each descriptor.
\<close>

lemma onload_run:
  assumes "page_imdb w = Inr i" "page_tmdb w = Inr t"
  shows "\<exists>w' x init reads look.
     onload w = (Inr (), w')
   \<and> trace (initPage w) = trace w @ init
   \<and> (\<exists>evs. init = Create ''#text'' # Create ''style'' # Mutate ''head.append'' # evs
        \<and> list_all (\<lambda>e. e \<in> set [Create ''section'', Query ''#watch'', Mutate ''watch.replaceWith'']) evs)
   \<and> list_all is_page_read reads \<and> reads \<noteq> []
   \<and> (case t of
          Some s \<Rightarrow> x = JStr s \<and> look = []
        | None \<Rightarrow>
            (case page_film w of
               None \<Rightarrow> x = JNull \<and> look = [ReadLocation]
             | Some f \<Rightarrow> returned (fetchTmdbIdFromLetterboxd (units f) w) = Some x
                 \<and> (\<exists>d. look = ReadLocation # Fetch (request_for f) # d \<and> list_all is_lookup_diagnostic d)))
   \<and> (if page_query w = [] \<or> (i = None \<and> \<not> truthy x)
      then trace w' = trace w @ init @ reads @ look @ [failure]
         \<and> doc_nodes w' = doc_nodes (initPage w)
      else (case find_first (has_class ''services'') (doc_nodes (initPage w)) of
              None \<Rightarrow>
                trace w' = trace w @ init @ reads @ look @ provider_calls w i x
                             @ map (\<lambda>sd. Query ''.services'') (provided w i x)
              \<and> doc_nodes w' = doc_nodes (initPage w)
            | Some sec \<Rightarrow>
                trace w' = trace w @ init @ reads @ look @ provider_calls w i x
                             @ concat (map (\<lambda>sd. service_events) (provided w i x))
              \<and> (\<exists>tg al ks. sec = Element tg al ks
                    \<and> find_first (has_class ''services'') (doc_nodes w')
                        = Some (Element tg al (ks @ map service_item (provided w i x))))
              \<and> (\<forall>g. count_tag g (doc_nodes w')
                        = count_tag g (doc_nodes (initPage w))
                          + count_tag g (map service_item (provided w i x)))))"
proof -
  let ?W = "initPage w"
  let ?R = "after_reads w"
  from initPage_trace[of w] obtain evs where
    ev: "trace ?W = trace w @ Create ''#text'' # Create ''style'' # Mutate ''head.append'' # evs"
        "list_all (\<lambda>e. e \<in> set [Create ''section'', Query ''#watch'', Mutate ''watch.replaceWith'']) evs"
    by blast
  define init where "init = Create ''#text'' # Create ''style'' # Mutate ''head.append'' # evs"
  from after_reads_trace[of w] obtain reads where
    rd: "trace ?R = trace ?W @ reads" "list_all is_page_read reads" "reads \<noteq> []" by blast
  have sR: "same_but_trace ?W ?R" by (rule after_reads_same)
  from resolve_shape[OF page_tmdb_nonempty[OF assms(2)], of ?R] obtain x W5 look where
    rs: "resolveTmdbId t ?R = (Inr x, W5)" "same_but_trace ?R W5"
        "trace W5 = trace ?R @ look"
        "case t of
           Some s \<Rightarrow> x = JStr s \<and> look = []
         | None \<Rightarrow>
             (case film_match (location_href ?R) of
                None \<Rightarrow> x = JNull \<and> look = [ReadLocation]
              | Some f \<Rightarrow> returned (fetchTmdbIdFromLetterboxd (units f) ?R) = Some x
                  \<and> (\<exists>d. look = ReadLocation # Fetch (request_for f) # d \<and> list_all is_lookup_diagnostic d))"
    by blast
  have loc: "location_href ?R = location_href w"
    using sR by (simp add: same_but_trace_iff)
  have net: "fetch_reply ?R = fetch_reply w" "coerce_gt_zero ?R = coerce_gt_zero w"
    using sR by (simp_all add: same_but_trace_iff)
  have ret: "returned (fetchTmdbIdFromLetterboxd (units f) ?R)
               = returned (fetchTmdbIdFromLetterboxd (units f) w)" for f
    using try_catch_value[OF net(2) net(1), of "request_for f"]
    by (simp add: returned_def fetch_units)
  have lk: "case t of
          Some s \<Rightarrow> x = JStr s \<and> look = []
        | None \<Rightarrow>
            (case page_film w of
               None \<Rightarrow> x = JNull \<and> look = [ReadLocation]
             | Some f \<Rightarrow> returned (fetchTmdbIdFromLetterboxd (units f) w) = Some x
                 \<and> (\<exists>d. look = ReadLocation # Fetch (request_for f) # d \<and> list_all is_lookup_diagnostic d))"
    using rs(4) by (auto simp: loc ret page_film_def getLetterboxdFilmName_fst split: option.splits)
  have s5: "same_but_trace ?W W5" by (rule same_but_trace_trans[OF sR rs(2)])
  have t5: "trace W5 = trace w @ init @ reads @ look"
    by (simp add: rs(3) rd(1) ev(1) init_def)
  have d5: "doc_nodes W5 = doc_nodes ?W" by (rule same_but_trace_nodes[OF s5])
  have g5: "getServices W5 = getServices w" using s5 by (simp add: same_but_trace_iff)
  let ?C = "callProvider (page_query w) i x W5"
  have c1: "fst ?C = provided w i x"
    by (simp add: callProvider_def provided_def g5 split: option.splits)
  have c2: "trace (snd ?C) = trace W5 @ provider_calls w i x"
    by (simp add: callProvider_def provider_calls_def g5 split: option.splits)
  have c3: "doc_nodes (snd ?C) = doc_nodes ?W" by (simp add: callProvider_simps(3) d5)
  let ?F = "foldl (\<lambda>v service. addService service v) (snd ?C) (fst ?C)"
  define w' where
    "w' = (if page_query w = [] \<or> (i = None \<and> \<not> truthy x) then log failure W5 else ?F)"
  have on: "onload w = (Inr (), w')" by (simp add: onload_alt[OF assms rs(1)] w'_def)
  have fin: "if page_query w = [] \<or> (i = None \<and> \<not> truthy x)
      then trace w' = trace w @ init @ reads @ look @ [failure]
         \<and> doc_nodes w' = doc_nodes (initPage w)
      else (case find_first (has_class ''services'') (doc_nodes (initPage w)) of
              None \<Rightarrow>
                trace w' = trace w @ init @ reads @ look @ provider_calls w i x
                             @ map (\<lambda>sd. Query ''.services'') (provided w i x)
              \<and> doc_nodes w' = doc_nodes (initPage w)
            | Some sec \<Rightarrow>
                trace w' = trace w @ init @ reads @ look @ provider_calls w i x
                             @ concat (map (\<lambda>sd. service_events) (provided w i x))
              \<and> (\<exists>tg al ks. sec = Element tg al ks
                    \<and> find_first (has_class ''services'') (doc_nodes w')
                        = Some (Element tg al (ks @ map service_item (provided w i x))))
              \<and> (\<forall>g. count_tag g (doc_nodes w')
                        = count_tag g (doc_nodes (initPage w))
                          + count_tag g (map service_item (provided w i x))))"
  proof (cases "page_query w = [] \<or> (i = None \<and> \<not> truthy x)")
    case True
    then show ?thesis by (auto simp: t5 d5 w'_def)
  next
    case False
    note ok = this
    then have w': "w' = ?F" by (auto simp: w'_def)
    show ?thesis
    proof (cases "find_first (has_class ''services'') (doc_nodes ?W)")
      case None
      then have "find_first (has_class ''services'') (doc_nodes (snd ?C)) = None" by (simp add: c3)
      from addService_loop_none[OF this, of "fst ?C"] ok None show ?thesis
        unfolding w' by (auto simp: c1 c2 c3 t5)
    next
      case (Some sec)
      from find_first_element[OF Some] obtain tg al ks where sec: "sec = Element tg al ks" by blast
      with Some have "find_first (has_class ''services'') (doc_nodes (snd ?C)) = Some (Element tg al ks)"
        by (simp add: c3)
      note lp = addService_loop_some[OF this, where sds = "fst ?C"]
      from lp[where t = "''p''"] have tr: "trace ?F = trace (snd ?C) @ concat (map (\<lambda>sd. service_events) (fst ?C))"
        and fd: "find_first (has_class ''services'') (doc_nodes ?F)
                   = Some (Element tg al (ks @ map service_item (fst ?C)))"
        by blast+
      have ct: "count_tag g (doc_nodes ?F)
                  = count_tag g (doc_nodes ?W) + count_tag g (map service_item (provided w i x))" for g
        using lp[where t = g] by (simp add: c1 c3)
      from ok Some sec tr fd ct show ?thesis
        unfolding w' by (auto simp: c1 c2 t5)
    qed
  qed
  have i1: "trace (initPage w) = trace w @ init" by (simp add: ev(1) init_def)
  have i2: "\<exists>evs. init = Create ''#text'' # Create ''style'' # Mutate ''head.append'' # evs
        \<and> list_all (\<lambda>e. e \<in> set [Create ''section'', Query ''#watch'', Mutate ''watch.replaceWith'']) evs"
    using ev(2) by (simp add: init_def)
  from on i1 i2 rd(2) rd(3) lk fin
  have "onload w = (Inr (), w')
   \<and> trace (initPage w) = trace w @ init
   \<and> (\<exists>evs. init = Create ''#text'' # Create ''style'' # Mutate ''head.append'' # evs
        \<and> list_all (\<lambda>e. e \<in> set [Create ''section'', Query ''#watch'', Mutate ''watch.replaceWith'']) evs)
   \<and> list_all is_page_read reads \<and> reads \<noteq> []
   \<and> (case t of
          Some s \<Rightarrow> x = JStr s \<and> look = []
        | None \<Rightarrow>
            (case page_film w of
               None \<Rightarrow> x = JNull \<and> look = [ReadLocation]
             | Some f \<Rightarrow> returned (fetchTmdbIdFromLetterboxd (units f) w) = Some x
                 \<and> (\<exists>d. look = ReadLocation # Fetch (request_for f) # d \<and> list_all is_lookup_diagnostic d)))
   \<and> (if page_query w = [] \<or> (i = None \<and> \<not> truthy x)
      then trace w' = trace w @ init @ reads @ look @ [failure]
         \<and> doc_nodes w' = doc_nodes (initPage w)
      else (case find_first (has_class ''services'') (doc_nodes (initPage w)) of
              None \<Rightarrow>
                trace w' = trace w @ init @ reads @ look @ provider_calls w i x
                             @ map (\<lambda>sd. Query ''.services'') (provided w i x)
              \<and> doc_nodes w' = doc_nodes (initPage w)
            | Some sec \<Rightarrow>
                trace w' = trace w @ init @ reads @ look @ provider_calls w i x
                             @ concat (map (\<lambda>sd. service_events) (provided w i x))
              \<and> (\<exists>tg al ks. sec = Element tg al ks
                    \<and> find_first (has_class ''services'') (doc_nodes w')
                        = Some (Element tg al (ks @ map service_item (provided w i x))))
              \<and> (\<forall>g. count_tag g (doc_nodes w')
                        = count_tag g (doc_nodes (initPage w))
                          + count_tag g (map service_item (provided w i x)))))"
    by (intro conjI)
  then show ?thesis by (intro exI)
qed

text \<open>
  The run of the handler when a read of an identifier throws: the handler throws what the
  read raised, and its log is the log of \<open>initPage\<close> and the reads made so far.
\<close>

lemma page_ids_cases:
  "page_ids w = Inl e \<longleftrightarrow>
     page_imdb w = Inl e \<or> (\<exists>i. page_imdb w = Inr i \<and> page_tmdb w = Inl e)"
  "page_ids w = Inr (i, t) \<longleftrightarrow> page_imdb w = Inr i \<and> page_tmdb w = Inr t"
  by (auto simp: page_ids_def split: sum.splits)

lemma onload_thrown:
  assumes "page_ids w = Inl e"
  shows "\<exists>init reads.
     fst (onload w) = Inl e
   \<and> trace (snd (onload w)) = trace w @ init @ reads
   \<and> trace (initPage w) = trace w @ init
   \<and> (\<exists>evs. init = Create ''#text'' # Create ''style'' # Mutate ''head.append'' # evs
        \<and> list_all (\<lambda>e. e \<in> set [Create ''section'', Query ''#watch'', Mutate ''watch.replaceWith'']) evs)
   \<and> list_all is_page_read reads \<and> reads \<noteq> []
   \<and> doc_nodes (snd (onload w)) = doc_nodes (initPage w)"
proof -
  let ?W = "initPage w"
  from initPage_trace[of w] obtain evs where
    ev: "trace ?W = trace w @ Create ''#text'' # Create ''style'' # Mutate ''head.append'' # evs"
        "list_all (\<lambda>e. e \<in> set [Create ''section'', Query ''#watch'', Mutate ''watch.replaceWith'']) evs"
    by blast
  define init where "init = Create ''#text'' # Create ''style'' # Mutate ''head.append'' # evs"
  have i1: "trace ?W = trace w @ init" by (simp add: ev(1) init_def)
  have i2: "\<exists>evs. init = Create ''#text'' # Create ''style'' # Mutate ''head.append'' # evs
        \<and> list_all (\<lambda>e. e \<in> set [Create ''section'', Query ''#watch'', Mutate ''watch.replaceWith'']) evs"
    using ev(2) by (simp add: init_def)
  have "\<exists>reads. fst (onload w) = Inl e \<and> trace (snd (onload w)) = trace ?W @ reads
          \<and> list_all is_page_read reads \<and> reads \<noteq> []
          \<and> doc_nodes (snd (onload w)) = doc_nodes ?W"
  proof (cases "page_imdb w")
    case (Inl e')
    with assms have e: "page_imdb w = Inl e" by (simp add: page_ids_def)
    from getQuery_trace[of ?W] obtain qs where
      q: "trace (snd (getQuery ?W)) = trace ?W @ qs" "list_all is_page_read qs" by blast
    have "trace (snd (onload w)) = trace ?W @ (qs @ [Query ''.micro-button''])"
      by (simp add: onload_imdb_throws[OF e] q(1))
    moreover have "list_all is_page_read (qs @ [Query ''.micro-button''])"
      using q(2) by (simp add: is_page_read_def)
    moreover have "doc_nodes (snd (onload w)) = doc_nodes ?W"
      using same_but_trace_nodes[OF getQuery_same[of ?W]] by (simp add: onload_imdb_throws[OF e])
    moreover have "fst (onload w) = Inl e" by (simp add: onload_imdb_throws[OF e])
    ultimately show ?thesis by blast
  next
    case (Inr i)
    with assms have t: "page_tmdb w = Inl e" by (simp add: page_ids_def split: sum.splits)
    note on = onload_tmdb_throws[OF Inr t]
    from after_reads_trace[of w] obtain reads where
      rd: "trace (after_reads w) = trace ?W @ reads" "list_all is_page_read reads" "reads \<noteq> []"
      by blast
    have "doc_nodes (after_reads w) = doc_nodes ?W"
      by (rule same_but_trace_nodes[OF after_reads_same])
    with rd show ?thesis by (auto simp: on)
  qed
  then obtain reads where
    r: "fst (onload w) = Inl e" "trace (snd (onload w)) = trace ?W @ reads"
       "list_all is_page_read reads" "reads \<noteq> []" "doc_nodes (snd (onload w)) = doc_nodes ?W"
    by blast
  from r(2) i1 have tr: "trace (snd (onload w)) = trace w @ init @ reads" by simp
  from r(1) tr i1 i2 r(3) r(4) r(5)
  have "fst (onload w) = Inl e
   \<and> trace (snd (onload w)) = trace w @ init @ reads
   \<and> trace (initPage w) = trace w @ init
   \<and> (\<exists>evs. init = Create ''#text'' # Create ''style'' # Mutate ''head.append'' # evs
        \<and> list_all (\<lambda>e. e \<in> set [Create ''section'', Query ''#watch'', Mutate ''watch.replaceWith'']) evs)
   \<and> list_all is_page_read reads \<and> reads \<noteq> []
   \<and> doc_nodes (snd (onload w)) = doc_nodes (initPage w)"
    by (intro conjI)
  then show ?thesis by (intro exI)
qed

section \<open>Kinds of events in the run of the handler\<close>

lemma filter_none: "list_all P xs \<Longrightarrow> (\<And>e. P e \<Longrightarrow> \<not> Q e) \<Longrightarrow> filter Q xs = []"
  by (induction xs) auto

lemma list_all_weaken: "list_all P xs \<Longrightarrow> (\<And>e. P e \<Longrightarrow> Q e) \<Longrightarrow> list_all Q xs"
  by (induction xs) auto

lemma page_read_kind:
  "is_page_read e \<Longrightarrow> \<not> is_fetch e \<and> \<not> is_call e \<and> \<not> is_mutation e \<and> \<not> is_console e
     \<and> e \<noteq> failure \<and> e \<noteq> ReadLocation"
  by (auto simp: is_page_read_def failure_def)

lemma console_kind: "is_console e \<Longrightarrow> \<not> is_fetch e \<and> \<not> is_call e \<and> \<not> is_mutation e \<and> \<not> is_page_read e"
  by (cases e) (auto simp: is_page_read_def)

lemma lookup_diagnostic_kind:
  "is_lookup_diagnostic e \<Longrightarrow> is_console e \<and> e \<noteq> failure"
  by (auto simp: is_lookup_diagnostic_def failure_def)

lemma service_events_kind:
  "filter is_fetch (concat (map (\<lambda>sd. service_events) sds)) = []"
  "filter is_call (concat (map (\<lambda>sd. service_events) sds)) = []"
  "filter (\<lambda>e. e = failure) (concat (map (\<lambda>sd. service_events) sds)) = []"
  "list_all (\<lambda>e. \<not> is_page_read e \<and> \<not> is_fetch e \<and> e \<noteq> ReadLocation)
     (concat (map (\<lambda>sd. service_events) sds))"
  "set (filter is_mutation (concat (map (\<lambda>sd. service_events) sds))) \<subseteq> {Mutate ''services.append''}"
  by (induction sds) (auto simp: service_events_def failure_def is_page_read_def)

lemma service_queries_kind:
  "filter is_fetch (map (\<lambda>sd. Query ''.services'') sds) = []"
  "filter is_call (map (\<lambda>sd. Query ''.services'') sds) = []"
  "filter (\<lambda>e. e = failure) (map (\<lambda>sd. Query ''.services'') sds) = []"
  "list_all (\<lambda>e. \<not> is_page_read e \<and> \<not> is_fetch e \<and> e \<noteq> ReadLocation)
     (map (\<lambda>sd. Query ''.services'') sds)"
  "filter is_mutation (map (\<lambda>sd. Query ''.services'') sds) = []"
  by (induction sds) (auto simp: failure_def is_page_read_def)

lemma provider_calls_kind:
  "filter is_fetch (provider_calls w i x) = []"
  "filter is_call (provider_calls w i x) = provider_calls w i x"
  "filter (\<lambda>e. e = failure) (provider_calls w i x) = []"
  "list_all (\<lambda>e. \<not> is_page_read e \<and> \<not> is_fetch e \<and> e \<noteq> ReadLocation) (provider_calls w i x)"
  "filter is_mutation (provider_calls w i x) = []"
  by (auto simp: provider_calls_def failure_def is_page_read_def split: option.splits)

lemma failure_kind [simp]:
  "\<not> is_fetch failure" "\<not> is_call failure" "\<not> is_mutation failure" "\<not> is_page_read failure"
  "failure \<noteq> ReadLocation"
  by (simp_all add: failure_def is_page_read_def)


lemma onload_phases:
  assumes "page_imdb w = Inr i" "page_tmdb w = Inr t"
  shows "\<exists>w' x init reads look render.
     onload w = (Inr (), w')
   \<and> trace w' = trace w @ init @ reads @ look @ render
   \<and> trace (initPage w) = trace w @ init
   \<and> (\<exists>evs. init = Create ''#text'' # Create ''style'' # Mutate ''head.append'' # evs
        \<and> list_all (\<lambda>e. e \<in> set [Create ''section'', Query ''#watch'', Mutate ''watch.replaceWith'']) evs)
   \<and> list_all is_page_read reads \<and> reads \<noteq> []
   \<and> (case t of
          Some s \<Rightarrow> x = JStr s \<and> look = []
        | None \<Rightarrow>
            (case page_film w of
               None \<Rightarrow> x = JNull \<and> look = [ReadLocation]
             | Some f \<Rightarrow> returned (fetchTmdbIdFromLetterboxd (units f) w) = Some x
                 \<and> (\<exists>d. look = ReadLocation # Fetch (request_for f) # d \<and> list_all is_lookup_diagnostic d)))
   \<and> filter is_fetch render = []
   \<and> filter is_call render
       = (if page_query w = [] \<or> (i = None \<and> \<not> truthy x) then [] else provider_calls w i x)
   \<and> filter (\<lambda>e. e = failure) render
       = (if page_query w = [] \<or> (i = None \<and> \<not> truthy x) then [failure] else [])
   \<and> list_all (\<lambda>e. \<not> is_page_read e \<and> \<not> is_fetch e \<and> e \<noteq> ReadLocation) render
   \<and> set (filter is_mutation render) \<subseteq> {Mutate ''services.append''}"
proof -
  from onload_run[OF assms] obtain w' x init reads look where
    on: "onload w = (Inr (), w')"
    and i1: "trace (initPage w) = trace w @ init"
    and i2: "\<exists>evs. init = Create ''#text'' # Create ''style'' # Mutate ''head.append'' # evs
        \<and> list_all (\<lambda>e. e \<in> set [Create ''section'', Query ''#watch'', Mutate ''watch.replaceWith'']) evs"
    and rd: "list_all is_page_read reads" "reads \<noteq> []"
    and lk: "case t of
          Some s \<Rightarrow> x = JStr s \<and> look = []
        | None \<Rightarrow>
            (case page_film w of
               None \<Rightarrow> x = JNull \<and> look = [ReadLocation]
             | Some f \<Rightarrow> returned (fetchTmdbIdFromLetterboxd (units f) w) = Some x
                 \<and> (\<exists>d. look = ReadLocation # Fetch (request_for f) # d \<and> list_all is_lookup_diagnostic d))"
    and fin: "if page_query w = [] \<or> (i = None \<and> \<not> truthy x)
      then trace w' = trace w @ init @ reads @ look @ [failure]
         \<and> doc_nodes w' = doc_nodes (initPage w)
      else (case find_first (has_class ''services'') (doc_nodes (initPage w)) of
              None \<Rightarrow>
                trace w' = trace w @ init @ reads @ look @ provider_calls w i x
                             @ map (\<lambda>sd. Query ''.services'') (provided w i x)
              \<and> doc_nodes w' = doc_nodes (initPage w)
            | Some sec \<Rightarrow>
                trace w' = trace w @ init @ reads @ look @ provider_calls w i x
                             @ concat (map (\<lambda>sd. service_events) (provided w i x))
              \<and> (\<exists>tg al ks. sec = Element tg al ks
                    \<and> find_first (has_class ''services'') (doc_nodes w')
                        = Some (Element tg al (ks @ map service_item (provided w i x))))
              \<and> (\<forall>g. count_tag g (doc_nodes w')
                        = count_tag g (doc_nodes (initPage w))
                          + count_tag g (map service_item (provided w i x))))"
    by blast
  define bad where "bad \<longleftrightarrow> page_query w = [] \<or> (i = None \<and> \<not> truthy x)"
  define render where
    "render = (if bad then [failure]
               else provider_calls w i x @
                 (case find_first (has_class ''services'') (doc_nodes (initPage w)) of
                    None \<Rightarrow> map (\<lambda>sd. Query ''.services'') (provided w i x)
                  | Some sec \<Rightarrow> concat (map (\<lambda>sd. service_events) (provided w i x))))"
  have tr: "trace w' = trace w @ init @ reads @ look @ render"
    using fin unfolding render_def bad_def by (auto split: option.splits)
  have r1: "filter is_fetch render = []"
    by (simp add: render_def provider_calls_kind service_events_kind service_queries_kind
          split: option.splits)
  have r2: "filter is_call render = (if bad then [] else provider_calls w i x)"
    by (simp add: render_def provider_calls_kind service_events_kind service_queries_kind
          split: option.splits)
  have r3: "filter (\<lambda>e. e = failure) render = (if bad then [failure] else [])"
    by (simp add: render_def provider_calls_kind service_events_kind service_queries_kind
          split: option.splits)
  have r4: "list_all (\<lambda>e. \<not> is_page_read e \<and> \<not> is_fetch e \<and> e \<noteq> ReadLocation) render"
    by (simp add: render_def provider_calls_kind service_events_kind service_queries_kind
          split: option.splits)
  have r5: "set (filter is_mutation render) \<subseteq> {Mutate ''services.append''}"
    using service_events_kind(5)[of "provided w i x"]
    by (cases bad; cases "find_first (has_class ''services'') (doc_nodes (initPage w))")
       (simp_all add: render_def provider_calls_kind service_queries_kind del: set_filter)
  from on tr i1 i2 rd lk r1 r2[unfolded bad_def] r3[unfolded bad_def] r4 r5
  have "onload w = (Inr (), w')
   \<and> trace w' = trace w @ init @ reads @ look @ render
   \<and> trace (initPage w) = trace w @ init
   \<and> (\<exists>evs. init = Create ''#text'' # Create ''style'' # Mutate ''head.append'' # evs
        \<and> list_all (\<lambda>e. e \<in> set [Create ''section'', Query ''#watch'', Mutate ''watch.replaceWith'']) evs)
   \<and> list_all is_page_read reads \<and> reads \<noteq> []
   \<and> (case t of
          Some s \<Rightarrow> x = JStr s \<and> look = []
        | None \<Rightarrow>
            (case page_film w of
               None \<Rightarrow> x = JNull \<and> look = [ReadLocation]
             | Some f \<Rightarrow> returned (fetchTmdbIdFromLetterboxd (units f) w) = Some x
                 \<and> (\<exists>d. look = ReadLocation # Fetch (request_for f) # d \<and> list_all is_lookup_diagnostic d)))
   \<and> filter is_fetch render = []
   \<and> filter is_call render
       = (if page_query w = [] \<or> (i = None \<and> \<not> truthy x) then [] else provider_calls w i x)
   \<and> filter (\<lambda>e. e = failure) render
       = (if page_query w = [] \<or> (i = None \<and> \<not> truthy x) then [failure] else [])
   \<and> list_all (\<lambda>e. \<not> is_page_read e \<and> \<not> is_fetch e \<and> e \<noteq> ReadLocation) render
   \<and> set (filter is_mutation render) \<subseteq> {Mutate ''services.append''}"
    by (intro conjI)
  then show ?thesis by (intro exI)
qed

lemma init_filters:
  assumes "\<exists>evs. init = Create ''#text'' # Create ''style'' # Mutate ''head.append'' # evs
        \<and> list_all (\<lambda>e. e \<in> set [Create ''section'', Query ''#watch'', Mutate ''watch.replaceWith'']) evs"
  shows "filter is_fetch init = []" "filter is_call init = []" "filter (\<lambda>e. e = failure) init = []"
    "list_all (\<lambda>e. \<not> is_page_read e \<and> \<not> is_fetch e) init"
    "filter is_mutation init \<noteq> []"
    "set (filter is_mutation init) \<subseteq> {Mutate ''head.append'', Mutate ''watch.replaceWith''}"
proof -
  from assms obtain evs where
    i: "init = Create ''#text'' # Create ''style'' # Mutate ''head.append'' # evs"
    and e: "list_all (\<lambda>e. e \<in> set [Create ''section'', Query ''#watch'', Mutate ''watch.replaceWith'']) evs"
    by blast
  from e have "filter is_fetch evs = []" by (rule filter_none) auto
  then show "filter is_fetch init = []" by (simp add: i)
  from e have "filter is_call evs = []" by (rule filter_none) auto
  then show "filter is_call init = []" by (simp add: i)
  from e have "filter (\<lambda>e. e = failure) evs = []" by (rule filter_none) (auto simp: failure_def)
  then show "filter (\<lambda>e. e = failure) init = []" by (simp add: i failure_def)
  from e have "list_all (\<lambda>e. \<not> is_page_read e \<and> \<not> is_fetch e) evs"
    by (rule list_all_weaken) (auto simp: is_page_read_def)
  then show "list_all (\<lambda>e. \<not> is_page_read e \<and> \<not> is_fetch e) init"
    by (simp add: i is_page_read_def)
  show "filter is_mutation init \<noteq> []" by (simp add: i)
  from e have "set evs \<subseteq> {Create ''section'', Query ''#watch'', Mutate ''watch.replaceWith''}"
    by (auto simp: list_all_iff)
  then show "set (filter is_mutation init) \<subseteq> {Mutate ''head.append'', Mutate ''watch.replaceWith''}"
    by (auto simp: i)
qed

lemma reads_filters:
  assumes "list_all is_page_read reads"
  shows "filter is_fetch reads = []" "filter is_call reads = []"
    "filter (\<lambda>e. e = failure) reads = []" "filter is_mutation reads = []"
  using assms page_read_kind by (auto intro: filter_none)




section \<open>The lookup in the run of the handler\<close>

text \<open>
  C3. Every run of the load handler ends: it throws what the first read of an identifier
  that throws raised, and returns otherwise. What it adds to the log holds at most one
  request. The request is made exactly when \<open>getTmdbID\<close> returned null and a film was
  found in the address, and it is the request for that film. When \<open>getTmdbID\<close> returned an
  identifier, no request is made and that identifier is the one handed to the provider
  (which is called when the query is not empty and a provider was supplied). A run in
  which a read throws makes no request.
\<close>

theorem lookup_at_most_once:
  "\<exists>new.
     trace_of (onload w) = trace w @ new
   \<and> fst (onload w) = (case page_ids w of Inl e \<Rightarrow> Inl e | Inr p \<Rightarrow> Inr ())
   \<and> length (filter is_fetch new) \<le> 1
   \<and> filter is_fetch new
       = (case page_ids w of
            Inl e \<Rightarrow> []
          | Inr (i, Some t) \<Rightarrow> []
          | Inr (i, None) \<Rightarrow>
              (case page_film w of None \<Rightarrow> [] | Some f \<Rightarrow> [Fetch (request_for f)]))
   \<and> (case page_ids w of
          Inl e \<Rightarrow> True
        | Inr (i, None) \<Rightarrow> True
        | Inr (i, Some t) \<Rightarrow>
            filter is_call new = (if page_query w = [] then [] else provider_calls w i (JStr t)))"
proof (cases "page_ids w")
  case (Inl e)
  from onload_thrown[OF Inl] obtain init reads where
    on: "fst (onload w) = Inl e"
    and tr: "trace (snd (onload w)) = trace w @ init @ reads"
    and i2: "\<exists>evs. init = Create ''#text'' # Create ''style'' # Mutate ''head.append'' # evs
        \<and> list_all (\<lambda>e. e \<in> set [Create ''section'', Query ''#watch'', Mutate ''watch.replaceWith'']) evs"
    and rd: "list_all is_page_read reads"
    by blast
  define new where "new = init @ reads"
  have f: "filter is_fetch new = []"
    by (simp add: new_def init_filters(1)[OF i2] reads_filters(1)[OF rd])
  have 1: "trace_of (onload w) = trace w @ new" by (simp add: trace_of_def tr new_def)
  have 2: "fst (onload w) = (case page_ids w of Inl e \<Rightarrow> Inl e | Inr p \<Rightarrow> Inr ())"
    by (simp add: Inl on)
  have 3: "length (filter is_fetch new) \<le> 1" by (simp add: f)
  have 4: "filter is_fetch new
       = (case page_ids w of
            Inl e \<Rightarrow> []
          | Inr (i, Some t) \<Rightarrow> []
          | Inr (i, None) \<Rightarrow>
              (case page_film w of None \<Rightarrow> [] | Some f \<Rightarrow> [Fetch (request_for f)]))"
    by (simp add: Inl f)
  have 5: "case page_ids w of
          Inl e \<Rightarrow> True
        | Inr (i, None) \<Rightarrow> True
        | Inr (i, Some t) \<Rightarrow>
            filter is_call new = (if page_query w = [] then [] else provider_calls w i (JStr t))"
    by (simp add: Inl)
  from 1 2 3 4 5
  have "trace_of (onload w) = trace w @ new
   \<and> fst (onload w) = (case page_ids w of Inl e \<Rightarrow> Inl e | Inr p \<Rightarrow> Inr ())
   \<and> length (filter is_fetch new) \<le> 1
   \<and> filter is_fetch new
       = (case page_ids w of
            Inl e \<Rightarrow> []
          | Inr (i, Some t) \<Rightarrow> []
          | Inr (i, None) \<Rightarrow>
              (case page_film w of None \<Rightarrow> [] | Some f \<Rightarrow> [Fetch (request_for f)]))
   \<and> (case page_ids w of
          Inl e \<Rightarrow> True
        | Inr (i, None) \<Rightarrow> True
        | Inr (i, Some t) \<Rightarrow>
            filter is_call new = (if page_query w = [] then [] else provider_calls w i (JStr t)))"
    by (intro conjI)
  then show ?thesis by (intro exI)
next
  case (Inr p)
  obtain i t where p: "p = (i, t)" by (cases p)
  with Inr have ids: "page_ids w = Inr (i, t)" by simp
  then have im: "page_imdb w = Inr i" and tm: "page_tmdb w = Inr t"
    by (simp_all add: page_ids_cases(2))
  from onload_phases[OF im tm] obtain w' x init reads look render where
    on: "onload w = (Inr (), w')"
    and tr: "trace w' = trace w @ init @ reads @ look @ render"
    and i2: "\<exists>evs. init = Create ''#text'' # Create ''style'' # Mutate ''head.append'' # evs
        \<and> list_all (\<lambda>e. e \<in> set [Create ''section'', Query ''#watch'', Mutate ''watch.replaceWith'']) evs"
    and rd: "list_all is_page_read reads"
    and lk: "case t of
          Some s \<Rightarrow> x = JStr s \<and> look = []
        | None \<Rightarrow>
            (case page_film w of
               None \<Rightarrow> x = JNull \<and> look = [ReadLocation]
             | Some f \<Rightarrow> returned (fetchTmdbIdFromLetterboxd (units f) w) = Some x
                 \<and> (\<exists>d. look = ReadLocation # Fetch (request_for f) # d \<and> list_all is_lookup_diagnostic d))"
    and r1: "filter is_fetch render = []"
    and r2: "filter is_call render
       = (if page_query w = [] \<or> (i = None \<and> \<not> truthy x) then [] else provider_calls w i x)"
    by blast
  define new where "new = init @ reads @ look @ render"
  have diag: "list_all is_lookup_diagnostic d \<Longrightarrow> filter is_fetch d = []" for d
    using lookup_diagnostic_kind console_kind by (induction d) auto
  have lf: "filter is_fetch look
       = (case t of
            Some s \<Rightarrow> []
          | None \<Rightarrow> (case page_film w of None \<Rightarrow> [] | Some f \<Rightarrow> [Fetch (request_for f)]))"
    using lk diag by (auto split: option.splits)
  have f: "filter is_fetch new
       = (case t of
            Some s \<Rightarrow> []
          | None \<Rightarrow> (case page_film w of None \<Rightarrow> [] | Some f \<Rightarrow> [Fetch (request_for f)]))"
    by (simp add: new_def init_filters(1)[OF i2] reads_filters(1)[OF rd] r1 lf)
  have 1: "trace_of (onload w) = trace w @ new" by (simp add: trace_of_def on tr new_def)
  have 2: "fst (onload w) = (case page_ids w of Inl e \<Rightarrow> Inl e | Inr p \<Rightarrow> Inr ())"
    by (simp add: ids on)
  have 3: "length (filter is_fetch new) \<le> 1" by (simp add: f split: option.splits)
  have 4: "filter is_fetch new
       = (case page_ids w of
            Inl e \<Rightarrow> []
          | Inr (i, Some t) \<Rightarrow> []
          | Inr (i, None) \<Rightarrow>
              (case page_film w of None \<Rightarrow> [] | Some f \<Rightarrow> [Fetch (request_for f)]))"
    by (simp add: ids f split: option.splits)
  have 5: "case page_ids w of
          Inl e \<Rightarrow> True
        | Inr (i, None) \<Rightarrow> True
        | Inr (i, Some t) \<Rightarrow>
            filter is_call new = (if page_query w = [] then [] else provider_calls w i (JStr t))"
  proof (cases t)
    case None
    then show ?thesis by (simp add: ids)
  next
    case (Some s)
    with lk have x: "x = JStr s" and l0: "look = []" by simp_all
    from page_tmdb_nonempty[OF tm] Some have "truthy (JStr s)" by simp
    with r2 x have "filter is_call render = (if page_query w = [] then [] else provider_calls w i (JStr s))"
      by simp
    with Some l0 show ?thesis
      by (simp add: ids new_def init_filters(2)[OF i2] reads_filters(2)[OF rd])
  qed
  from 1 2 3 4 5
  have "trace_of (onload w) = trace w @ new
   \<and> fst (onload w) = (case page_ids w of Inl e \<Rightarrow> Inl e | Inr p \<Rightarrow> Inr ())
   \<and> length (filter is_fetch new) \<le> 1
   \<and> filter is_fetch new
       = (case page_ids w of
            Inl e \<Rightarrow> []
          | Inr (i, Some t) \<Rightarrow> []
          | Inr (i, None) \<Rightarrow>
              (case page_film w of None \<Rightarrow> [] | Some f \<Rightarrow> [Fetch (request_for f)]))
   \<and> (case page_ids w of
          Inl e \<Rightarrow> True
        | Inr (i, None) \<Rightarrow> True
        | Inr (i, Some t) \<Rightarrow>
            filter is_call new = (if page_query w = [] then [] else provider_calls w i (JStr t)))"
    by (intro conjI)
  then show ?thesis by (intro exI)
qed

text \<open>
  On the page whose buttons lack the second identifier the run makes the one request, for
  the film of the address; on the film page it makes none and calls the provider with the
  identifier of the page; on the page whose buttons are SVG anchors it throws and makes
  none.
\<close>

theorem lookup_at_most_once_witness:
  "page_ids lookup_page = Inr (Some ''tt0113277'', None)
 \<and> page_film lookup_page = Some ''heat-1995''
 \<and> fst (onload lookup_page) = Inr ()
 \<and> filter is_fetch (trace_of (onload lookup_page)) = [Fetch (tmdb_search ''heat-1995'')]
 \<and> page_ids film_page = Inr (Some ''tt0113277'', Some ''949'') \<and> page_query film_page = ''Heat''
 \<and> fst (onload film_page) = Inr ()
 \<and> filter is_fetch (trace_of (onload film_page)) = []
 \<and> filter is_call (trace_of (onload film_page))
     = provider_calls film_page (Some ''tt0113277'') (JStr ''949'')
 \<and> page_ids svg_page = Inl TypeError
 \<and> fst (onload svg_page) = Inl TypeError
 \<and> filter is_fetch (trace_of (onload svg_page)) = []"
proof -
  have a: "page_ids lookup_page = Inr (Some ''tt0113277'', None)" by code_simp
  have b: "page_film lookup_page = Some ''heat-1995''" by code_simp
  have c: "trace lookup_page = []" by code_simp
  from lookup_at_most_once[of lookup_page] obtain new where
    h: "trace_of (onload lookup_page) = trace lookup_page @ new"
       "fst (onload lookup_page) = (case page_ids lookup_page of Inl e \<Rightarrow> Inl e | Inr p \<Rightarrow> Inr ())"
       "filter is_fetch new
          = (case page_ids lookup_page of
               Inl e \<Rightarrow> []
             | Inr (i, Some t) \<Rightarrow> []
             | Inr (i, None) \<Rightarrow>
                 (case page_film lookup_page of None \<Rightarrow> [] | Some f \<Rightarrow> [Fetch (request_for f)]))"
    by blast
  from h(2) a have 0: "fst (onload lookup_page) = Inr ()" by simp
  from h(1) h(3) a b c
  have 1: "filter is_fetch (trace_of (onload lookup_page)) = [Fetch (tmdb_search ''heat-1995'')]"
    by (simp add: request_for_examples(1))
  have d: "page_ids film_page = Inr (Some ''tt0113277'', Some ''949'')" by code_simp
  have e: "page_query film_page = ''Heat''" by code_simp
  have f: "trace film_page = []" by code_simp
  from lookup_at_most_once[of film_page] obtain new' where
    k: "trace_of (onload film_page) = trace film_page @ new'"
       "fst (onload film_page) = (case page_ids film_page of Inl e \<Rightarrow> Inl e | Inr p \<Rightarrow> Inr ())"
       "filter is_fetch new'
          = (case page_ids film_page of
               Inl e \<Rightarrow> []
             | Inr (i, Some t) \<Rightarrow> []
             | Inr (i, None) \<Rightarrow>
                 (case page_film film_page of None \<Rightarrow> [] | Some f \<Rightarrow> [Fetch (request_for f)]))"
       "case page_ids film_page of
          Inl e \<Rightarrow> True
        | Inr (i, None) \<Rightarrow> True
        | Inr (i, Some t) \<Rightarrow>
            filter is_call new'
              = (if page_query film_page = [] then [] else provider_calls film_page i (JStr t))"
    by blast
  from k(2) d have 2: "fst (onload film_page) = Inr ()" by simp
  from k(1) k(3) k(4) d e f have 3: "filter is_fetch (trace_of (onload film_page)) = []"
    and 4: "filter is_call (trace_of (onload film_page))
              = provider_calls film_page (Some ''tt0113277'') (JStr ''949'')"
    by simp_all
  have g: "page_ids svg_page = Inl TypeError" by code_simp
  have g': "trace svg_page = []" by code_simp
  from lookup_at_most_once[of svg_page] obtain new'' where
    m: "trace_of (onload svg_page) = trace svg_page @ new''"
       "fst (onload svg_page) = (case page_ids svg_page of Inl e \<Rightarrow> Inl e | Inr p \<Rightarrow> Inr ())"
       "filter is_fetch new''
          = (case page_ids svg_page of
               Inl e \<Rightarrow> []
             | Inr (i, Some t) \<Rightarrow> []
             | Inr (i, None) \<Rightarrow>
                 (case page_film svg_page of None \<Rightarrow> [] | Some f \<Rightarrow> [Fetch (request_for f)]))"
    by blast
  from m(2) g have 5: "fst (onload svg_page) = Inl TypeError" by simp
  from m(1) m(3) g g' have 6: "filter is_fetch (trace_of (onload svg_page)) = []" by simp
  from a b 0 1 d e 2 3 4 g 5 6 show ?thesis by (intro conjI)
qed

section \<open>The order of the run\<close>




section \<open>What the handler renders\<close>





end
